theory Spec2Isabelle
  imports Complex_Main "HOL-Library.Sublist"
begin

section \<open>Values of the host: JSON, errors, promises\<close>

text \<open>
  The portal controller (static/js/portal.js) is a browser script: it reacts to events
  of the page, and every wait (\<open>await\<close>, a geolocation callback) hands control back to
  the event loop. The model is a state machine over the page state: every function of
  the source runs from one suspension point to the next, and the answers of the browser
  (a geolocation fix, a response, a parsed body, a timer tick, a click) are events.

  A parsed JSON body. Numbers are restricted to integers (the data model gives
  \<open>distance_m\<close>, \<open>id\<close> and \<open>click_count\<close> as integers), and \<open>JNum n\<close> stands
  for a number only when the magnitude of \<open>n\<close> is below \<open>2^53\<close>: these are the
  integers that \<open>JSON.parse\<close> reads exactly, and on them the number-to-string
  conversion of a template literal is the decimal notation. Fractions, and integers that
  JavaScript would round or print with an exponent (from \<open>10^21\<close> on), are outside the
  model; no result below prints a number of that size. An object is the list of
  its own properties after parsing (keys distinct). \<open>undefined\<close> is \<open>None\<close> of
  \<open>json option\<close>.
\<close>

datatype json =
    JNull
  | JBool bool
  | JNum int
  | JStr string
  | JArr "json list"
  | JObj "(string \<times> json) list"

datatype js_error =
    Error string
  | TypeError string
  | SyntaxError string

text \<open>How a promise settles; \<open>await\<close> continues on \<open>Fulfilled\<close> and throws on \<open>Rejected\<close>.\<close>

datatype 'a settled = Fulfilled 'a | Rejected js_error

subsection \<open>Numbers as text\<close>

definition digit_char :: "nat \<Rightarrow> char" where
  "digit_char d = ''0123456789'' ! (d mod 10)"

function show_nat :: "nat \<Rightarrow> string" where
  "show_nat n = (if n < 10 then [digit_char n] else show_nat (n div 10) @ [digit_char (n mod 10)])"
  by pat_completeness auto
termination
  by (relation "measure id") auto

declare show_nat.simps [simp del]

definition show_int :: "int \<Rightarrow> string" where
  "show_int i = (if i < 0 then CHR ''-'' # show_nat (nat (- i)) else show_nat (nat i))"

text \<open>\<open>Math.round\<close>: the nearest integer, ties towards plus infinity.\<close>

definition Math_round :: "real \<Rightarrow> int" where
  "Math_round x = \<lfloor>x + 1 / 2\<rfloor>"

text \<open>
  \<open>Number.prototype.toFixed(6)\<close> on a real: the integer \<open>n\<close> nearest to
  \<open>x * 10^6\<close> (the larger one on a tie), printed with six decimals; a negative
  argument prints the sign and then its absolute value.
\<close>

definition pad6 :: "string \<Rightarrow> string" where
  "pad6 s = replicate (6 - length s) CHR ''0'' @ s"

definition toFixed6 :: "real \<Rightarrow> string" where
  "toFixed6 x =
     (let n = nat \<lfloor>\<bar>x\<bar> * 1000000 + 1 / 2\<rfloor>
      in (if x < 0 then ''-'' else '''') @ show_nat (n div 1000000) @ ''.'' @
         pad6 (show_nat (n mod 1000000)))"

subsection \<open>Conversions of JSON values\<close>

text \<open>
  \<open>ToString\<close> of a parsed value, as a template literal and a DOM attribute apply it.
  An array joins its elements with commas, \<open>null\<close> elements as the empty string. A
  parsed object prints as \<open>[object Object]\<close>, unless it has an own property
  \<open>toString\<close>: that property is never callable, the inherited \<open>valueOf\<close> returns
  the object itself, and the conversion throws a \<open>TypeError\<close>.
\<close>

fun to_string :: "json \<Rightarrow> js_error + string"
  and join_elements :: "json list \<Rightarrow> js_error + string"
  and element_string :: "json \<Rightarrow> js_error + string" where
  "to_string JNull = Inr ''null''"
| "to_string (JBool b) = Inr (if b then ''true'' else ''false'')"
| "to_string (JNum n) = Inr (show_int n)"
| "to_string (JStr s) = Inr s"
| "to_string (JArr xs) = join_elements xs"
| "to_string (JObj kvs) =
     (if ''toString'' \<in> fst ` set kvs
      then Inl (TypeError ''Cannot convert object to primitive value'')
      else Inr ''[object Object]'')"
| "join_elements [] = Inr ''''"
| "join_elements [x] = element_string x"
| "join_elements (x # y # ys) =
     (case element_string x of
        Inl e \<Rightarrow> Inl e
      | Inr s \<Rightarrow> (case join_elements (y # ys) of
                   Inl e \<Rightarrow> Inl e
                 | Inr t \<Rightarrow> Inr (s @ '','' @ t)))"
| "element_string JNull = Inr ''''"
| "element_string (JBool b) = to_string (JBool b)"
| "element_string (JNum n) = to_string (JNum n)"
| "element_string (JStr s) = to_string (JStr s)"
| "element_string (JArr xs) = to_string (JArr xs)"
| "element_string (JObj kvs) = to_string (JObj kvs)"

text \<open>\<open>ToString\<close> of a value that may be \<open>undefined\<close>.\<close>

definition to_string_val :: "json option \<Rightarrow> js_error + string" where
  "to_string_val v = (case v of None \<Rightarrow> Inr ''undefined'' | Some j \<Rightarrow> to_string j)"

text \<open>
  The conversion of an assigned value to a nullable DOM string (\<open>textContent\<close>):
  \<open>null\<close> and \<open>undefined\<close> become the empty string.
\<close>

definition to_nullable_dom_string :: "json option \<Rightarrow> js_error + string" where
  "to_nullable_dom_string v =
     (case v of None \<Rightarrow> Inr '''' | Some JNull \<Rightarrow> Inr '''' | Some j \<Rightarrow> to_string j)"

text \<open>
  Property read \<open>data.key\<close> for the keys the source reads (\<open>title\<close>, \<open>image_url\<close>,
  \<open>target_url\<close>, \<open>ok\<close>, \<open>venue\<close>, \<open>name\<close>, \<open>category\<close>, \<open>distance_m\<close>,
  \<open>is_authenticated\<close>; none of them is defined on a prototype): reading from
  \<open>null\<close> throws, reading from another primitive or an array gives \<open>undefined\<close>.
\<close>

definition get_prop :: "json \<Rightarrow> string \<Rightarrow> js_error + json option" where
  "get_prop data key =
     (case data of
        JNull \<Rightarrow> Inl (TypeError (''Cannot read properties of null (reading '' @ key @ '')''))
      | JObj kvs \<Rightarrow> Inr (map_of kvs key)
      | _ \<Rightarrow> Inr None)"

text \<open>The same read from a value that may be \<open>undefined\<close>.\<close>

definition get_prop_val :: "json option \<Rightarrow> string \<Rightarrow> js_error + json option" where
  "get_prop_val v key =
     (case v of
        None \<Rightarrow> Inl (TypeError (''Cannot read properties of undefined (reading '' @ key @ '')''))
      | Some data \<Rightarrow> get_prop data key)"

text \<open>Truthiness, as \<open>if (data.ok)\<close> and \<open>if (data.venue)\<close> test it.\<close>

definition truthy :: "json option \<Rightarrow> bool" where
  "truthy v =
     (case v of
        None \<Rightarrow> False
      | Some JNull \<Rightarrow> False
      | Some (JBool b) \<Rightarrow> b
      | Some (JNum n) \<Rightarrow> n \<noteq> 0
      | Some (JStr s) \<Rightarrow> s \<noteq> []
      | Some (JArr xs) \<Rightarrow> True
      | Some (JObj kvs) \<Rightarrow> True)"

text \<open>The nullish test of \<open>??\<close>.\<close>

definition nullish :: "json option \<Rightarrow> bool" where
  "nullish v = (v = None \<or> v = Some JNull)"

section \<open>The page state\<close>

text \<open>
  An element of the page, with the properties the script writes. Elements are never
  removed, so a handle returned by \<open>$\<close> is the element's id.
\<close>

record element =
  style_display :: string
  textContent :: string
  src :: string
  alt :: string
  href :: string
  disabled :: bool

text \<open>\<open>pos.coords\<close> of a geolocation fix, and the cached \<open>lastGeo\<close>.\<close>

record coords =
  coords_latitude :: real
  coords_longitude :: real
  coords_accuracy :: real

record geo_fix =
  latitude :: real
  longitude :: real
  accuracy_m :: int

record position_options =
  enableHighAccuracy :: bool
  timeout :: nat
  maximumAge :: nat

record response =
  status :: nat
  statusText :: string

text \<open>\<open>response.ok\<close>\<close>

definition ok :: "response \<Rightarrow> bool" where
  "ok res = (200 \<le> status res \<and> status res \<le> 299)"

text \<open>
  What the script reads of \<open>navigator\<close>. \<open>initPortal\<close> tests
  \<open>"geolocation" in navigator\<close> and \<open>tryGetGeo\<close> tests \<open>!navigator.geolocation\<close>;
  the two tests are kept apart. \<open>sendBeacon\<close> is the truth value of
  \<open>navigator.sendBeacon\<close>.
\<close>

record navigator =
  userAgent :: string
  geolocation_in_navigator :: bool
  geolocation :: bool
  sendBeacon :: bool

text \<open>The two event names of a heartbeat, \<open>"ping"\<close> and \<open>"leave"\<close>.\<close>

datatype ping_event = Ping | Leave

text \<open>
  The object a request serialises with \<open>JSON.stringify\<close>:
  \<open>{latitude, longitude, user_agent, local_time}\<close>,
  \<open>{latitude, longitude, accuracy_m}\<close>, \<open>{latitude, longitude, accuracy_m, event}\<close>
  and \<open>{}\<close>; \<open>None\<close> is \<open>null\<close>.
\<close>

datatype body =
    AdApiPayload "real option" "real option" string nat
  | AcceptPayload "real option" "real option" "int option"
  | PingPayload "real option" "real option" "int option" ping_event
  | EmptyObject

text \<open>
  The repository holds two builds of the script, which differ in \<open>acceptPortal\<close>
  only: static/js/portal.js and the unnamed file part_000.
\<close>

datatype source_file = Portal_js | Part_000

text \<open>
  The suspension points of the script. A \<open>geo_waiter\<close> is an \<open>await tryGetGeo()\<close>;
  a \<open>cont\<close> is what runs when the browser answers an operation in flight.
\<close>

datatype geo_waiter = PostVisitPing_await ping_event | AcceptPortal_await

datatype cont =
    InitPortal_position
  | TryGetGeo_position geo_waiter
  | RequestAd_fetch
  | RequestAd_json
  | PostVisitPing_fetch
  | AcceptPortal_fetch
  | AcceptPortal_json
  | AcceptPortalAlt_fetch
  | AcceptPortalAlt_json

datatype target = Window | Document | Element string

datatype listener = OnDOMContentLoaded | OnAcceptClick | OnLeave | OnVisibilityChange

datatype callback = PingTick

datatype console_arg = ArgError js_error | ArgNum nat | ArgStr string | ArgJson json

text \<open>
  Every call into the host, in the order the script makes it. All requests are
  \<open>POST\<close> with \<open>Content-Type: application/json\<close>; \<open>Fetch\<close> records the operation
  id, the URL, the body and \<open>keepalive\<close>, \<open>SendBeacon\<close> the URL, the contents of the
  blob and its type.
\<close>

datatype effect =
    SetTextContent string string
  | SetStyleDisplay string string
  | SetSrc string string
  | SetAlt string string
  | SetHref string string
  | SetDisabled string bool
  | Fetch nat string body bool
  | SendBeacon string body string
  | ReadJson nat
  | GetCurrentPosition nat position_options
  | SetInterval nat nat
  | AddEventListener target string
  | Console string string "console_arg list"

record world =
  loaded :: source_file
  nav :: navigator
  hours :: nat
  visibilityState :: string
  elems :: "string \<Rightarrow> element option"
  lastGeo :: "geo_fix option"
  visitPingTimer :: "nat option"
  listeners :: "(target \<times> string \<times> listener) list"
  intervals :: "(nat \<times> nat \<times> callback) list"
  next_timer :: nat
  pending :: "(nat \<times> cont) list"
  next_id :: nat
  microtasks :: "(geo_waiter \<times> geo_fix option settled) list"
  trace :: "effect list"
  unhandled :: "js_error list"

text \<open>
  A statement that may throw: the error, if any, and the state at that point.
\<close>

type_synonym completion = "js_error option \<times> world"

section \<open>Host operations\<close>

definition emit :: "effect \<Rightarrow> world \<Rightarrow> world" where
  "emit e w = w\<lparr>trace := trace w @ [e]\<rparr>"

text \<open>
  An error nobody catches: the rejection of a promise called with \<open>void\<close>, or an
  exception leaving a callback.
\<close>

definition reject :: "js_error \<Rightarrow> world \<Rightarrow> world" where
  "reject e w = w\<lparr>unhandled := unhandled w @ [e]\<rparr>"

definition update_element :: "string \<Rightarrow> (element \<Rightarrow> element) \<Rightarrow> world \<Rightarrow> world" where
  "update_element el f w = w\<lparr>elems := (elems w)(el := map_option f (elems w el))\<rparr>"

definition set_textContent :: "string \<Rightarrow> string \<Rightarrow> world \<Rightarrow> world" where
  "set_textContent el text w =
     emit (SetTextContent el text) (update_element el (\<lambda>e. e\<lparr>textContent := text\<rparr>) w)"

definition set_style_display :: "string \<Rightarrow> string \<Rightarrow> world \<Rightarrow> world" where
  "set_style_display el v w =
     emit (SetStyleDisplay el v) (update_element el (\<lambda>e. e\<lparr>style_display := v\<rparr>) w)"

definition set_src :: "string \<Rightarrow> string \<Rightarrow> world \<Rightarrow> world" where
  "set_src el v w = emit (SetSrc el v) (update_element el (\<lambda>e. e\<lparr>src := v\<rparr>) w)"

definition set_alt :: "string \<Rightarrow> string \<Rightarrow> world \<Rightarrow> world" where
  "set_alt el v w = emit (SetAlt el v) (update_element el (\<lambda>e. e\<lparr>alt := v\<rparr>) w)"

definition set_href :: "string \<Rightarrow> string \<Rightarrow> world \<Rightarrow> world" where
  "set_href el v w = emit (SetHref el v) (update_element el (\<lambda>e. e\<lparr>href := v\<rparr>) w)"

definition set_disabled :: "string \<Rightarrow> bool \<Rightarrow> world \<Rightarrow> world" where
  "set_disabled el v w =
     emit (SetDisabled el v) (update_element el (\<lambda>e. e\<lparr>disabled := v\<rparr>) w)"

text \<open>\<open>fetch\<close>: the request leaves at once; \<open>k\<close> runs when it settles.\<close>

definition fetch :: "string \<Rightarrow> body \<Rightarrow> bool \<Rightarrow> cont \<Rightarrow> world \<Rightarrow> world" where
  "fetch url payload keepalive k w =
     (let i = next_id w
      in emit (Fetch i url payload keepalive)
           (w\<lparr>next_id := i + 1, pending := pending w @ [(i, k)]\<rparr>))"

text \<open>\<open>response.json()\<close>\<close>

definition read_json :: "cont \<Rightarrow> world \<Rightarrow> world" where
  "read_json k w =
     (let i = next_id w
      in emit (ReadJson i) (w\<lparr>next_id := i + 1, pending := pending w @ [(i, k)]\<rparr>))"

definition getCurrentPosition :: "cont \<Rightarrow> position_options \<Rightarrow> world \<Rightarrow> world" where
  "getCurrentPosition k opts w =
     (let i = next_id w
      in emit (GetCurrentPosition i opts)
           (w\<lparr>next_id := i + 1, pending := pending w @ [(i, k)]\<rparr>))"

definition setInterval :: "callback \<Rightarrow> nat \<Rightarrow> world \<Rightarrow> nat \<times> world" where
  "setInterval cb ms w =
     (let h = next_timer w
      in (h, emit (SetInterval h ms)
               (w\<lparr>next_timer := h + 1, intervals := intervals w @ [(h, ms, cb)]\<rparr>)))"

definition addEventListener :: "target \<Rightarrow> string \<Rightarrow> listener \<Rightarrow> world \<Rightarrow> world" where
  "addEventListener t ty l w =
     emit (AddEventListener t ty) (w\<lparr>listeners := listeners w @ [(t, ty, l)]\<rparr>)"

section \<open>The script\<close>

subsection \<open>Status texts\<close>

text \<open>
  The literals of the source are Chinese; each constant is the UTF-8 encoding of the
  literal, with its meaning beside it.
\<close>

text \<open>requestAd: status while the ad request is in flight ("requesting recommended ad...").\<close>

definition msg_ad_requesting :: string where
  "msg_ad_requesting =
    [CHR 0xE6, CHR 0xAD, CHR 0xA3, CHR 0xE5, CHR 0x9C, CHR 0xA8, CHR 0xE8, CHR 0x8E, CHR 0xB7,
     CHR 0xE5, CHR 0x8F, CHR 0x96, CHR 0xE6, CHR 0x8E, CHR 0xA8, CHR 0xE8, CHR 0x8D, CHR 0x90,
     CHR 0xE5, CHR 0xB9, CHR 0xBF, CHR 0xE5, CHR 0x91, CHR 0x8A, CHR ''.'', CHR ''.'', CHR ''.'']"

text \<open>requestAd, HTTP 204: "no targeted ad matched, showing the generic notice".\<close>

definition msg_ad_empty :: string where
  "msg_ad_empty =
    [CHR 0xE5, CHR 0xBD, CHR 0x93, CHR 0xE5, CHR 0x89, CHR 0x8D, CHR 0xE6, CHR 0xB2, CHR 0xA1,
     CHR 0xE6, CHR 0x9C, CHR 0x89, CHR 0xE5, CHR 0x8C, CHR 0xB9, CHR 0xE9, CHR 0x85, CHR 0x8D,
     CHR 0xE5, CHR 0x88, CHR 0xB0, CHR 0xE5, CHR 0xAE, CHR 0x9A, CHR 0xE5, CHR 0x90, CHR 0x91,
     CHR 0xE5, CHR 0xB9, CHR 0xBF, CHR 0xE5, CHR 0x91, CHR 0x8A, CHR 0xEF, CHR 0xBC, CHR 0x8C,
     CHR 0xE5, CHR 0xB1, CHR 0x95, CHR 0xE7, CHR 0xA4, CHR 0xBA, CHR 0xE9, CHR 0x80, CHR 0x9A,
     CHR 0xE7, CHR 0x94, CHR 0xA8, CHR 0xE6, CHR 0x8F, CHR 0x90, CHR 0xE7, CHR 0xA4, CHR 0xBA,
     CHR 0xE3, CHR 0x80, CHR 0x82]"

text \<open>requestAd, ad rendered: "an ad has been matched for you".\<close>

definition msg_ad_found :: string where
  "msg_ad_found =
    [CHR 0xE5, CHR 0xB7, CHR 0xB2, CHR 0xE4, CHR 0xB8, CHR 0xBA, CHR 0xE4, CHR 0xBD, CHR 0xA0,
     CHR 0xE5, CHR 0x8C, CHR 0xB9, CHR 0xE9, CHR 0x85, CHR 0x8D, CHR 0xE5, CHR 0x88, CHR 0xB0,
     CHR 0xE4, CHR 0xB8, CHR 0x93, CHR 0xE5, CHR 0xB1, CHR 0x9E, CHR 0xE5, CHR 0xB9, CHR 0xBF,
     CHR 0xE5, CHR 0x91, CHR 0x8A]"

text \<open>requestAd, catch block: "ad load failed".\<close>

definition msg_ad_failed :: string where
  "msg_ad_failed =
    [CHR 0xE5, CHR 0x8A, CHR 0xA0, CHR 0xE8, CHR 0xBD, CHR 0xBD, CHR 0xE5, CHR 0xB9, CHR 0xBF,
     CHR 0xE5, CHR 0x91, CHR 0x8A, CHR 0xE5, CHR 0xA4, CHR 0xB1, CHR 0xE8, CHR 0xB4, CHR 0xA5]"

text \<open>acceptPortal: "submitting authentication...".\<close>

definition msg_accept_submitting :: string where
  "msg_accept_submitting =
    [CHR 0xE6, CHR 0xAD, CHR 0xA3, CHR 0xE5, CHR 0x9C, CHR 0xA8, CHR 0xE6, CHR 0x8F, CHR 0x90,
     CHR 0xE4, CHR 0xBA, CHR 0xA4, CHR 0xE8, CHR 0xAE, CHR 0xA4, CHR 0xE8, CHR 0xAF, CHR 0x81,
     CHR ''.'', CHR ''.'', CHR ''.'']"

text \<open>acceptPortal template, before v.name: "authenticated. attributed venue:".\<close>

definition msg_accept_venue_1 :: string where
  "msg_accept_venue_1 =
    [CHR 0xE8, CHR 0xAE, CHR 0xA4, CHR 0xE8, CHR 0xAF, CHR 0x81, CHR 0xE6, CHR 0x88, CHR 0x90,
     CHR 0xE5, CHR 0x8A, CHR 0x9F, CHR 0xE3, CHR 0x80, CHR 0x82, CHR 0xE5, CHR 0xBD, CHR 0x92,
     CHR 0xE5, CHR 0x9B, CHR 0xA0, CHR 0xE5, CHR 0xBA, CHR 0x97, CHR 0xE9, CHR 0x93, CHR 0xBA,
     CHR 0xEF, CHR 0xBC, CHR 0x9A]"

text \<open>acceptPortal template, between v.name and v.category (full-width opening parenthesis).\<close>

definition msg_accept_venue_2 :: string where
  "msg_accept_venue_2 =
    [CHR 0xEF, CHR 0xBC, CHR 0x88]"

text \<open>acceptPortal template, between v.category and the distance: "), distance about ".\<close>

definition msg_accept_venue_3 :: string where
  "msg_accept_venue_3 =
    [CHR 0xEF, CHR 0xBC, CHR 0x89, CHR 0xEF, CHR 0xBC, CHR 0x8C, CHR 0xE8, CHR 0xB7, CHR 0x9D,
     CHR 0xE7, CHR 0xA6, CHR 0xBB, CHR 0xE7, CHR 0xBA, CHR 0xA6, CHR '' '']"

text \<open>acceptPortal, ok without venue: "authenticated, but no nearby venue matched (...)".\<close>

definition msg_accept_no_venue :: string where
  "msg_accept_no_venue =
    [CHR 0xE8, CHR 0xAE, CHR 0xA4, CHR 0xE8, CHR 0xAF, CHR 0x81, CHR 0xE6, CHR 0x88, CHR 0x90,
     CHR 0xE5, CHR 0x8A, CHR 0x9F, CHR 0xE3, CHR 0x80, CHR 0x82, CHR 0xE4, CHR 0xBD, CHR 0x86,
     CHR 0xE6, CHR 0x9C, CHR 0xAA, CHR 0xE5, CHR 0x91, CHR 0xBD, CHR 0xE4, CHR 0xB8, CHR 0xAD,
     CHR 0xE9, CHR 0x99, CHR 0x84, CHR 0xE8, CHR 0xBF, CHR 0x91, CHR 0xE5, CHR 0xBA, CHR 0x97,
     CHR 0xE9, CHR 0x93, CHR 0xBA, CHR 0xEF, CHR 0xBC, CHR 0x88, CHR 0xE5, CHR 0x8F, CHR 0xAF,
     CHR 0xE8, CHR 0x83, CHR 0xBD, CHR 0xE6, CHR 0x9C, CHR 0xAA, CHR 0xE6, CHR 0x8E, CHR 0x88,
     CHR 0xE6, CHR 0x9D, CHR 0x83, CHR 0xE5, CHR 0xAE, CHR 0x9A, CHR 0xE4, CHR 0xBD, CHR 0x8D,
     CHR 0xE6, CHR 0x88, CHR 0x96, CHR 0xE8, CHR 0xB7, CHR 0x9D, CHR 0xE7, CHR 0xA6, CHR 0xBB,
     CHR 0xE9, CHR 0x98, CHR 0x88, CHR 0xE5, CHR 0x80, CHR 0xBC, CHR 0xE8, CHR 0xBF, CHR 0x87,
     CHR 0xE5, CHR 0xB0, CHR 0x8F, CHR 0xEF, CHR 0xBC, CHR 0x89, CHR 0xE3, CHR 0x80, CHR 0x82]"

text \<open>acceptPortal, ok falsy: "authentication failed: abnormal status returned".\<close>

definition msg_accept_rejected :: string where
  "msg_accept_rejected =
    [CHR 0xE8, CHR 0xAE, CHR 0xA4, CHR 0xE8, CHR 0xAF, CHR 0x81, CHR 0xE5, CHR 0xA4, CHR 0xB1,
     CHR 0xE8, CHR 0xB4, CHR 0xA5, CHR 0xEF, CHR 0xBC, CHR 0x9A, CHR 0xE8, CHR 0xBF, CHR 0x94,
     CHR 0xE5, CHR 0x9B, CHR 0x9E, CHR 0xE7, CHR 0x8A, CHR 0xB6, CHR 0xE6, CHR 0x80, CHR 0x81,
     CHR 0xE5, CHR 0xBC, CHR 0x82, CHR 0xE5, CHR 0xB8, CHR 0xB8, CHR 0xE3, CHR 0x80, CHR 0x82]"

text \<open>acceptPortal, catch block: "authentication failed, please retry later".\<close>

definition msg_accept_failed :: string where
  "msg_accept_failed =
    [CHR 0xE8, CHR 0xAE, CHR 0xA4, CHR 0xE8, CHR 0xAF, CHR 0x81, CHR 0xE5, CHR 0xA4, CHR 0xB1,
     CHR 0xE8, CHR 0xB4, CHR 0xA5, CHR 0xEF, CHR 0xBC, CHR 0x8C, CHR 0xE8, CHR 0xAF, CHR 0xB7,
     CHR 0xE7, CHR 0xA8, CHR 0x8D, CHR 0xE5, CHR 0x90, CHR 0x8E, CHR 0xE9, CHR 0x87, CHR 0x8D,
     CHR 0xE8, CHR 0xAF, CHR 0x95, CHR 0xE3, CHR 0x80, CHR 0x82]"

text \<open>initPortal: "initialising...".\<close>

definition msg_init :: string where
  "msg_init =
    [CHR 0xE5, CHR 0x88, CHR 0x9D, CHR 0xE5, CHR 0xA7, CHR 0x8B, CHR 0xE5, CHR 0x8C, CHR 0x96,
     CHR 0xE4, CHR 0xB8, CHR 0xAD, CHR ''.'', CHR ''.'', CHR ''.'']"

text \<open>initPortal: "device does not support location, showing a generic ad".\<close>

definition msg_no_geolocation :: string where
  "msg_no_geolocation =
    [CHR 0xE8, CHR 0xAE, CHR 0xBE, CHR 0xE5, CHR 0xA4, CHR 0x87, CHR 0xE4, CHR 0xB8, CHR 0x8D,
     CHR 0xE6, CHR 0x94, CHR 0xAF, CHR 0xE6, CHR 0x8C, CHR 0x81, CHR 0xE5, CHR 0xAE, CHR 0x9A,
     CHR 0xE4, CHR 0xBD, CHR 0x8D, CHR 0xEF, CHR 0xBC, CHR 0x8C, CHR 0xE5, CHR 0xB1, CHR 0x95,
     CHR 0xE7, CHR 0xA4, CHR 0xBA, CHR 0xE9, CHR 0x80, CHR 0x9A, CHR 0xE7, CHR 0x94, CHR 0xA8,
     CHR 0xE5, CHR 0xB9, CHR 0xBF, CHR 0xE5, CHR 0x91, CHR 0x8A, CHR 0xE3, CHR 0x80, CHR 0x82]"

text \<open>initPortal: "requesting location...".\<close>

definition msg_locating :: string where
  "msg_locating =
    [CHR 0xE6, CHR 0xAD, CHR 0xA3, CHR 0xE5, CHR 0x9C, CHR 0xA8, CHR 0xE8, CHR 0xAF, CHR 0xB7,
     CHR 0xE6, CHR 0xB1, CHR 0x82, CHR 0xE4, CHR 0xBD, CHR 0x8D, CHR 0xE7, CHR 0xBD, CHR 0xAE,
     CHR 0xE4, CHR 0xBF, CHR 0xA1, CHR 0xE6, CHR 0x81, CHR 0xAF, CHR ''.'', CHR ''.'', CHR ''.'']"

text \<open>initPortal success callback template, first part: "located:".\<close>

definition msg_located_1 :: string where
  "msg_located_1 =
    [CHR 0xE5, CHR 0xAE, CHR 0x9A, CHR 0xE4, CHR 0xBD, CHR 0x8D, CHR 0xE6, CHR 0x88, CHR 0x90,
     CHR 0xE5, CHR 0x8A, CHR 0x9F, CHR 0xEF, CHR 0xBC, CHR 0x9A]"

text \<open>initPortal success callback template, before the accuracy.\<close>

definition msg_located_2 :: string where
  "msg_located_2 =
    [CHR 0xEF, CHR 0xBC, CHR 0x88, CHR ''a'', CHR ''c'', CHR ''c'', CHR ''='']"

text \<open>initPortal success callback template, last part.\<close>

definition msg_located_3 :: string where
  "msg_located_3 =
    [CHR ''m'', CHR 0xEF, CHR 0xBC, CHR 0x89]"

text \<open>initPortal error callback template, first part: "location failed: code=".\<close>

definition msg_locate_failed_1 :: string where
  "msg_locate_failed_1 =
    [CHR 0xE5, CHR 0xAE, CHR 0x9A, CHR 0xE4, CHR 0xBD, CHR 0x8D, CHR 0xE5, CHR 0xA4, CHR 0xB1,
     CHR 0xE8, CHR 0xB4, CHR 0xA5, CHR 0xEF, CHR 0xBC, CHR 0x9A, CHR ''c'', CHR ''o'',
     CHR ''d'', CHR ''e'', CHR ''='']"

text \<open>DOMContentLoaded handler, catch block: "initialisation failed".\<close>

definition msg_init_failed :: string where
  "msg_init_failed =
    [CHR 0xE5, CHR 0x88, CHR 0x9D, CHR 0xE5, CHR 0xA7, CHR 0x8B, CHR 0xE5, CHR 0x8C, CHR 0x96,
     CHR 0xE5, CHR 0xA4, CHR 0xB1, CHR 0xE8, CHR 0xB4, CHR 0xA5]"

text \<open>acceptPortal (second file) template: "authentication failed: status ".\<close>

definition msg_alt_http_failed :: string where
  "msg_alt_http_failed =
    [CHR 0xE8, CHR 0xAE, CHR 0xA4, CHR 0xE8, CHR 0xAF, CHR 0x81, CHR 0xE5, CHR 0xA4, CHR 0xB1,
     CHR 0xE8, CHR 0xB4, CHR 0xA5, CHR 0xEF, CHR 0xBC, CHR 0x9A, CHR 0xE8, CHR 0xBF, CHR 0x94,
     CHR 0xE5, CHR 0x9B, CHR 0x9E, CHR 0xE7, CHR 0x8A, CHR 0xB6, CHR 0xE6, CHR 0x80, CHR 0x81,
     CHR '' '']"

text \<open>acceptPortal (second file): "authentication not in effect, please retry later".\<close>

definition msg_alt_not_effective :: string where
  "msg_alt_not_effective =
    [CHR 0xE8, CHR 0xAE, CHR 0xA4, CHR 0xE8, CHR 0xAF, CHR 0x81, CHR 0xE6, CHR 0x9C, CHR 0xAA,
     CHR 0xE7, CHR 0x94, CHR 0x9F, CHR 0xE6, CHR 0x95, CHR 0x88, CHR 0xEF, CHR 0xBC, CHR 0x8C,
     CHR 0xE8, CHR 0xAF, CHR 0xB7, CHR 0xE7, CHR 0xA8, CHR 0x8D, CHR 0xE5, CHR 0x90, CHR 0x8E,
     CHR 0xE9, CHR 0x87, CHR 0x8D, CHR 0xE8, CHR 0xAF, CHR 0x95, CHR 0xE3, CHR 0x80, CHR 0x82]"

text \<open>acceptPortal (second file): "authenticated, you may continue to the internet".\<close>

definition msg_alt_success :: string where
  "msg_alt_success =
    [CHR 0xE8, CHR 0xAE, CHR 0xA4, CHR 0xE8, CHR 0xAF, CHR 0x81, CHR 0xE6, CHR 0x88, CHR 0x90,
     CHR 0xE5, CHR 0x8A, CHR 0x9F, CHR 0xEF, CHR 0xBC, CHR 0x8C, CHR 0xE4, CHR 0xBD, CHR 0xA0,
     CHR 0xE5, CHR 0x8F, CHR 0xAF, CHR 0xE4, CHR 0xBB, CHR 0xA5, CHR 0xE7, CHR 0xBB, CHR 0xA7,
     CHR 0xE7, CHR 0xBB, CHR 0xAD, CHR 0xE8, CHR 0xAE, CHR 0xBF, CHR 0xE9, CHR 0x97, CHR 0xAE,
     CHR 0xE4, CHR 0xBA, CHR 0x92, CHR 0xE8, CHR 0x81, CHR 0x94, CHR 0xE7, CHR 0xBD, CHR 0x91,
     CHR 0xE3, CHR 0x80, CHR 0x82]"

text \<open>acceptPortal (second file), catch block: "authentication failed: network or server error".\<close>

definition msg_alt_failed :: string where
  "msg_alt_failed =
    [CHR 0xE8, CHR 0xAE, CHR 0xA4, CHR 0xE8, CHR 0xAF, CHR 0x81, CHR 0xE5, CHR 0xA4, CHR 0xB1,
     CHR 0xE8, CHR 0xB4, CHR 0xA5, CHR 0xEF, CHR 0xBC, CHR 0x9A, CHR 0xE7, CHR 0xBD, CHR 0x91,
     CHR 0xE7, CHR 0xBB, CHR 0x9C, CHR 0xE5, CHR 0xBC, CHR 0x82, CHR 0xE5, CHR 0xB8, CHR 0xB8,
     CHR 0xE6, CHR 0x88, CHR 0x96, CHR 0xE6, CHR 0x9C, CHR 0x8D, CHR 0xE5, CHR 0x8A, CHR 0xA1,
     CHR 0xE5, CHR 0x99, CHR 0xA8, CHR 0xE9, CHR 0x94, CHR 0x99, CHR 0xE8, CHR 0xAF, CHR 0xAF,
     CHR 0xE3, CHR 0x80, CHR 0x82]"
subsection \<open>DOM helpers\<close>

text \<open>\<open>$(id)\<close>\<close>

definition dollar :: "string \<Rightarrow> world \<Rightarrow> js_error + string" where
  "dollar ident w =
     (case elems w ident of
        None \<Rightarrow> Inl (Error (''Element with id '' @ [CHR 0x22] @ ident @ [CHR 0x22] @ '' not found''))
      | Some el \<Rightarrow> Inr ident)"

definition setStatus :: "string \<Rightarrow> world \<Rightarrow> completion" where
  "setStatus text w =
     (case dollar ''status'' w of
        Inl e \<Rightarrow> (Some e, w)
      | Inr statusEl \<Rightarrow> (None, set_textContent statusEl text w))"

definition setAcceptStatus :: "string \<Rightarrow> world \<Rightarrow> completion" where
  "setAcceptStatus text w =
     (case dollar ''accept-status'' w of
        Inl e \<Rightarrow> (Some e, w)
      | Inr el \<Rightarrow> (None, set_textContent el text w))"

subsection \<open>requestAd\<close>

text \<open>The \<open>catch\<close> block of \<open>requestAd\<close>.\<close>

definition requestAd_catch :: "js_error \<Rightarrow> world \<Rightarrow> world" where
  "requestAd_catch error w =
     (let w1 = emit (Console ''error'' ''Ad request error:'' [ArgError error]) w;
          w2 = set_style_display ''ad-card'' ''none'' w1;
          w3 = set_style_display ''empty'' ''none'' w2;
          w4 = set_style_display ''error'' ''block'' w3
      in case setStatus msg_ad_failed w4 of
           (Some e, w5) \<Rightarrow> reject e w5
         | (None, w5) \<Rightarrow> w5)"

text \<open>\<open>requestAd\<close> up to \<open>await fetch(...)\<close>.\<close>

definition requestAd :: "real option \<Rightarrow> real option \<Rightarrow> world \<Rightarrow> world" where
  "requestAd lat lon w =
     (case dollar ''ad-card'' w of Inl e \<Rightarrow> reject e w | Inr adCardEl \<Rightarrow>
      case dollar ''ad-title'' w of Inl e \<Rightarrow> reject e w | Inr adTitleEl \<Rightarrow>
      case dollar ''ad-image'' w of Inl e \<Rightarrow> reject e w | Inr adImageEl \<Rightarrow>
      case dollar ''ad-link'' w of Inl e \<Rightarrow> reject e w | Inr adLinkEl \<Rightarrow>
      case dollar ''empty'' w of Inl e \<Rightarrow> reject e w | Inr emptyEl \<Rightarrow>
      case dollar ''error'' w of Inl e \<Rightarrow> reject e w | Inr errorEl \<Rightarrow>
        (let payload = AdApiPayload lat lon (userAgent (nav w)) (hours w)
         in case setStatus msg_ad_requesting w of
              (Some e, w1) \<Rightarrow> reject e w1
            | (None, w1) \<Rightarrow> fetch ''/api/v1/ad-recommend/'' payload False RequestAd_fetch w1))"

text \<open>From the settlement of the request to \<open>await response.json()\<close>.\<close>

definition requestAd_fetched :: "response settled \<Rightarrow> world \<Rightarrow> world" where
  "requestAd_fetched s w =
     (case s of
        Rejected e \<Rightarrow> requestAd_catch e w
      | Fulfilled response \<Rightarrow>
          if status response = 204 then
            (let w1 = set_style_display ''ad-card'' ''none'' w;
                 w2 = set_style_display ''empty'' ''block'' w1;
                 w3 = set_style_display ''error'' ''none'' w2
             in case setStatus msg_ad_empty w3 of
                  (Some e, w4) \<Rightarrow> requestAd_catch e w4
                | (None, w4) \<Rightarrow> w4)
          else if \<not> ok response then
            requestAd_catch (Error (''HTTP '' @ show_nat (status response))) w
          else read_json RequestAd_json w)"

text \<open>From the parsed body to the end of the function.\<close>

definition requestAd_parsed :: "json settled \<Rightarrow> world \<Rightarrow> world" where
  "requestAd_parsed s w =
     (case s of
        Rejected e \<Rightarrow> requestAd_catch e w
      | Fulfilled data \<Rightarrow>
         (case get_prop data ''title'' of Inl e \<Rightarrow> requestAd_catch e w | Inr title \<Rightarrow>
          case to_nullable_dom_string title of Inl e \<Rightarrow> requestAd_catch e w | Inr t \<Rightarrow>
            (let w1 = set_textContent ''ad-title'' t w
             in case get_prop data ''image_url'' of Inl e \<Rightarrow> requestAd_catch e w1 | Inr image_url \<Rightarrow>
                case to_string_val image_url of Inl e \<Rightarrow> requestAd_catch e w1 | Inr u \<Rightarrow>
            (let w2 = set_src ''ad-image'' u w1
             in case get_prop data ''title'' of Inl e \<Rightarrow> requestAd_catch e w2 | Inr title2 \<Rightarrow>
                case to_string_val title2 of Inl e \<Rightarrow> requestAd_catch e w2 | Inr a \<Rightarrow>
            (let w3 = set_alt ''ad-image'' a w2
             in case get_prop data ''target_url'' of Inl e \<Rightarrow> requestAd_catch e w3 | Inr target_url \<Rightarrow>
                case to_string_val target_url of Inl e \<Rightarrow> requestAd_catch e w3 | Inr h \<Rightarrow>
            (let w4 = set_href ''ad-link'' h w3;
                 w5 = set_style_display ''ad-card'' ''block'' w4;
                 w6 = set_style_display ''empty'' ''none'' w5;
                 w7 = set_style_display ''error'' ''none'' w6
             in case setStatus msg_ad_found w7 of
                  (Some e, w8) \<Rightarrow> requestAd_catch e w8
                | (None, w8) \<Rightarrow> w8))))))"

subsection \<open>tryGetGeo\<close>

text \<open>
  The promise of \<open>tryGetGeo\<close> settles in one of three places: in the executor when
  \<open>navigator.geolocation\<close> is missing, in the success callback, which writes
  \<open>lastGeo\<close> and resolves with it, and in the error callback.
\<close>

definition tryGetGeo_unavailable :: "geo_fix option settled" where
  "tryGetGeo_unavailable = Fulfilled None"

definition tryGetGeo_success :: "coords \<Rightarrow> world \<Rightarrow> geo_fix option settled \<times> world" where
  "tryGetGeo_success pos w =
     (let w1 = w\<lparr>lastGeo := Some \<lparr>latitude = coords_latitude pos,
                                   longitude = coords_longitude pos,
                                   accuracy_m = Math_round (coords_accuracy pos)\<rparr>\<rparr>
      in (Fulfilled (lastGeo w1), w1))"

definition tryGetGeo_error :: "world \<Rightarrow> geo_fix option settled \<times> world" where
  "tryGetGeo_error w = (Fulfilled None, w)"

text \<open>
  \<open>await tryGetGeo()\<close> by the waiter \<open>k\<close>. A promise resolved in the executor resumes
  the waiter in a microtask, after the code that is running; otherwise the waiter
  resumes when the browser calls one of the callbacks.
\<close>

definition tryGetGeo :: "geo_waiter \<Rightarrow> world \<Rightarrow> world" where
  "tryGetGeo k w =
     (if \<not> geolocation (nav w) then
        w\<lparr>microtasks := microtasks w @ [(k, tryGetGeo_unavailable)]\<rparr>
      else
        getCurrentPosition (TryGetGeo_position k)
          \<lparr>enableHighAccuracy = True, timeout = 5000, maximumAge = 300000\<rparr> w)"

subsection \<open>postVisitPing and startVisitPingLoop\<close>

text \<open>\<open>postVisitPing\<close> from the payload on, with \<open>geo\<close> known.\<close>

definition postVisitPing_send :: "ping_event \<Rightarrow> geo_fix option \<Rightarrow> world \<Rightarrow> world" where
  "postVisitPing_send event geo w =
     (let payload = PingPayload (map_option latitude geo) (map_option longitude geo)
                      (map_option accuracy_m geo) event
      in if event = Leave \<and> sendBeacon (nav w) then
           emit (SendBeacon ''/api/v1/portal/ping/'' payload ''application/json'') w
         else fetch ''/api/v1/portal/ping/'' payload True PostVisitPing_fetch w)"

definition postVisitPing :: "ping_event \<Rightarrow> world \<Rightarrow> world" where
  "postVisitPing event w =
     (case lastGeo w of
        Some g \<Rightarrow> postVisitPing_send event (Some g) w
      | None \<Rightarrow> tryGetGeo (PostVisitPing_await event) w)"

text \<open>After \<open>await fetch(...)\<close>: the function ends; a failed request rejects its promise.\<close>

definition postVisitPing_fetched :: "response settled \<Rightarrow> world \<Rightarrow> world" where
  "postVisitPing_fetched s w = (case s of Fulfilled res \<Rightarrow> w | Rejected e \<Rightarrow> reject e w)"

definition startVisitPingLoop :: "world \<Rightarrow> world" where
  "startVisitPingLoop w =
     (if visitPingTimer w \<noteq> None then w
      else
        (let w1 = postVisitPing Ping w;
             (h, w2) = setInterval PingTick 60000 w1;
             w3 = w2\<lparr>visitPingTimer := Some h\<rparr>;
             w4 = addEventListener Window ''beforeunload'' OnLeave w3
         in addEventListener Document ''visibilitychange'' OnVisibilityChange w4))"

subsection \<open>acceptPortal (static/js/portal.js)\<close>

text \<open>The \<open>finally\<close> block; an error still in flight rejects the promise.\<close>

definition acceptPortal_finally :: "js_error option \<Rightarrow> world \<Rightarrow> world" where
  "acceptPortal_finally err w =
     (let w1 = set_disabled ''accept-btn'' False w
      in case err of None \<Rightarrow> w1 | Some e \<Rightarrow> reject e w1)"

definition acceptPortal_catch :: "js_error \<Rightarrow> world \<Rightarrow> world" where
  "acceptPortal_catch error w =
     (let w1 = emit (Console ''error'' ''accept portal error:'' [ArgError error]) w
      in case setAcceptStatus msg_accept_failed w1 of
           (err, w2) \<Rightarrow> acceptPortal_finally err w2)"

text \<open>From the payload to \<open>await fetch(...)\<close>, with \<open>geo\<close> known.\<close>

definition acceptPortal_submit :: "geo_fix option \<Rightarrow> world \<Rightarrow> world" where
  "acceptPortal_submit geo w =
     (let payload = AcceptPayload (map_option latitude geo) (map_option longitude geo)
                      (map_option accuracy_m geo)
      in fetch ''/api/v1/portal/accept/'' payload False AcceptPortal_fetch w)"

definition acceptPortal :: "world \<Rightarrow> world" where
  "acceptPortal w =
     (case dollar ''accept-btn'' w of Inl e \<Rightarrow> reject e w | Inr btn \<Rightarrow>
        (let w1 = set_disabled btn True w
         in case setAcceptStatus msg_accept_submitting w1 of
              (Some e, w2) \<Rightarrow> reject e w2
            | (None, w2) \<Rightarrow>
                (case lastGeo w2 of
                   Some g \<Rightarrow> acceptPortal_submit (Some g) w2
                 | None \<Rightarrow> tryGetGeo AcceptPortal_await w2)))"

definition acceptPortal_fetched :: "response settled \<Rightarrow> world \<Rightarrow> world" where
  "acceptPortal_fetched s w =
     (case s of
        Rejected e \<Rightarrow> acceptPortal_catch e w
      | Fulfilled res \<Rightarrow>
          if \<not> ok res then acceptPortal_catch (Error (''HTTP '' @ show_nat (status res))) w
          else read_json AcceptPortal_json w)"

text \<open>
  The template literal of the attributed status:
  \<open>v.name\<close>, \<open>v.category\<close> and \<open>v.distance_m ?? "?"\<close> between the fixed parts.
\<close>

definition accept_venue_text :: "json option \<Rightarrow> js_error + string" where
  "accept_venue_text v =
     (case get_prop_val v ''name'' of Inl e \<Rightarrow> Inl e | Inr name \<Rightarrow>
      case to_string_val name of Inl e \<Rightarrow> Inl e | Inr n \<Rightarrow>
      case get_prop_val v ''category'' of Inl e \<Rightarrow> Inl e | Inr category \<Rightarrow>
      case to_string_val category of Inl e \<Rightarrow> Inl e | Inr c \<Rightarrow>
      case get_prop_val v ''distance_m'' of Inl e \<Rightarrow> Inl e | Inr distance_m \<Rightarrow>
      case (if nullish distance_m then Inr ''?'' else to_string_val distance_m) of
        Inl e \<Rightarrow> Inl e
      | Inr d \<Rightarrow>
          Inr (msg_accept_venue_1 @ n @ msg_accept_venue_2 @ c @ msg_accept_venue_3 @ d @ ''m''))"

definition acceptPortal_parsed :: "json settled \<Rightarrow> world \<Rightarrow> world" where
  "acceptPortal_parsed s w =
     (case s of
        Rejected e \<Rightarrow> acceptPortal_catch e w
      | Fulfilled data \<Rightarrow>
         (case get_prop data ''ok'' of Inl e \<Rightarrow> acceptPortal_catch e w | Inr data_ok \<Rightarrow>
            if truthy data_ok then
              (let w1 = startVisitPingLoop w
               in case get_prop data ''venue'' of Inl e \<Rightarrow> acceptPortal_catch e w1 | Inr venue \<Rightarrow>
                    if truthy venue then
                      (case accept_venue_text venue of
                         Inl e \<Rightarrow> acceptPortal_catch e w1
                       | Inr text \<Rightarrow>
                           (case setAcceptStatus text w1 of
                              (Some e, w2) \<Rightarrow> acceptPortal_catch e w2
                            | (None, w2) \<Rightarrow> acceptPortal_finally None w2))
                    else
                      (case setAcceptStatus msg_accept_no_venue w1 of
                         (Some e, w2) \<Rightarrow> acceptPortal_catch e w2
                       | (None, w2) \<Rightarrow> acceptPortal_finally None w2))
            else
              (case setAcceptStatus msg_accept_rejected w of
                 (Some e, w1) \<Rightarrow> acceptPortal_catch e w1
               | (None, w1) \<Rightarrow> acceptPortal_finally None w1)))"

text \<open>Resuming an \<open>await tryGetGeo()\<close>.\<close>

definition resume_geo_waiter :: "geo_waiter \<Rightarrow> geo_fix option settled \<Rightarrow> world \<Rightarrow> world" where
  "resume_geo_waiter k s w =
     (case k of
        PostVisitPing_await event \<Rightarrow>
          (case s of Fulfilled geo \<Rightarrow> postVisitPing_send event geo w | Rejected e \<Rightarrow> reject e w)
      | AcceptPortal_await \<Rightarrow>
          (case s of Fulfilled geo \<Rightarrow> acceptPortal_submit geo w | Rejected e \<Rightarrow> acceptPortal_catch e w))"

subsection \<open>acceptPortal (part_000)\<close>

definition acceptPortal_alt_finally :: "world \<Rightarrow> world" where
  "acceptPortal_alt_finally w = set_disabled ''accept-btn'' False w"

definition acceptPortal_alt_catch :: "js_error \<Rightarrow> world \<Rightarrow> world" where
  "acceptPortal_alt_catch error w =
     (let w1 = emit (Console ''error'' ''accept portal error:'' [ArgError error]) w;
          w2 = set_textContent ''accept-status'' msg_alt_failed w1
      in acceptPortal_alt_finally w2)"

definition acceptPortal_alt :: "world \<Rightarrow> world" where
  "acceptPortal_alt w =
     (case dollar ''accept-btn'' w of Inl e \<Rightarrow> reject e w | Inr btn \<Rightarrow>
      case dollar ''accept-status'' w of Inl e \<Rightarrow> reject e w | Inr acceptStatus \<Rightarrow>
        (let w1 = set_disabled btn True w;
             w2 = set_textContent acceptStatus msg_accept_submitting w1
         in fetch ''/api/v1/portal/accept/'' EmptyObject False AcceptPortalAlt_fetch w2))"

definition acceptPortal_alt_fetched :: "response settled \<Rightarrow> world \<Rightarrow> world" where
  "acceptPortal_alt_fetched s w =
     (case s of
        Rejected e \<Rightarrow> acceptPortal_alt_catch e w
      | Fulfilled res \<Rightarrow>
          if \<not> ok res then
            (let w1 = emit (Console ''error'' ''portal accept http error:''
                              [ArgNum (status res), ArgStr (statusText res)]) w;
                 w2 = set_textContent ''accept-status''
                        (msg_alt_http_failed @ show_nat (status res)) w1
             in acceptPortal_alt_finally w2)
          else read_json AcceptPortalAlt_json w)"

text \<open>
  The inner \<open>try\<close> keeps \<open>data = null\<close> when the body does not parse; the test is
  \<open>data && data.is_authenticated === false\<close>.
\<close>

definition acceptPortal_alt_parsed :: "json settled \<Rightarrow> world \<Rightarrow> world" where
  "acceptPortal_alt_parsed s w =
     (let (data, w1) =
            (case s of
               Fulfilled d \<Rightarrow> (d, emit (Console ''log'' ''portal accept response:'' [ArgJson d]) w)
             | Rejected e \<Rightarrow>
                 (JNull, emit (Console ''warn'' ''portal accept response is not valid JSON:''
                                 [ArgError e]) w));
          w2 = (if truthy (Some data) \<and> get_prop data ''is_authenticated'' = Inr (Some (JBool False))
                then set_textContent ''accept-status'' msg_alt_not_effective w1
                else set_textContent ''accept-status'' msg_alt_success w1)
      in acceptPortal_alt_finally w2)"

subsection \<open>initPortal\<close>

definition initPortal_success :: "coords \<Rightarrow> world \<Rightarrow> world" where
  "initPortal_success pos w =
     (let lat = coords_latitude pos;
          lon = coords_longitude pos
      in case setStatus (msg_located_1 @ toFixed6 lat @ '', '' @ toFixed6 lon @ msg_located_2 @
                         show_int (Math_round (coords_accuracy pos)) @ msg_located_3) w of
           (Some e, w1) \<Rightarrow> reject e w1
         | (None, w1) \<Rightarrow> requestAd (Some lat) (Some lon) w1)"

definition initPortal_error :: "nat \<Rightarrow> string \<Rightarrow> world \<Rightarrow> world" where
  "initPortal_error code message w =
     (case setStatus (msg_locate_failed_1 @ show_nat code @ '' msg='' @ message) w of
        (Some e, w1) \<Rightarrow> reject e w1
      | (None, w1) \<Rightarrow> requestAd None None w1)"

definition initPortal :: "world \<Rightarrow> completion" where
  "initPortal w =
     (case dollar ''accept-btn'' w of Inl e \<Rightarrow> (Some e, w) | Inr btn \<Rightarrow>
        (let w1 = addEventListener (Element btn) ''click'' OnAcceptClick w
         in case setStatus msg_init w1 of
              (Some e, w2) \<Rightarrow> (Some e, w2)
            | (None, w2) \<Rightarrow>
                if \<not> geolocation_in_navigator (nav w2) then
                  (case setStatus msg_no_geolocation w2 of
                     (Some e, w3) \<Rightarrow> (Some e, w3)
                   | (None, w3) \<Rightarrow> (None, requestAd None None w3))
                else
                  (case setStatus msg_locating w2 of
                     (Some e, w3) \<Rightarrow> (Some e, w3)
                   | (None, w3) \<Rightarrow>
                       if \<not> geolocation (nav w3) then
                         (Some (TypeError ''Cannot read properties of undefined (reading getCurrentPosition)''), w3)
                       else
                         (None, getCurrentPosition InitPortal_position
                                  \<lparr>enableHighAccuracy = False, timeout = 5000, maximumAge = 0\<rparr>
                                  w3))))"

section \<open>The event loop\<close>

text \<open>
  The microtask checkpoint: the waiters of promises that were already resolved run, in
  order, once the running code has returned.
\<close>

definition drain :: "world \<Rightarrow> world" where
  "drain w = foldl (\<lambda>w' (k, s). resume_geo_waiter k s w') (w\<lparr>microtasks := []\<rparr>) (microtasks w)"

definition run_listener :: "listener \<Rightarrow> world \<Rightarrow> world" where
  "run_listener l w =
     (case l of
        OnDOMContentLoaded \<Rightarrow>
          (case initPortal w of
             (None, w1) \<Rightarrow> w1
           | (Some error, w1) \<Rightarrow>
               (let w2 = emit (Console ''error'' ''Init portal error:'' [ArgError error]) w1
                in case setStatus msg_init_failed w2 of
                     (None, w3) \<Rightarrow> w3
                   | (Some e, w3) \<Rightarrow> reject e w3))
      | OnAcceptClick \<Rightarrow>
          (case loaded w of Portal_js \<Rightarrow> acceptPortal w | Part_000 \<Rightarrow> acceptPortal_alt w)
      | OnLeave \<Rightarrow> postVisitPing Leave w
      | OnVisibilityChange \<Rightarrow>
          (if visibilityState w = ''hidden'' then postVisitPing Leave w else w))"

text \<open>
  The browser calls the listeners registered for the event, in the order of
  registration, with a microtask checkpoint after each.
\<close>

definition dispatch :: "target \<Rightarrow> string \<Rightarrow> world \<Rightarrow> world" where
  "dispatch t ty w =
     foldl (\<lambda>w' l. drain (run_listener l w')) w
       (map (\<lambda>(t', ty', l). l) (filter (\<lambda>(t', ty', l). t' = t \<and> ty' = ty) (listeners w)))"

text \<open>
  The start of a page: the script has run (both globals are \<open>null\<close>, one listener is
  registered) and the document fires \<open>DOMContentLoaded\<close>.
\<close>

definition script_loaded ::
  "source_file \<Rightarrow> navigator \<Rightarrow> nat \<Rightarrow> (string \<Rightarrow> element option) \<Rightarrow> world" where
  "script_loaded f n h els =
     \<lparr>loaded = f, nav = n, hours = h, visibilityState = ''visible'', elems = els,
      lastGeo = None, visitPingTimer = None,
      listeners = [(Document, ''DOMContentLoaded'', OnDOMContentLoaded)],
      intervals = [], next_timer = 1, pending = [], next_id = 0, microtasks = [],
      trace = [AddEventListener Document ''DOMContentLoaded''], unhandled = []\<rparr>"

definition page_load ::
  "source_file \<Rightarrow> navigator \<Rightarrow> nat \<Rightarrow> (string \<Rightarrow> element option) \<Rightarrow> world" where
  "page_load f n h els = dispatch Document ''DOMContentLoaded'' (script_loaded f n h els)"

text \<open>
  What the browser can do after that. A settlement names the operation it answers; a
  click reaches the listeners only when the button is not disabled.
\<close>

datatype event =
    Click
  | GeoSuccess nat coords
  | GeoError nat nat string
  | FetchFulfilled nat response
  | FetchRejected nat js_error
  | JsonFulfilled nat json
  | JsonRejected nat js_error
  | IntervalFired nat
  | BeforeUnload
  | VisibilityChange string

text \<open>The operation \<open>i\<close> in flight, taken out of the table.\<close>

definition take_pending :: "nat \<Rightarrow> world \<Rightarrow> (cont \<times> world) option" where
  "take_pending i w =
     (case map_of (pending w) i of
        None \<Rightarrow> None
      | Some k \<Rightarrow> Some (k, w\<lparr>pending := remove1 (i, k) (pending w)\<rparr>))"

definition settle_position :: "nat \<Rightarrow> (coords, nat \<times> string) sum \<Rightarrow> world \<Rightarrow> world" where
  "settle_position i r w =
     (case take_pending i w of
        Some (InitPortal_position, w1) \<Rightarrow>
          (case r of Inl pos \<Rightarrow> initPortal_success pos w1
                   | Inr (code, message) \<Rightarrow> initPortal_error code message w1)
      | Some (TryGetGeo_position k, w1) \<Rightarrow>
          (case (case r of Inl pos \<Rightarrow> tryGetGeo_success pos w1 | Inr err \<Rightarrow> tryGetGeo_error w1) of
             (s, w2) \<Rightarrow> resume_geo_waiter k s w2)
      | _ \<Rightarrow> w)"

definition settle_fetch :: "nat \<Rightarrow> response settled \<Rightarrow> world \<Rightarrow> world" where
  "settle_fetch i s w =
     (case take_pending i w of
        Some (RequestAd_fetch, w1) \<Rightarrow> requestAd_fetched s w1
      | Some (PostVisitPing_fetch, w1) \<Rightarrow> postVisitPing_fetched s w1
      | Some (AcceptPortal_fetch, w1) \<Rightarrow> acceptPortal_fetched s w1
      | Some (AcceptPortalAlt_fetch, w1) \<Rightarrow> acceptPortal_alt_fetched s w1
      | _ \<Rightarrow> w)"

definition settle_json :: "nat \<Rightarrow> json settled \<Rightarrow> world \<Rightarrow> world" where
  "settle_json i s w =
     (case take_pending i w of
        Some (RequestAd_json, w1) \<Rightarrow> requestAd_parsed s w1
      | Some (AcceptPortal_json, w1) \<Rightarrow> acceptPortal_parsed s w1
      | Some (AcceptPortalAlt_json, w1) \<Rightarrow> acceptPortal_alt_parsed s w1
      | _ \<Rightarrow> w)"

definition handle :: "event \<Rightarrow> world \<Rightarrow> world" where
  "handle ev w =
     (case ev of
        Click \<Rightarrow>
          (case elems w ''accept-btn'' of
             None \<Rightarrow> w
           | Some btn \<Rightarrow> if disabled btn then w else dispatch (Element ''accept-btn'') ''click'' w)
      | GeoSuccess i pos \<Rightarrow> settle_position i (Inl pos) w
      | GeoError i code message \<Rightarrow> settle_position i (Inr (code, message)) w
      | FetchFulfilled i res \<Rightarrow> settle_fetch i (Fulfilled res) w
      | FetchRejected i e \<Rightarrow> settle_fetch i (Rejected e) w
      | JsonFulfilled i data \<Rightarrow> settle_json i (Fulfilled data) w
      | JsonRejected i e \<Rightarrow> settle_json i (Rejected e) w
      | IntervalFired h \<Rightarrow>
          (case find (\<lambda>(h', ms, cb). h' = h) (intervals w) of
             None \<Rightarrow> w
           | Some (h', ms, PingTick) \<Rightarrow> postVisitPing Ping w)
      | BeforeUnload \<Rightarrow> dispatch Window ''beforeunload'' w
      | VisibilityChange v \<Rightarrow> dispatch Document ''visibilitychange'' (w\<lparr>visibilityState := v\<rparr>))"

definition step :: "event \<Rightarrow> world \<Rightarrow> world" where
  "step ev w = drain (handle ev w)"

definition run :: "world \<Rightarrow> event list \<Rightarrow> world" where
  "run w evs = foldl (\<lambda>w' ev. step ev w') w evs"

section \<open>Observations\<close>

text \<open>The page of the portal has the nine elements the script looks up.\<close>

definition present :: "world \<Rightarrow> string \<Rightarrow> bool" where
  "present w ident = (elems w ident \<noteq> None)"

definition wf_page :: "world \<Rightarrow> bool" where
  "wf_page w =
     (present w ''status'' \<and> present w ''accept-status'' \<and> present w ''accept-btn'' \<and>
      present w ''ad-card'' \<and> present w ''ad-title'' \<and> present w ''ad-image'' \<and>
      present w ''ad-link'' \<and> present w ''empty'' \<and> present w ''error'')"

text \<open>
  The three visual states of the ad area: \<open>style.display\<close> of the ad card, of the
  empty panel and of the error panel.
\<close>

definition ad_panels :: "world \<Rightarrow> string option \<times> string option \<times> string option" where
  "ad_panels w =
     (map_option style_display (elems w ''ad-card''),
      map_option style_display (elems w ''empty''),
      map_option style_display (elems w ''error''))"

definition panels_found :: "string option \<times> string option \<times> string option" where
  "panels_found = (Some ''block'', Some ''none'', Some ''none'')"

definition panels_empty :: "string option \<times> string option \<times> string option" where
  "panels_empty = (Some ''none'', Some ''block'', Some ''none'')"

definition panels_failed :: "string option \<times> string option \<times> string option" where
  "panels_failed = (Some ''none'', Some ''none'', Some ''block'')"

definition status_text :: "world \<Rightarrow> string option" where
  "status_text w = map_option textContent (elems w ''status'')"

definition accept_status :: "world \<Rightarrow> string option" where
  "accept_status w = map_option textContent (elems w ''accept-status'')"

definition btn_disabled :: "world \<Rightarrow> bool option" where
  "btn_disabled w = map_option disabled (elems w ''accept-btn'')"

text \<open>
  The four assignments of \<open>requestAd\<close> from the parsed body go through: the body is
  not \<open>null\<close>, and \<open>title\<close>, \<open>image_url\<close> and \<open>target_url\<close> convert to strings.
\<close>

definition ad_renderable :: "json \<Rightarrow> bool" where
  "ad_renderable data =
     (case get_prop data ''title'' of Inl e \<Rightarrow> False | Inr title \<Rightarrow>
      case to_string_val title of Inl e \<Rightarrow> False | Inr a \<Rightarrow>
      case get_prop data ''image_url'' of Inl e \<Rightarrow> False | Inr image_url \<Rightarrow>
      case to_string_val image_url of Inl e \<Rightarrow> False | Inr u \<Rightarrow>
      case get_prop data ''target_url'' of Inl e \<Rightarrow> False | Inr target_url \<Rightarrow>
      case to_string_val target_url of Inl e \<Rightarrow> False | Inr h \<Rightarrow> True)"

text \<open>The calls of \<open>acceptPortal\<close> that have not returned: suspended, or about to resume.\<close>

definition accept_cont :: "cont \<Rightarrow> bool" where
  "accept_cont k =
     (k = TryGetGeo_position AcceptPortal_await \<or> k = AcceptPortal_fetch \<or>
      k = AcceptPortal_json \<or> k = AcceptPortalAlt_fetch \<or> k = AcceptPortalAlt_json)"

definition accept_suspended :: "world \<Rightarrow> nat" where
  "accept_suspended w = length (filter (\<lambda>(i, k). accept_cont k) (pending w))"

definition accept_resuming :: "world \<Rightarrow> nat" where
  "accept_resuming w = length (filter (\<lambda>(k, s). k = AcceptPortal_await) (microtasks w))"

definition accept_in_flight :: "world \<Rightarrow> nat" where
  "accept_in_flight w = accept_suspended w + accept_resuming w"

text \<open>The requests to the accept endpoint and to the ad endpoint that were issued.\<close>

definition is_accept_request :: "effect \<Rightarrow> bool" where
  "is_accept_request e =
     (case e of Fetch i url b ka \<Rightarrow> url = ''/api/v1/portal/accept/'' | _ \<Rightarrow> False)"

definition accept_requests :: "world \<Rightarrow> effect list" where
  "accept_requests w = filter is_accept_request (trace w)"

definition is_ad_request :: "effect \<Rightarrow> bool" where
  "is_ad_request e =
     (case e of Fetch i url b ka \<Rightarrow> url = ''/api/v1/ad-recommend/'' | _ \<Rightarrow> False)"

definition ad_requests :: "world \<Rightarrow> effect list" where
  "ad_requests w = filter is_ad_request (trace w)"

text \<open>The geolocation request of \<open>initPortal\<close>, while it has not settled.\<close>

definition init_position_pending :: "world \<Rightarrow> nat" where
  "init_position_pending w = length (filter (\<lambda>(i, k). k = InitPortal_position) (pending w))"

text \<open>
  A heartbeat of kind \<open>ev\<close> on the wire, by either transport, and the heartbeats of
  that kind that \<open>postVisitPing\<close> was called for: those on the wire and those whose
  call still waits for \<open>tryGetGeo\<close>.
\<close>

definition heartbeat_sent :: "ping_event \<Rightarrow> effect \<Rightarrow> bool" where
  "heartbeat_sent ev e =
     (case e of
        Fetch i url (PingPayload la lo ac ev') ka \<Rightarrow> url = ''/api/v1/portal/ping/'' \<and> ev' = ev
      | SendBeacon url (PingPayload la lo ac ev') ty \<Rightarrow> url = ''/api/v1/portal/ping/'' \<and> ev' = ev
      | _ \<Rightarrow> False)"

definition is_fulfilled :: "'a settled \<Rightarrow> bool" where
  "is_fulfilled s = (case s of Fulfilled v \<Rightarrow> True | Rejected e \<Rightarrow> False)"

definition fulfilled_ping :: "ping_event \<Rightarrow> geo_waiter \<times> geo_fix option settled \<Rightarrow> bool" where
  "fulfilled_ping ev m = (case m of (k, s) \<Rightarrow> k = PostVisitPing_await ev \<and> is_fulfilled s)"

definition heartbeat_waiting :: "ping_event \<Rightarrow> world \<Rightarrow> nat" where
  "heartbeat_waiting ev w =
     length (filter (\<lambda>(i, k). k = TryGetGeo_position (PostVisitPing_await ev)) (pending w)) +
     length (filter (fulfilled_ping ev) (microtasks w))"

definition heartbeats :: "ping_event \<Rightarrow> world \<Rightarrow> nat" where
  "heartbeats ev w = length (filter (heartbeat_sent ev) (trace w)) + heartbeat_waiting ev w"

text \<open>The heartbeats of kind \<open>ev\<close> that are on the wire, in the order they left the page.\<close>

definition sent :: "ping_event \<Rightarrow> world \<Rightarrow> effect list" where
  "sent ev w = filter (heartbeat_sent ev) (trace w)"

text \<open>The requests that left the page, in order: every \<open>fetch\<close> and every beacon.\<close>

definition is_request :: "effect \<Rightarrow> bool" where
  "is_request e =
     (case e of Fetch i url b ka \<Rightarrow> True | SendBeacon url b ty \<Rightarrow> True | _ \<Rightarrow> False)"

definition requests :: "world \<Rightarrow> effect list" where
  "requests w = filter is_request (trace w)"

text \<open>
  The listeners of a page whose initialisation went through, and the two that
  \<open>startVisitPingLoop\<close> adds.
\<close>

definition base_listeners :: "(target \<times> string \<times> listener) list" where
  "base_listeners =
     [(Document, ''DOMContentLoaded'', OnDOMContentLoaded),
      (Element ''accept-btn'', ''click'', OnAcceptClick)]"

definition leave_listeners :: "(target \<times> string \<times> listener) list" where
  "leave_listeners =
     [(Window, ''beforeunload'', OnLeave),
      (Document, ''visibilitychange'', OnVisibilityChange)]"

text \<open>
  The heartbeat is wired as the sentinel says: while \<open>visitPingTimer\<close> is \<open>null\<close>
  there is no interval timer and no leave listener; once it holds a handle there is
  that one timer of 60000 ms and one listener of each kind.
\<close>

definition heartbeat_wired :: "world \<Rightarrow> bool" where
  "heartbeat_wired w =
     (case visitPingTimer w of
        None \<Rightarrow> intervals w = [] \<and> listeners w = base_listeners
      | Some h \<Rightarrow> intervals w = [(h, 60000, PingTick)] \<and>
                  listeners w = base_listeners @ leave_listeners)"

text \<open>
  The busy flag: at most one call of \<open>acceptPortal\<close> has not returned, and the
  button is disabled exactly while there is one.
\<close>

definition accept_guarded :: "world \<Rightarrow> bool" where
  "accept_guarded w =
     (accept_in_flight w \<le> 1 \<and> btn_disabled w = Some (accept_in_flight w = 1))"

text \<open>
  The events that end a call of \<open>acceptPortal\<close> of \<open>static/js/portal.js\<close> without
  success: the request fails, the answer is not in 200..299, the body does not parse, or the
  parsed body has no truthy \<open>ok\<close> (reading \<open>ok\<close> of \<open>null\<close> throws). And the one
  that ends it with success.
\<close>

definition accept_failure :: "world \<Rightarrow> event \<Rightarrow> bool" where
  "accept_failure w ev =
     (case ev of
        FetchRejected i e \<Rightarrow> map_of (pending w) i = Some AcceptPortal_fetch
      | FetchFulfilled i res \<Rightarrow> map_of (pending w) i = Some AcceptPortal_fetch \<and> \<not> ok res
      | JsonRejected i e \<Rightarrow> map_of (pending w) i = Some AcceptPortal_json
      | JsonFulfilled i data \<Rightarrow>
          map_of (pending w) i = Some AcceptPortal_json \<and>
          (case get_prop data ''ok'' of Inl e \<Rightarrow> True | Inr v \<Rightarrow> \<not> truthy v)
      | _ \<Rightarrow> False)"

definition accept_success :: "world \<Rightarrow> event \<Rightarrow> bool" where
  "accept_success w ev =
     (case ev of
        JsonFulfilled i data \<Rightarrow>
          map_of (pending w) i = Some AcceptPortal_json \<and>
          (case get_prop data ''ok'' of Inl e \<Rightarrow> False | Inr v \<Rightarrow> truthy v)
      | _ \<Rightarrow> False)"

section \<open>A concrete page\<close>

definition blank_element :: element where
  "blank_element =
     \<lparr>style_display = '''', textContent = '''', src = '''', alt = '''', href = '''',
      disabled = False\<rparr>"

definition portal_page :: "string \<Rightarrow> element option" where
  "portal_page =
     map_of [(''status'', blank_element), (''accept-status'', blank_element),
             (''accept-btn'', blank_element), (''ad-card'', blank_element),
             (''ad-title'', blank_element), (''ad-image'', blank_element),
             (''ad-link'', blank_element), (''empty'', blank_element),
             (''error'', blank_element)]"

definition phone :: navigator where
  "phone = \<lparr>userAgent = ''Mozilla/5.0'', geolocation_in_navigator = True, geolocation = True,
            sendBeacon = True\<rparr>"

text \<open>
  A navigator that has the key \<open>geolocation\<close> with the value \<open>undefined\<close>:
  \<open>"geolocation" in navigator\<close> holds and \<open>navigator.geolocation\<close> is falsy.
\<close>

definition shim :: navigator where
  "shim = \<lparr>userAgent = ''Mozilla/5.0'', geolocation_in_navigator = True, geolocation = False,
           sendBeacon = True\<rparr>"

definition kiosk :: navigator where
  "kiosk = \<lparr>userAgent = ''Mozilla/5.0'', geolocation_in_navigator = False,
            geolocation = False, sendBeacon = False\<rparr>"

definition cafe_fix :: coords where
  "cafe_fix = \<lparr>coords_latitude = 31, coords_longitude = 121, coords_accuracy = 12\<rparr>"

definition http_ok :: response where
  "http_ok = \<lparr>status = 200, statusText = ''OK''\<rparr>"

definition http_error :: response where
  "http_error = \<lparr>status = 500, statusText = ''Internal Server Error''\<rparr>"

definition cafe_ad :: json where
  "cafe_ad =
     JObj [(''id'', JNum 7), (''title'', JStr ''Cafe X''), (''image_url'', JStr ''/img/7.png''),
           (''target_url'', JStr ''https://cafe.example/''), (''click_count'', JNum 0)]"

definition cafe_venue :: json where
  "cafe_venue =
     JObj [(''ok'', JBool True),
           (''venue'', JObj [(''name'', JStr ''Cafe X''), (''category'', JStr ''food''),
                             (''distance_m'', JNum 12)])]"

definition no_venue :: json where
  "no_venue = JObj [(''ok'', JBool True), (''venue'', JNull)]"

section \<open>Basic facts\<close>

subsection \<open>Host operations, field by field\<close>

lemma emit_fields [simp]:
  "loaded (emit e w) = loaded w"
  "nav (emit e w) = nav w"
  "hours (emit e w) = hours w"
  "visibilityState (emit e w) = visibilityState w"
  "elems (emit e w) = elems w"
  "lastGeo (emit e w) = lastGeo w"
  "visitPingTimer (emit e w) = visitPingTimer w"
  "listeners (emit e w) = listeners w"
  "intervals (emit e w) = intervals w"
  "next_timer (emit e w) = next_timer w"
  "pending (emit e w) = pending w"
  "next_id (emit e w) = next_id w"
  "microtasks (emit e w) = microtasks w"
  "trace (emit e w) = trace w @ [e]"
  "unhandled (emit e w) = unhandled w"
  by (simp_all add: emit_def)

lemma reject_fields [simp]:
  "loaded (reject e w) = loaded w"
  "nav (reject e w) = nav w"
  "hours (reject e w) = hours w"
  "visibilityState (reject e w) = visibilityState w"
  "elems (reject e w) = elems w"
  "lastGeo (reject e w) = lastGeo w"
  "visitPingTimer (reject e w) = visitPingTimer w"
  "listeners (reject e w) = listeners w"
  "intervals (reject e w) = intervals w"
  "next_timer (reject e w) = next_timer w"
  "pending (reject e w) = pending w"
  "next_id (reject e w) = next_id w"
  "microtasks (reject e w) = microtasks w"
  "trace (reject e w) = trace w"
  "unhandled (reject e w) = unhandled w @ [e]"
  by (simp_all add: reject_def)

lemma update_element_fields [simp]:
  "loaded (update_element el f w) = loaded w"
  "nav (update_element el f w) = nav w"
  "hours (update_element el f w) = hours w"
  "visibilityState (update_element el f w) = visibilityState w"
  "elems (update_element el f w) = (elems w)(el := map_option f (elems w el))"
  "lastGeo (update_element el f w) = lastGeo w"
  "visitPingTimer (update_element el f w) = visitPingTimer w"
  "listeners (update_element el f w) = listeners w"
  "intervals (update_element el f w) = intervals w"
  "next_timer (update_element el f w) = next_timer w"
  "pending (update_element el f w) = pending w"
  "next_id (update_element el f w) = next_id w"
  "microtasks (update_element el f w) = microtasks w"
  "trace (update_element el f w) = trace w"
  "unhandled (update_element el f w) = unhandled w"
  by (simp_all add: update_element_def)

lemma set_textContent_fields [simp]:
  "loaded (set_textContent el v w) = loaded w"
  "nav (set_textContent el v w) = nav w"
  "hours (set_textContent el v w) = hours w"
  "visibilityState (set_textContent el v w) = visibilityState w"
  "elems (set_textContent el v w) = (elems w)(el := map_option (\<lambda>e. e\<lparr>textContent := v\<rparr>) (elems w el))"
  "lastGeo (set_textContent el v w) = lastGeo w"
  "visitPingTimer (set_textContent el v w) = visitPingTimer w"
  "listeners (set_textContent el v w) = listeners w"
  "intervals (set_textContent el v w) = intervals w"
  "next_timer (set_textContent el v w) = next_timer w"
  "pending (set_textContent el v w) = pending w"
  "next_id (set_textContent el v w) = next_id w"
  "microtasks (set_textContent el v w) = microtasks w"
  "trace (set_textContent el v w) = trace w @ [SetTextContent el v]"
  "unhandled (set_textContent el v w) = unhandled w"
  by (simp_all add: set_textContent_def)

lemma set_style_display_fields [simp]:
  "loaded (set_style_display el v w) = loaded w"
  "nav (set_style_display el v w) = nav w"
  "hours (set_style_display el v w) = hours w"
  "visibilityState (set_style_display el v w) = visibilityState w"
  "elems (set_style_display el v w) = (elems w)(el := map_option (\<lambda>e. e\<lparr>style_display := v\<rparr>) (elems w el))"
  "lastGeo (set_style_display el v w) = lastGeo w"
  "visitPingTimer (set_style_display el v w) = visitPingTimer w"
  "listeners (set_style_display el v w) = listeners w"
  "intervals (set_style_display el v w) = intervals w"
  "next_timer (set_style_display el v w) = next_timer w"
  "pending (set_style_display el v w) = pending w"
  "next_id (set_style_display el v w) = next_id w"
  "microtasks (set_style_display el v w) = microtasks w"
  "trace (set_style_display el v w) = trace w @ [SetStyleDisplay el v]"
  "unhandled (set_style_display el v w) = unhandled w"
  by (simp_all add: set_style_display_def)

lemma set_src_fields [simp]:
  "loaded (set_src el v w) = loaded w"
  "nav (set_src el v w) = nav w"
  "hours (set_src el v w) = hours w"
  "visibilityState (set_src el v w) = visibilityState w"
  "elems (set_src el v w) = (elems w)(el := map_option (\<lambda>e. e\<lparr>src := v\<rparr>) (elems w el))"
  "lastGeo (set_src el v w) = lastGeo w"
  "visitPingTimer (set_src el v w) = visitPingTimer w"
  "listeners (set_src el v w) = listeners w"
  "intervals (set_src el v w) = intervals w"
  "next_timer (set_src el v w) = next_timer w"
  "pending (set_src el v w) = pending w"
  "next_id (set_src el v w) = next_id w"
  "microtasks (set_src el v w) = microtasks w"
  "trace (set_src el v w) = trace w @ [SetSrc el v]"
  "unhandled (set_src el v w) = unhandled w"
  by (simp_all add: set_src_def)

lemma set_alt_fields [simp]:
  "loaded (set_alt el v w) = loaded w"
  "nav (set_alt el v w) = nav w"
  "hours (set_alt el v w) = hours w"
  "visibilityState (set_alt el v w) = visibilityState w"
  "elems (set_alt el v w) = (elems w)(el := map_option (\<lambda>e. e\<lparr>alt := v\<rparr>) (elems w el))"
  "lastGeo (set_alt el v w) = lastGeo w"
  "visitPingTimer (set_alt el v w) = visitPingTimer w"
  "listeners (set_alt el v w) = listeners w"
  "intervals (set_alt el v w) = intervals w"
  "next_timer (set_alt el v w) = next_timer w"
  "pending (set_alt el v w) = pending w"
  "next_id (set_alt el v w) = next_id w"
  "microtasks (set_alt el v w) = microtasks w"
  "trace (set_alt el v w) = trace w @ [SetAlt el v]"
  "unhandled (set_alt el v w) = unhandled w"
  by (simp_all add: set_alt_def)

lemma set_href_fields [simp]:
  "loaded (set_href el v w) = loaded w"
  "nav (set_href el v w) = nav w"
  "hours (set_href el v w) = hours w"
  "visibilityState (set_href el v w) = visibilityState w"
  "elems (set_href el v w) = (elems w)(el := map_option (\<lambda>e. e\<lparr>href := v\<rparr>) (elems w el))"
  "lastGeo (set_href el v w) = lastGeo w"
  "visitPingTimer (set_href el v w) = visitPingTimer w"
  "listeners (set_href el v w) = listeners w"
  "intervals (set_href el v w) = intervals w"
  "next_timer (set_href el v w) = next_timer w"
  "pending (set_href el v w) = pending w"
  "next_id (set_href el v w) = next_id w"
  "microtasks (set_href el v w) = microtasks w"
  "trace (set_href el v w) = trace w @ [SetHref el v]"
  "unhandled (set_href el v w) = unhandled w"
  by (simp_all add: set_href_def)

lemma set_disabled_fields [simp]:
  "loaded (set_disabled el v w) = loaded w"
  "nav (set_disabled el v w) = nav w"
  "hours (set_disabled el v w) = hours w"
  "visibilityState (set_disabled el v w) = visibilityState w"
  "elems (set_disabled el v w) = (elems w)(el := map_option (\<lambda>e. e\<lparr>disabled := v\<rparr>) (elems w el))"
  "lastGeo (set_disabled el v w) = lastGeo w"
  "visitPingTimer (set_disabled el v w) = visitPingTimer w"
  "listeners (set_disabled el v w) = listeners w"
  "intervals (set_disabled el v w) = intervals w"
  "next_timer (set_disabled el v w) = next_timer w"
  "pending (set_disabled el v w) = pending w"
  "next_id (set_disabled el v w) = next_id w"
  "microtasks (set_disabled el v w) = microtasks w"
  "trace (set_disabled el v w) = trace w @ [SetDisabled el v]"
  "unhandled (set_disabled el v w) = unhandled w"
  by (simp_all add: set_disabled_def)

lemma fetch_fields [simp]:
  "loaded (fetch url p ka k w) = loaded w"
  "nav (fetch url p ka k w) = nav w"
  "hours (fetch url p ka k w) = hours w"
  "visibilityState (fetch url p ka k w) = visibilityState w"
  "elems (fetch url p ka k w) = elems w"
  "lastGeo (fetch url p ka k w) = lastGeo w"
  "visitPingTimer (fetch url p ka k w) = visitPingTimer w"
  "listeners (fetch url p ka k w) = listeners w"
  "intervals (fetch url p ka k w) = intervals w"
  "next_timer (fetch url p ka k w) = next_timer w"
  "pending (fetch url p ka k w) = pending w @ [(next_id w, k)]"
  "next_id (fetch url p ka k w) = Suc (next_id w)"
  "microtasks (fetch url p ka k w) = microtasks w"
  "trace (fetch url p ka k w) = trace w @ [Fetch (next_id w) url p ka]"
  "unhandled (fetch url p ka k w) = unhandled w"
  by (simp_all add: fetch_def Let_def)

lemma read_json_fields [simp]:
  "loaded (read_json k w) = loaded w"
  "nav (read_json k w) = nav w"
  "hours (read_json k w) = hours w"
  "visibilityState (read_json k w) = visibilityState w"
  "elems (read_json k w) = elems w"
  "lastGeo (read_json k w) = lastGeo w"
  "visitPingTimer (read_json k w) = visitPingTimer w"
  "listeners (read_json k w) = listeners w"
  "intervals (read_json k w) = intervals w"
  "next_timer (read_json k w) = next_timer w"
  "pending (read_json k w) = pending w @ [(next_id w, k)]"
  "next_id (read_json k w) = Suc (next_id w)"
  "microtasks (read_json k w) = microtasks w"
  "trace (read_json k w) = trace w @ [ReadJson (next_id w)]"
  "unhandled (read_json k w) = unhandled w"
  by (simp_all add: read_json_def Let_def)

lemma getCurrentPosition_fields [simp]:
  "loaded (getCurrentPosition k opts w) = loaded w"
  "nav (getCurrentPosition k opts w) = nav w"
  "hours (getCurrentPosition k opts w) = hours w"
  "visibilityState (getCurrentPosition k opts w) = visibilityState w"
  "elems (getCurrentPosition k opts w) = elems w"
  "lastGeo (getCurrentPosition k opts w) = lastGeo w"
  "visitPingTimer (getCurrentPosition k opts w) = visitPingTimer w"
  "listeners (getCurrentPosition k opts w) = listeners w"
  "intervals (getCurrentPosition k opts w) = intervals w"
  "next_timer (getCurrentPosition k opts w) = next_timer w"
  "pending (getCurrentPosition k opts w) = pending w @ [(next_id w, k)]"
  "next_id (getCurrentPosition k opts w) = Suc (next_id w)"
  "microtasks (getCurrentPosition k opts w) = microtasks w"
  "trace (getCurrentPosition k opts w) = trace w @ [GetCurrentPosition (next_id w) opts]"
  "unhandled (getCurrentPosition k opts w) = unhandled w"
  by (simp_all add: getCurrentPosition_def Let_def)

lemma addEventListener_fields [simp]:
  "loaded (addEventListener t ty l w) = loaded w"
  "nav (addEventListener t ty l w) = nav w"
  "hours (addEventListener t ty l w) = hours w"
  "visibilityState (addEventListener t ty l w) = visibilityState w"
  "elems (addEventListener t ty l w) = elems w"
  "lastGeo (addEventListener t ty l w) = lastGeo w"
  "visitPingTimer (addEventListener t ty l w) = visitPingTimer w"
  "listeners (addEventListener t ty l w) = listeners w @ [(t, ty, l)]"
  "intervals (addEventListener t ty l w) = intervals w"
  "next_timer (addEventListener t ty l w) = next_timer w"
  "pending (addEventListener t ty l w) = pending w"
  "next_id (addEventListener t ty l w) = next_id w"
  "microtasks (addEventListener t ty l w) = microtasks w"
  "trace (addEventListener t ty l w) = trace w @ [AddEventListener t ty]"
  "unhandled (addEventListener t ty l w) = unhandled w"
  by (simp_all add: addEventListener_def)

lemma setInterval_eq:
  "setInterval cb ms w =
     (next_timer w, emit (SetInterval (next_timer w) ms)
        (w\<lparr>next_timer := Suc (next_timer w), intervals := intervals w @ [(next_timer w, ms, cb)]\<rparr>))"
  by (simp add: setInterval_def Let_def)

lemma present_prims [simp]:
  "present (emit e w) i = present w i"
  "present (reject e' w) i = present w i"
  "present (update_element el f w) i = present w i"
  "present (set_textContent el v w) i = present w i"
  "present (set_style_display el v w) i = present w i"
  "present (set_src el v w) i = present w i"
  "present (set_alt el v w) i = present w i"
  "present (set_href el v w) i = present w i"
  "present (set_disabled el b w) i = present w i"
  "present (fetch url p ka k w) i = present w i"
  "present (read_json k w) i = present w i"
  "present (getCurrentPosition k opts w) i = present w i"
  "present (addEventListener t ty l w) i = present w i"
  by (simp_all add: present_def)

lemma present_updates [simp]:
  "present (w\<lparr>lastGeo := g\<rparr>) i = present w i"
  "present (w\<lparr>visitPingTimer := t\<rparr>) i = present w i"
  "present (w\<lparr>microtasks := m\<rparr>) i = present w i"
  "present (w\<lparr>pending := ps\<rparr>) i = present w i"
  "present (w\<lparr>visibilityState := v\<rparr>) i = present w i"
  "present (w\<lparr>next_timer := n\<rparr>) i = present w i"
  "present (w\<lparr>intervals := iv\<rparr>) i = present w i"
  by (simp_all add: present_def)

lemma dollar_present [simp]: "present w i \<Longrightarrow> dollar i w = Inr i"
  by (auto simp: dollar_def present_def)

lemma setStatus_present [simp]:
  "present w ''status'' \<Longrightarrow> setStatus t w = (None, set_textContent ''status'' t w)"
  by (simp add: setStatus_def)

lemma setAcceptStatus_present [simp]:
  "present w ''accept-status'' \<Longrightarrow>
   setAcceptStatus t w = (None, set_textContent ''accept-status'' t w)"
  by (simp add: setAcceptStatus_def)

lemma wf_pageD:
  assumes "wf_page w"
  shows "present w ''status''" "present w ''accept-status''" "present w ''accept-btn''"
    "present w ''ad-card''" "present w ''ad-title''" "present w ''ad-image''"
    "present w ''ad-link''" "present w ''empty''" "present w ''error''"
  using assms by (simp_all add: wf_page_def)

lemma requestAd_catch_wf:
  "present w ''status'' \<Longrightarrow>
   requestAd_catch e w =
     set_textContent ''status'' msg_ad_failed
       (set_style_display ''error'' ''block''
         (set_style_display ''empty'' ''none''
           (set_style_display ''ad-card'' ''none''
             (emit (Console ''error'' ''Ad request error:'' [ArgError e]) w))))"
  by (simp add: requestAd_catch_def Let_def)

lemma requestAd_wf:
  "wf_page w \<Longrightarrow>
   requestAd lat lon w =
     fetch ''/api/v1/ad-recommend/'' (AdApiPayload lat lon (userAgent (nav w)) (hours w)) False
       RequestAd_fetch (set_textContent ''status'' msg_ad_requesting w)"
  by (simp add: requestAd_def Let_def wf_pageD)

subsection \<open>The ad area\<close>

lemma ad_panels_prims [simp]:
  "ad_panels (emit e w) = ad_panels w"
  "ad_panels (reject e' w) = ad_panels w"
  "ad_panels (read_json k w) = ad_panels w"
  "ad_panels (set_textContent el v w) = ad_panels w"
  "ad_panels (set_src el v w) = ad_panels w"
  "ad_panels (set_alt el v w) = ad_panels w"
  "ad_panels (set_href el v w) = ad_panels w"
  "ad_panels (w\<lparr>pending := ps\<rparr>) = ad_panels w"
  "ad_panels (w\<lparr>microtasks := ms\<rparr>) = ad_panels w"
  by (simp_all add: ad_panels_def option.map_comp comp_def)

lemma drain_idle: "microtasks w = [] \<Longrightarrow> drain w = w"
  by (simp add: drain_def)

lemma requestAd_catch_panels [simp]:
  assumes "present w ''status''" "present w ''ad-card''" "present w ''empty''" "present w ''error''"
  shows "ad_panels (requestAd_catch e w) = panels_failed"
  using assms
  by (auto simp: requestAd_catch_wf ad_panels_def present_def panels_failed_def)

lemma requestAd_fetched_panels:
  assumes "present w ''status''" "present w ''ad-card''" "present w ''empty''" "present w ''error''"
  shows "ad_panels (requestAd_fetched s w) =
     (case s of Rejected e \<Rightarrow> panels_failed
      | Fulfilled r \<Rightarrow> if status r = 204 then panels_empty
                       else if ok r then ad_panels w else panels_failed)"
proof (cases s)
  case (Rejected e)
  with assms show ?thesis by (simp add: requestAd_fetched_def)
next
  case (Fulfilled r)
  have "ad_panels (set_textContent ''status'' msg_ad_empty
          (set_style_display ''error'' ''none''
            (set_style_display ''empty'' ''block''
              (set_style_display ''ad-card'' ''none'' w)))) = panels_empty"
    using assms by (auto simp: ad_panels_def present_def panels_empty_def)
  with Fulfilled assms show ?thesis
    by (simp add: requestAd_fetched_def Let_def)
qed

lemma isl_to_nullable_dom_string:
  "isl (to_nullable_dom_string v) = isl (to_string_val v)"
  by (auto simp: to_nullable_dom_string_def to_string_val_def split: option.splits json.splits)

lemma requestAd_parsed_panels:
  assumes "present w ''status''" "present w ''ad-card''" "present w ''empty''" "present w ''error''"
  shows "ad_panels (requestAd_parsed s w) =
     (case s of Rejected e \<Rightarrow> panels_failed
      | Fulfilled data \<Rightarrow> if ad_renderable data then panels_found else panels_failed)"
proof (cases s)
  case (Rejected e)
  with assms show ?thesis by (simp add: requestAd_parsed_def)
next
  case (Fulfilled data)
  have found: "\<And>t u a h. ad_panels (set_textContent ''status'' msg_ad_found
          (set_style_display ''error'' ''none''
            (set_style_display ''empty'' ''none''
              (set_style_display ''ad-card'' ''block''
                (set_href ''ad-link'' h (set_alt ''ad-image'' a (set_src ''ad-image'' u
                   (set_textContent ''ad-title'' t w)))))))) = panels_found"
    using assms by (auto simp: ad_panels_def present_def panels_found_def)
  show ?thesis
  proof (cases "get_prop data ''title''")
    case (Inl e)
    with Fulfilled assms show ?thesis
      by (simp add: requestAd_parsed_def ad_renderable_def)
  next
    case title: (Inr title)
    show ?thesis
    proof (cases "to_string_val title")
      case (Inl e)
      then have "isl (to_nullable_dom_string title)"
        by (simp add: isl_to_nullable_dom_string)
      then obtain e' where "to_nullable_dom_string title = Inl e'"
        by (cases "to_nullable_dom_string title") auto
      with Inl title Fulfilled assms show ?thesis
        by (simp add: requestAd_parsed_def ad_renderable_def)
    next
      case a: (Inr a)
      then have "\<not> isl (to_nullable_dom_string title)"
        by (simp add: isl_to_nullable_dom_string)
      then obtain t where t: "to_nullable_dom_string title = Inr t"
        by (cases "to_nullable_dom_string title") auto
      from a t title Fulfilled assms found show ?thesis
        by (auto simp: requestAd_parsed_def ad_renderable_def Let_def split: sum.splits)
    qed
  qed
qed

section \<open>requestAd: the outcome of the ad request\<close>

lemma take_pending_Some:
  "map_of (pending w) i = Some k \<Longrightarrow>
   take_pending i w = Some (k, w\<lparr>pending := remove1 (i, k) (pending w)\<rparr>)"
  by (simp add: take_pending_def)

lemma requestAd_catch_microtasks [simp]:
  "present w ''status'' \<Longrightarrow> microtasks (requestAd_catch e w) = microtasks w"
  by (simp add: requestAd_catch_wf)

lemma requestAd_fetched_microtasks:
  "present w ''status'' \<Longrightarrow> microtasks (requestAd_fetched s w) = microtasks w"
  by (simp add: requestAd_fetched_def Let_def split: settled.splits)

lemma requestAd_parsed_microtasks:
  "present w ''status'' \<Longrightarrow> microtasks (requestAd_parsed s w) = microtasks w"
  by (simp add: requestAd_parsed_def Let_def split: settled.splits sum.splits)

lemma requestAd_fetched_pending:
  "present w ''status'' \<Longrightarrow> status r \<noteq> 204 \<Longrightarrow> ok r \<Longrightarrow>
   pending (requestAd_fetched (Fulfilled r) w) = pending w @ [(next_id w, RequestAd_json)]"
  by (simp add: requestAd_fetched_def)

text \<open>
  Claim C1, as the code has it. For any coordinates, \<open>requestAd\<close> issues one
  request carrying them. When the request settles, the ad area ends in exactly one of
  three visual states: a rejected request shows the error panel, status 204 the empty
  panel, any other status outside 200..299 the error panel; a status in 200..299 goes
  on to read the body and changes nothing yet. When the body settles, a body that does
  not parse shows the error panel, a parsed body whose fields can be assigned shows the
  ad card, and a parsed body that is \<open>null\<close>, or has a field that does not convert to a
  string, shows the error panel.
\<close>

theorem requestAd_outcome:
  assumes "wf_page w" and "microtasks w = []"
  shows "pending (requestAd lat lon w) = pending w @ [(next_id w, RequestAd_fetch)] \<and>
         ad_requests (requestAd lat lon w) =
           ad_requests w @ [Fetch (next_id w) ''/api/v1/ad-recommend/''
                              (AdApiPayload lat lon (userAgent (nav w)) (hours w)) False] \<and>
         (map_of (pending w) i = Some RequestAd_fetch \<longrightarrow>
            ad_panels (step (FetchRejected i e) w) = panels_failed \<and>
            ad_panels (step (FetchFulfilled i r) w) =
              (if status r = 204 then panels_empty
               else if ok r then ad_panels w else panels_failed) \<and>
            (status r \<noteq> 204 \<and> ok r \<longrightarrow>
               (next_id w, RequestAd_json) \<in> set (pending (step (FetchFulfilled i r) w)))) \<and>
         (map_of (pending w) i = Some RequestAd_json \<longrightarrow>
            ad_panels (step (JsonRejected i e) w) = panels_failed \<and>
            ad_panels (step (JsonFulfilled i data) w) =
              (if ad_renderable data then panels_found else panels_failed))"
proof -
  note p = wf_pageD [OF assms(1)]
  have call: "pending (requestAd lat lon w) = pending w @ [(next_id w, RequestAd_fetch)]"
    using assms(1) by (simp add: requestAd_wf)
  have req: "ad_requests (requestAd lat lon w) =
           ad_requests w @ [Fetch (next_id w) ''/api/v1/ad-recommend/''
                              (AdApiPayload lat lon (userAgent (nav w)) (hours w)) False]"
    using assms(1) by (simp add: requestAd_wf ad_requests_def is_ad_request_def)
  have fetched: "ad_panels (step ev w) =
      (case s of Rejected e \<Rightarrow> panels_failed
       | Fulfilled r \<Rightarrow> if status r = 204 then panels_empty
                        else if ok r then ad_panels w else panels_failed)"
    if "map_of (pending w) i = Some RequestAd_fetch"
      and "handle ev w = settle_fetch i s w" for ev s
  proof -
    let ?w = "w\<lparr>pending := remove1 (i, RequestAd_fetch) (pending w)\<rparr>"
    have "handle ev w = requestAd_fetched s ?w"
      using that by (simp add: settle_fetch_def take_pending_Some)
    moreover have "microtasks (requestAd_fetched s ?w) = []"
      using p assms(2) by (simp add: requestAd_fetched_microtasks)
    ultimately have "step ev w = requestAd_fetched s ?w"
      by (simp add: step_def drain_idle)
    then show ?thesis
      using p by (simp add: requestAd_fetched_panels split: settled.splits)
  qed
  have parsed: "ad_panels (step ev w) =
      (case s of Rejected e \<Rightarrow> panels_failed
       | Fulfilled data \<Rightarrow> if ad_renderable data then panels_found else panels_failed)"
    if "map_of (pending w) i = Some RequestAd_json"
      and "handle ev w = settle_json i s w" for ev s
  proof -
    let ?w = "w\<lparr>pending := remove1 (i, RequestAd_json) (pending w)\<rparr>"
    have "handle ev w = requestAd_parsed s ?w"
      using that by (simp add: settle_json_def take_pending_Some)
    moreover have "microtasks (requestAd_parsed s ?w) = []"
      using p assms(2) by (simp add: requestAd_parsed_microtasks)
    ultimately have "step ev w = requestAd_parsed s ?w"
      by (simp add: step_def drain_idle)
    then show ?thesis
      using p by (simp add: requestAd_parsed_panels)
  qed
  have json: "(next_id w, RequestAd_json) \<in> set (pending (step (FetchFulfilled i r) w))"
    if "map_of (pending w) i = Some RequestAd_fetch" "status r \<noteq> 204" "ok r"
  proof -
    let ?w = "w\<lparr>pending := remove1 (i, RequestAd_fetch) (pending w)\<rparr>"
    have "handle (FetchFulfilled i r) w = requestAd_fetched (Fulfilled r) ?w"
      using that by (simp add: handle_def settle_fetch_def take_pending_Some)
    moreover have "microtasks (requestAd_fetched (Fulfilled r) ?w) = []"
      using p assms(2) by (simp add: requestAd_fetched_microtasks)
    ultimately have "step (FetchFulfilled i r) w = requestAd_fetched (Fulfilled r) ?w"
      by (simp add: step_def drain_idle)
    then show ?thesis
      using p that by (simp add: requestAd_fetched_pending)
  qed
  show ?thesis
    using call req fetched [of "FetchRejected i e" "Rejected e"]
      fetched [of "FetchFulfilled i r" "Fulfilled r"] json
      parsed [of "JsonRejected i e" "Rejected e"]
      parsed [of "JsonFulfilled i data" "Fulfilled data"]
    by (simp add: handle_def)
qed

text \<open>The page of a device without geolocation, right after loading.\<close>

lemma page_load_kiosk:
  "wf_page (page_load Portal_js kiosk 9 portal_page)"
  "microtasks (page_load Portal_js kiosk 9 portal_page) = []"
  "pending (page_load Portal_js kiosk 9 portal_page) = [(0, RequestAd_fetch)]"
  by code_simp+

text \<open>
  The theorem at that page: the first request is the ad request; a 204 shows the empty
  panel and a 500 the error panel.
\<close>

theorem requestAd_outcome_witness:
  "wf_page (page_load Portal_js kiosk 9 portal_page) \<and>
   microtasks (page_load Portal_js kiosk 9 portal_page) = [] \<and>
   map_of (pending (page_load Portal_js kiosk 9 portal_page)) 0 = Some RequestAd_fetch \<and>
   ad_panels (step (FetchFulfilled 0 \<lparr>status = 204, statusText = ''No Content''\<rparr>)
                (page_load Portal_js kiosk 9 portal_page)) = panels_empty \<and>
   ad_panels (step (FetchFulfilled 0 \<lparr>status = 500, statusText = ''Internal Server Error''\<rparr>)
                (page_load Portal_js kiosk 9 portal_page)) = panels_failed"
  using requestAd_outcome [OF page_load_kiosk(1) page_load_kiosk(2), of None None 0 "Error []" "\<lparr>status = 204, statusText = ''No Content''\<rparr>"]
    requestAd_outcome [OF page_load_kiosk(1) page_load_kiosk(2), of None None 0 "Error []" "\<lparr>status = 500, statusText = ''Internal Server Error''\<rparr>"]
  by (simp add: page_load_kiosk ok_def)

text \<open>
  A response with status 200 whose body is the JSON text \<open>null\<close> parses, and the page
  shows the error panel, not the ad card: reading \<open>data.title\<close> throws.
\<close>

theorem requestAd_null_body_counterexample:
  "ad_panels (run (page_load Portal_js kiosk 9 portal_page)
                [FetchFulfilled 0 http_ok, JsonFulfilled 1 JNull]) = panels_failed \<and>
   panels_failed \<noteq> panels_found"
  by code_simp

subsection \<open>What each function leaves alone\<close>

lemma dollar_eq:
  "dollar i w =
     (if present w i then Inr i
      else Inl (Error (''Element with id '' @ [CHR 0x22] @ i @ [CHR 0x22] @ '' not found'')))"
  by (auto simp: dollar_def present_def)

lemma setStatus_eq:
  "setStatus t w =
     (if present w ''status'' then (None, set_textContent ''status'' t w)
      else (Some (Error (''Element with id '' @ [CHR 0x22] @ ''status'' @ [CHR 0x22] @ '' not found'')), w))"
  by (simp add: setStatus_def dollar_eq)

lemma setAcceptStatus_eq:
  "setAcceptStatus t w =
     (if present w ''accept-status'' then (None, set_textContent ''accept-status'' t w)
      else (Some (Error (''Element with id '' @ [CHR 0x22] @ ''accept-status'' @ [CHR 0x22] @ '' not found'')), w))"
  by (simp add: setAcceptStatus_def dollar_eq)

lemmas status_eqs = dollar_eq setStatus_eq setAcceptStatus_eq

lemma present_more [simp]:
  "present (w\<lparr>trace := tr\<rparr>) i = present w i"
  "present (w\<lparr>unhandled := u\<rparr>) i = present w i"
  "present (w\<lparr>listeners := ls\<rparr>) i = present w i"
  "present (w\<lparr>next_id := n\<rparr>) i = present w i"
  by (simp_all add: present_def)

lemma requestAd_catch_frame [simp]:
  "loaded (requestAd_catch e w) = loaded w"
  "nav (requestAd_catch e w) = nav w"
  "hours (requestAd_catch e w) = hours w"
  "visibilityState (requestAd_catch e w) = visibilityState w"
  "lastGeo (requestAd_catch e w) = lastGeo w"
  "visitPingTimer (requestAd_catch e w) = visitPingTimer w"
  "listeners (requestAd_catch e w) = listeners w"
  "intervals (requestAd_catch e w) = intervals w"
  "next_timer (requestAd_catch e w) = next_timer w"
  "pending (requestAd_catch e w) = pending w"
  "next_id (requestAd_catch e w) = next_id w"
  "microtasks (requestAd_catch e w) = microtasks w"
  "present (requestAd_catch e w) i = present w i"
  by (simp_all add: requestAd_catch_def Let_def status_eqs
      split: settled.splits sum.splits option.splits geo_waiter.splits)

lemma requestAd_frame [simp]:
  "loaded (requestAd lat lon w) = loaded w"
  "nav (requestAd lat lon w) = nav w"
  "hours (requestAd lat lon w) = hours w"
  "visibilityState (requestAd lat lon w) = visibilityState w"
  "lastGeo (requestAd lat lon w) = lastGeo w"
  "visitPingTimer (requestAd lat lon w) = visitPingTimer w"
  "listeners (requestAd lat lon w) = listeners w"
  "intervals (requestAd lat lon w) = intervals w"
  "next_timer (requestAd lat lon w) = next_timer w"
  "microtasks (requestAd lat lon w) = microtasks w"
  "present (requestAd lat lon w) i = present w i"
  by (simp_all add: requestAd_def Let_def status_eqs
      split: settled.splits sum.splits option.splits geo_waiter.splits)

lemma requestAd_fetched_frame [simp]:
  "loaded (requestAd_fetched s w) = loaded w"
  "nav (requestAd_fetched s w) = nav w"
  "hours (requestAd_fetched s w) = hours w"
  "visibilityState (requestAd_fetched s w) = visibilityState w"
  "lastGeo (requestAd_fetched s w) = lastGeo w"
  "visitPingTimer (requestAd_fetched s w) = visitPingTimer w"
  "listeners (requestAd_fetched s w) = listeners w"
  "intervals (requestAd_fetched s w) = intervals w"
  "next_timer (requestAd_fetched s w) = next_timer w"
  "microtasks (requestAd_fetched s w) = microtasks w"
  "present (requestAd_fetched s w) i = present w i"
  by (simp_all add: requestAd_fetched_def Let_def status_eqs
      split: settled.splits sum.splits option.splits geo_waiter.splits)

lemma requestAd_parsed_frame [simp]:
  "loaded (requestAd_parsed s w) = loaded w"
  "nav (requestAd_parsed s w) = nav w"
  "hours (requestAd_parsed s w) = hours w"
  "visibilityState (requestAd_parsed s w) = visibilityState w"
  "lastGeo (requestAd_parsed s w) = lastGeo w"
  "visitPingTimer (requestAd_parsed s w) = visitPingTimer w"
  "listeners (requestAd_parsed s w) = listeners w"
  "intervals (requestAd_parsed s w) = intervals w"
  "next_timer (requestAd_parsed s w) = next_timer w"
  "pending (requestAd_parsed s w) = pending w"
  "next_id (requestAd_parsed s w) = next_id w"
  "microtasks (requestAd_parsed s w) = microtasks w"
  "present (requestAd_parsed s w) i = present w i"
  by (simp_all add: requestAd_parsed_def Let_def status_eqs
      split: settled.splits sum.splits option.splits geo_waiter.splits)

lemma tryGetGeo_frame [simp]:
  "loaded (tryGetGeo k w) = loaded w"
  "nav (tryGetGeo k w) = nav w"
  "hours (tryGetGeo k w) = hours w"
  "visibilityState (tryGetGeo k w) = visibilityState w"
  "lastGeo (tryGetGeo k w) = lastGeo w"
  "visitPingTimer (tryGetGeo k w) = visitPingTimer w"
  "listeners (tryGetGeo k w) = listeners w"
  "intervals (tryGetGeo k w) = intervals w"
  "next_timer (tryGetGeo k w) = next_timer w"
  "elems (tryGetGeo k w) = elems w"
  "unhandled (tryGetGeo k w) = unhandled w"
  "present (tryGetGeo k w) i = present w i"
  by (simp_all add: tryGetGeo_def Let_def status_eqs
      split: settled.splits sum.splits option.splits geo_waiter.splits)

lemma postVisitPing_send_frame [simp]:
  "loaded (postVisitPing_send ev geo w) = loaded w"
  "nav (postVisitPing_send ev geo w) = nav w"
  "hours (postVisitPing_send ev geo w) = hours w"
  "visibilityState (postVisitPing_send ev geo w) = visibilityState w"
  "lastGeo (postVisitPing_send ev geo w) = lastGeo w"
  "visitPingTimer (postVisitPing_send ev geo w) = visitPingTimer w"
  "listeners (postVisitPing_send ev geo w) = listeners w"
  "intervals (postVisitPing_send ev geo w) = intervals w"
  "next_timer (postVisitPing_send ev geo w) = next_timer w"
  "elems (postVisitPing_send ev geo w) = elems w"
  "microtasks (postVisitPing_send ev geo w) = microtasks w"
  "unhandled (postVisitPing_send ev geo w) = unhandled w"
  "present (postVisitPing_send ev geo w) i = present w i"
  by (simp_all add: postVisitPing_send_def Let_def status_eqs
      split: settled.splits sum.splits option.splits geo_waiter.splits)

lemma postVisitPing_frame [simp]:
  "loaded (postVisitPing ev w) = loaded w"
  "nav (postVisitPing ev w) = nav w"
  "hours (postVisitPing ev w) = hours w"
  "visibilityState (postVisitPing ev w) = visibilityState w"
  "lastGeo (postVisitPing ev w) = lastGeo w"
  "visitPingTimer (postVisitPing ev w) = visitPingTimer w"
  "listeners (postVisitPing ev w) = listeners w"
  "intervals (postVisitPing ev w) = intervals w"
  "next_timer (postVisitPing ev w) = next_timer w"
  "elems (postVisitPing ev w) = elems w"
  "unhandled (postVisitPing ev w) = unhandled w"
  "present (postVisitPing ev w) i = present w i"
  by (simp_all add: postVisitPing_def Let_def status_eqs
      split: settled.splits sum.splits option.splits geo_waiter.splits)

lemma postVisitPing_fetched_frame [simp]:
  "loaded (postVisitPing_fetched s w) = loaded w"
  "nav (postVisitPing_fetched s w) = nav w"
  "hours (postVisitPing_fetched s w) = hours w"
  "visibilityState (postVisitPing_fetched s w) = visibilityState w"
  "lastGeo (postVisitPing_fetched s w) = lastGeo w"
  "visitPingTimer (postVisitPing_fetched s w) = visitPingTimer w"
  "listeners (postVisitPing_fetched s w) = listeners w"
  "intervals (postVisitPing_fetched s w) = intervals w"
  "next_timer (postVisitPing_fetched s w) = next_timer w"
  "elems (postVisitPing_fetched s w) = elems w"
  "pending (postVisitPing_fetched s w) = pending w"
  "next_id (postVisitPing_fetched s w) = next_id w"
  "microtasks (postVisitPing_fetched s w) = microtasks w"
  "trace (postVisitPing_fetched s w) = trace w"
  "present (postVisitPing_fetched s w) i = present w i"
  by (simp_all add: postVisitPing_fetched_def Let_def status_eqs
      split: settled.splits sum.splits option.splits geo_waiter.splits)

lemma startVisitPingLoop_frame [simp]:
  "loaded (startVisitPingLoop w) = loaded w"
  "nav (startVisitPingLoop w) = nav w"
  "hours (startVisitPingLoop w) = hours w"
  "visibilityState (startVisitPingLoop w) = visibilityState w"
  "lastGeo (startVisitPingLoop w) = lastGeo w"
  "elems (startVisitPingLoop w) = elems w"
  "unhandled (startVisitPingLoop w) = unhandled w"
  "present (startVisitPingLoop w) i = present w i"
  by (simp_all add: startVisitPingLoop_def Let_def status_eqs setInterval_eq
      split: settled.splits sum.splits option.splits geo_waiter.splits)

lemma acceptPortal_finally_frame [simp]:
  "loaded (acceptPortal_finally err w) = loaded w"
  "nav (acceptPortal_finally err w) = nav w"
  "hours (acceptPortal_finally err w) = hours w"
  "visibilityState (acceptPortal_finally err w) = visibilityState w"
  "lastGeo (acceptPortal_finally err w) = lastGeo w"
  "visitPingTimer (acceptPortal_finally err w) = visitPingTimer w"
  "listeners (acceptPortal_finally err w) = listeners w"
  "intervals (acceptPortal_finally err w) = intervals w"
  "next_timer (acceptPortal_finally err w) = next_timer w"
  "pending (acceptPortal_finally err w) = pending w"
  "next_id (acceptPortal_finally err w) = next_id w"
  "microtasks (acceptPortal_finally err w) = microtasks w"
  "present (acceptPortal_finally err w) i = present w i"
  by (simp_all add: acceptPortal_finally_def Let_def status_eqs
      split: settled.splits sum.splits option.splits geo_waiter.splits)

lemma acceptPortal_catch_frame [simp]:
  "loaded (acceptPortal_catch e w) = loaded w"
  "nav (acceptPortal_catch e w) = nav w"
  "hours (acceptPortal_catch e w) = hours w"
  "visibilityState (acceptPortal_catch e w) = visibilityState w"
  "lastGeo (acceptPortal_catch e w) = lastGeo w"
  "visitPingTimer (acceptPortal_catch e w) = visitPingTimer w"
  "listeners (acceptPortal_catch e w) = listeners w"
  "intervals (acceptPortal_catch e w) = intervals w"
  "next_timer (acceptPortal_catch e w) = next_timer w"
  "pending (acceptPortal_catch e w) = pending w"
  "next_id (acceptPortal_catch e w) = next_id w"
  "microtasks (acceptPortal_catch e w) = microtasks w"
  "present (acceptPortal_catch e w) i = present w i"
  by (simp_all add: acceptPortal_catch_def Let_def status_eqs
      split: settled.splits sum.splits option.splits geo_waiter.splits)

lemma acceptPortal_submit_frame [simp]:
  "loaded (acceptPortal_submit geo w) = loaded w"
  "nav (acceptPortal_submit geo w) = nav w"
  "hours (acceptPortal_submit geo w) = hours w"
  "visibilityState (acceptPortal_submit geo w) = visibilityState w"
  "lastGeo (acceptPortal_submit geo w) = lastGeo w"
  "visitPingTimer (acceptPortal_submit geo w) = visitPingTimer w"
  "listeners (acceptPortal_submit geo w) = listeners w"
  "intervals (acceptPortal_submit geo w) = intervals w"
  "next_timer (acceptPortal_submit geo w) = next_timer w"
  "elems (acceptPortal_submit geo w) = elems w"
  "microtasks (acceptPortal_submit geo w) = microtasks w"
  "unhandled (acceptPortal_submit geo w) = unhandled w"
  "present (acceptPortal_submit geo w) i = present w i"
  by (simp_all add: acceptPortal_submit_def Let_def status_eqs
      split: settled.splits sum.splits option.splits geo_waiter.splits)

lemma acceptPortal_frame [simp]:
  "loaded (acceptPortal w) = loaded w"
  "nav (acceptPortal w) = nav w"
  "hours (acceptPortal w) = hours w"
  "visibilityState (acceptPortal w) = visibilityState w"
  "lastGeo (acceptPortal w) = lastGeo w"
  "visitPingTimer (acceptPortal w) = visitPingTimer w"
  "listeners (acceptPortal w) = listeners w"
  "intervals (acceptPortal w) = intervals w"
  "next_timer (acceptPortal w) = next_timer w"
  "present (acceptPortal w) i = present w i"
  by (simp_all add: acceptPortal_def Let_def status_eqs
      split: settled.splits sum.splits option.splits geo_waiter.splits)

lemma acceptPortal_fetched_frame [simp]:
  "loaded (acceptPortal_fetched s w) = loaded w"
  "nav (acceptPortal_fetched s w) = nav w"
  "hours (acceptPortal_fetched s w) = hours w"
  "visibilityState (acceptPortal_fetched s w) = visibilityState w"
  "lastGeo (acceptPortal_fetched s w) = lastGeo w"
  "visitPingTimer (acceptPortal_fetched s w) = visitPingTimer w"
  "listeners (acceptPortal_fetched s w) = listeners w"
  "intervals (acceptPortal_fetched s w) = intervals w"
  "next_timer (acceptPortal_fetched s w) = next_timer w"
  "microtasks (acceptPortal_fetched s w) = microtasks w"
  "present (acceptPortal_fetched s w) i = present w i"
  by (simp_all add: acceptPortal_fetched_def Let_def status_eqs
      split: settled.splits sum.splits option.splits geo_waiter.splits)

lemma acceptPortal_parsed_frame [simp]:
  "loaded (acceptPortal_parsed s w) = loaded w"
  "nav (acceptPortal_parsed s w) = nav w"
  "hours (acceptPortal_parsed s w) = hours w"
  "visibilityState (acceptPortal_parsed s w) = visibilityState w"
  "lastGeo (acceptPortal_parsed s w) = lastGeo w"
  "present (acceptPortal_parsed s w) i = present w i"
  by (simp_all add: acceptPortal_parsed_def Let_def status_eqs
      split: settled.splits sum.splits option.splits geo_waiter.splits)

lemma resume_geo_waiter_frame [simp]:
  "loaded (resume_geo_waiter k s w) = loaded w"
  "nav (resume_geo_waiter k s w) = nav w"
  "hours (resume_geo_waiter k s w) = hours w"
  "visibilityState (resume_geo_waiter k s w) = visibilityState w"
  "lastGeo (resume_geo_waiter k s w) = lastGeo w"
  "visitPingTimer (resume_geo_waiter k s w) = visitPingTimer w"
  "listeners (resume_geo_waiter k s w) = listeners w"
  "intervals (resume_geo_waiter k s w) = intervals w"
  "next_timer (resume_geo_waiter k s w) = next_timer w"
  "microtasks (resume_geo_waiter k s w) = microtasks w"
  "present (resume_geo_waiter k s w) i = present w i"
  by (simp_all add: resume_geo_waiter_def Let_def status_eqs
      split: settled.splits sum.splits option.splits geo_waiter.splits)

lemma acceptPortal_alt_finally_frame [simp]:
  "loaded (acceptPortal_alt_finally w) = loaded w"
  "nav (acceptPortal_alt_finally w) = nav w"
  "hours (acceptPortal_alt_finally w) = hours w"
  "visibilityState (acceptPortal_alt_finally w) = visibilityState w"
  "lastGeo (acceptPortal_alt_finally w) = lastGeo w"
  "visitPingTimer (acceptPortal_alt_finally w) = visitPingTimer w"
  "listeners (acceptPortal_alt_finally w) = listeners w"
  "intervals (acceptPortal_alt_finally w) = intervals w"
  "next_timer (acceptPortal_alt_finally w) = next_timer w"
  "pending (acceptPortal_alt_finally w) = pending w"
  "next_id (acceptPortal_alt_finally w) = next_id w"
  "microtasks (acceptPortal_alt_finally w) = microtasks w"
  "unhandled (acceptPortal_alt_finally w) = unhandled w"
  "present (acceptPortal_alt_finally w) i = present w i"
  by (simp_all add: acceptPortal_alt_finally_def Let_def status_eqs
      split: settled.splits sum.splits option.splits geo_waiter.splits)

lemma acceptPortal_alt_catch_frame [simp]:
  "loaded (acceptPortal_alt_catch e w) = loaded w"
  "nav (acceptPortal_alt_catch e w) = nav w"
  "hours (acceptPortal_alt_catch e w) = hours w"
  "visibilityState (acceptPortal_alt_catch e w) = visibilityState w"
  "lastGeo (acceptPortal_alt_catch e w) = lastGeo w"
  "visitPingTimer (acceptPortal_alt_catch e w) = visitPingTimer w"
  "listeners (acceptPortal_alt_catch e w) = listeners w"
  "intervals (acceptPortal_alt_catch e w) = intervals w"
  "next_timer (acceptPortal_alt_catch e w) = next_timer w"
  "pending (acceptPortal_alt_catch e w) = pending w"
  "next_id (acceptPortal_alt_catch e w) = next_id w"
  "microtasks (acceptPortal_alt_catch e w) = microtasks w"
  "unhandled (acceptPortal_alt_catch e w) = unhandled w"
  "present (acceptPortal_alt_catch e w) i = present w i"
  by (simp_all add: acceptPortal_alt_catch_def Let_def status_eqs
      split: settled.splits sum.splits option.splits geo_waiter.splits)

lemma acceptPortal_alt_frame [simp]:
  "loaded (acceptPortal_alt w) = loaded w"
  "nav (acceptPortal_alt w) = nav w"
  "hours (acceptPortal_alt w) = hours w"
  "visibilityState (acceptPortal_alt w) = visibilityState w"
  "lastGeo (acceptPortal_alt w) = lastGeo w"
  "visitPingTimer (acceptPortal_alt w) = visitPingTimer w"
  "listeners (acceptPortal_alt w) = listeners w"
  "intervals (acceptPortal_alt w) = intervals w"
  "next_timer (acceptPortal_alt w) = next_timer w"
  "microtasks (acceptPortal_alt w) = microtasks w"
  "present (acceptPortal_alt w) i = present w i"
  by (simp_all add: acceptPortal_alt_def Let_def status_eqs
      split: settled.splits sum.splits option.splits geo_waiter.splits)

lemma acceptPortal_alt_fetched_frame [simp]:
  "loaded (acceptPortal_alt_fetched s w) = loaded w"
  "nav (acceptPortal_alt_fetched s w) = nav w"
  "hours (acceptPortal_alt_fetched s w) = hours w"
  "visibilityState (acceptPortal_alt_fetched s w) = visibilityState w"
  "lastGeo (acceptPortal_alt_fetched s w) = lastGeo w"
  "visitPingTimer (acceptPortal_alt_fetched s w) = visitPingTimer w"
  "listeners (acceptPortal_alt_fetched s w) = listeners w"
  "intervals (acceptPortal_alt_fetched s w) = intervals w"
  "next_timer (acceptPortal_alt_fetched s w) = next_timer w"
  "microtasks (acceptPortal_alt_fetched s w) = microtasks w"
  "unhandled (acceptPortal_alt_fetched s w) = unhandled w"
  "present (acceptPortal_alt_fetched s w) i = present w i"
  by (simp_all add: acceptPortal_alt_fetched_def Let_def status_eqs
      split: settled.splits sum.splits option.splits geo_waiter.splits)

lemma acceptPortal_alt_parsed_frame [simp]:
  "loaded (acceptPortal_alt_parsed s w) = loaded w"
  "nav (acceptPortal_alt_parsed s w) = nav w"
  "hours (acceptPortal_alt_parsed s w) = hours w"
  "visibilityState (acceptPortal_alt_parsed s w) = visibilityState w"
  "lastGeo (acceptPortal_alt_parsed s w) = lastGeo w"
  "visitPingTimer (acceptPortal_alt_parsed s w) = visitPingTimer w"
  "listeners (acceptPortal_alt_parsed s w) = listeners w"
  "intervals (acceptPortal_alt_parsed s w) = intervals w"
  "next_timer (acceptPortal_alt_parsed s w) = next_timer w"
  "pending (acceptPortal_alt_parsed s w) = pending w"
  "next_id (acceptPortal_alt_parsed s w) = next_id w"
  "microtasks (acceptPortal_alt_parsed s w) = microtasks w"
  "unhandled (acceptPortal_alt_parsed s w) = unhandled w"
  "present (acceptPortal_alt_parsed s w) i = present w i"
  by (simp_all add: acceptPortal_alt_parsed_def Let_def status_eqs
      split: settled.splits sum.splits option.splits geo_waiter.splits)

lemma initPortal_success_frame [simp]:
  "loaded (initPortal_success pos w) = loaded w"
  "nav (initPortal_success pos w) = nav w"
  "hours (initPortal_success pos w) = hours w"
  "visibilityState (initPortal_success pos w) = visibilityState w"
  "lastGeo (initPortal_success pos w) = lastGeo w"
  "visitPingTimer (initPortal_success pos w) = visitPingTimer w"
  "listeners (initPortal_success pos w) = listeners w"
  "intervals (initPortal_success pos w) = intervals w"
  "next_timer (initPortal_success pos w) = next_timer w"
  "microtasks (initPortal_success pos w) = microtasks w"
  "present (initPortal_success pos w) i = present w i"
  by (simp_all add: initPortal_success_def Let_def status_eqs
      split: settled.splits sum.splits option.splits geo_waiter.splits)

lemma initPortal_error_frame [simp]:
  "loaded (initPortal_error code message w) = loaded w"
  "nav (initPortal_error code message w) = nav w"
  "hours (initPortal_error code message w) = hours w"
  "visibilityState (initPortal_error code message w) = visibilityState w"
  "lastGeo (initPortal_error code message w) = lastGeo w"
  "visitPingTimer (initPortal_error code message w) = visitPingTimer w"
  "listeners (initPortal_error code message w) = listeners w"
  "intervals (initPortal_error code message w) = intervals w"
  "next_timer (initPortal_error code message w) = next_timer w"
  "microtasks (initPortal_error code message w) = microtasks w"
  "present (initPortal_error code message w) i = present w i"
  by (simp_all add: initPortal_error_def Let_def status_eqs
      split: settled.splits sum.splits option.splits geo_waiter.splits)

subsection \<open>The event loop leaves the same things alone\<close>

lemma foldl_resume_preserves:
  assumes "\<And>k s w. P (resume_geo_waiter k s w) = P w"
  shows "P (foldl (\<lambda>w' (k, s). resume_geo_waiter k s w') w ms) = P w"
  using assms by (induction ms arbitrary: w) (auto split: prod.splits)

lemma drain_preserves:
  assumes "\<And>k s w. P (resume_geo_waiter k s w) = P w"
    and "P (w\<lparr>microtasks := []\<rparr>) = P w"
  shows "P (drain w) = P w"
  using assms by (simp add: drain_def foldl_resume_preserves [where P = P])

lemma drain_frame [simp]:
  "loaded (drain w) = loaded w" "nav (drain w) = nav w" "hours (drain w) = hours w"
  "visibilityState (drain w) = visibilityState w" "lastGeo (drain w) = lastGeo w"
  "visitPingTimer (drain w) = visitPingTimer w" "listeners (drain w) = listeners w"
  "intervals (drain w) = intervals w" "next_timer (drain w) = next_timer w"
  "present (drain w) i = present w i"
  by (rule drain_preserves; simp)+

lemma drain_microtasks [simp]: "microtasks (drain w) = []"
proof -
  have "microtasks (foldl (\<lambda>w' (k, s). resume_geo_waiter k s w') w' ms) = microtasks w'" for w' ms
    by (rule foldl_resume_preserves) simp
  then show ?thesis by (simp add: drain_def)
qed

lemma initPortal_frame [simp]:
  "loaded (snd (initPortal w)) = loaded w" "nav (snd (initPortal w)) = nav w"
  "hours (snd (initPortal w)) = hours w"
  "visibilityState (snd (initPortal w)) = visibilityState w"
  "lastGeo (snd (initPortal w)) = lastGeo w"
  "visitPingTimer (snd (initPortal w)) = visitPingTimer w"
  "intervals (snd (initPortal w)) = intervals w"
  "next_timer (snd (initPortal w)) = next_timer w"
  "microtasks (snd (initPortal w)) = microtasks w"
  "present (snd (initPortal w)) i = present w i"
  by (simp_all add: initPortal_def Let_def status_eqs)

lemma run_listener_frame [simp]:
  "loaded (run_listener l w) = loaded w" "nav (run_listener l w) = nav w"
  "hours (run_listener l w) = hours w"
  "visibilityState (run_listener l w) = visibilityState w"
  "lastGeo (run_listener l w) = lastGeo w"
  "present (run_listener l w) i = present w i"
proof -
  obtain err w1 where i: "initPortal w = (err, w1)" by (cases "initPortal w")
  have w1: "loaded w1 = loaded w" "nav w1 = nav w" "hours w1 = hours w"
    "visibilityState w1 = visibilityState w" "lastGeo w1 = lastGeo w"
    "present w1 i = present w i"
    using initPortal_frame [of w] i by simp_all
  show "loaded (run_listener l w) = loaded w" "nav (run_listener l w) = nav w"
    "hours (run_listener l w) = hours w"
    "visibilityState (run_listener l w) = visibilityState w"
    "lastGeo (run_listener l w) = lastGeo w"
    "present (run_listener l w) i = present w i"
    using i w1
    by (simp_all add: run_listener_def Let_def status_eqs
        split: listener.splits option.splits source_file.splits)
qed

lemma foldl_listeners_preserves:
  assumes "\<And>l w. P (run_listener l w) = P w" and "\<And>w. P (drain w) = P w"
  shows "P (foldl (\<lambda>w' l. drain (run_listener l w')) w ls) = P w"
  using assms by (induction ls arbitrary: w) auto

lemma dispatch_frame [simp]:
  "loaded (dispatch t ty w) = loaded w" "nav (dispatch t ty w) = nav w"
  "hours (dispatch t ty w) = hours w"
  "visibilityState (dispatch t ty w) = visibilityState w"
  "lastGeo (dispatch t ty w) = lastGeo w"
  "present (dispatch t ty w) i = present w i"
  unfolding dispatch_def by (rule foldl_listeners_preserves; simp)+

lemma settle_fetch_frame [simp]:
  "loaded (settle_fetch j s w) = loaded w" "nav (settle_fetch j s w) = nav w"
  "hours (settle_fetch j s w) = hours w"
  "visibilityState (settle_fetch j s w) = visibilityState w"
  "lastGeo (settle_fetch j s w) = lastGeo w"
  "present (settle_fetch j s w) i = present w i"
  by (simp_all add: settle_fetch_def take_pending_def split: option.splits cont.splits)

lemma settle_json_frame [simp]:
  "loaded (settle_json j s' w) = loaded w" "nav (settle_json j s' w) = nav w"
  "hours (settle_json j s' w) = hours w"
  "visibilityState (settle_json j s' w) = visibilityState w"
  "lastGeo (settle_json j s' w) = lastGeo w"
  "present (settle_json j s' w) i = present w i"
  by (simp_all add: settle_json_def take_pending_def split: option.splits cont.splits)

lemma settle_position_frame [simp]:
  "loaded (settle_position j r w) = loaded w" "nav (settle_position j r w) = nav w"
  "hours (settle_position j r w) = hours w"
  "visibilityState (settle_position j r w) = visibilityState w"
  "present (settle_position j r w) i = present w i"
  by (simp_all add: settle_position_def take_pending_def tryGetGeo_success_def
      tryGetGeo_error_def Let_def split: option.splits cont.splits sum.splits prod.splits)

lemma handle_frame [simp]:
  "loaded (handle ev w) = loaded w" "nav (handle ev w) = nav w"
  "hours (handle ev w) = hours w"
  "present (handle ev w) i = present w i"
  by (simp_all add: handle_def split: event.splits option.splits prod.splits callback.splits)

lemma step_frame [simp]:
  "loaded (step ev w) = loaded w" "nav (step ev w) = nav w"
  "hours (step ev w) = hours w"
  "present (step ev w) i = present w i"
  by (simp_all add: step_def)

lemma run_frame [simp]:
  "loaded (run w evs) = loaded w" "nav (run w evs) = nav w"
  "hours (run w evs) = hours w"
  "present (run w evs) i = present w i"
  by (induction evs arbitrary: w) (simp_all add: run_def)

lemma wf_page_step [simp]: "wf_page (step ev w) = wf_page w"
  by (simp add: wf_page_def)

lemma wf_page_run [simp]: "wf_page (run w evs) = wf_page w"
  by (simp add: wf_page_def)

subsection \<open>More projections of the host operations\<close>

lemma btn_disabled_prims [simp]:
  "btn_disabled (emit e w) = btn_disabled w"
  "btn_disabled (reject e' w) = btn_disabled w"
  "btn_disabled (set_textContent el v w) = btn_disabled w"
  "btn_disabled (set_style_display el v w) = btn_disabled w"
  "btn_disabled (set_src el v w) = btn_disabled w"
  "btn_disabled (set_alt el v w) = btn_disabled w"
  "btn_disabled (set_href el v w) = btn_disabled w"
  "btn_disabled (fetch url p ka k w) = btn_disabled w"
  "btn_disabled (read_json k w) = btn_disabled w"
  "btn_disabled (getCurrentPosition k opts w) = btn_disabled w"
  "btn_disabled (addEventListener t ty l w) = btn_disabled w"
  "btn_disabled (w\<lparr>microtasks := m\<rparr>) = btn_disabled w"
  "btn_disabled (w\<lparr>pending := ps\<rparr>) = btn_disabled w"
  "btn_disabled (w\<lparr>lastGeo := g\<rparr>) = btn_disabled w"
  "btn_disabled (w\<lparr>visibilityState := vs\<rparr>) = btn_disabled w"
  "btn_disabled (w\<lparr>visitPingTimer := vt\<rparr>) = btn_disabled w"
  "present w ''accept-btn'' \<Longrightarrow> btn_disabled (set_disabled ''accept-btn'' b w) = Some b"
  by (auto simp: btn_disabled_def option.map_comp comp_def present_def)

lemma requests_prims [simp]:
  "requests (emit e w) = requests w @ (if is_request e then [e] else [])"
  "requests (reject e' w) = requests w"
  "requests (set_textContent el v w) = requests w"
  "requests (set_style_display el v w) = requests w"
  "requests (set_src el v w) = requests w"
  "requests (set_alt el v w) = requests w"
  "requests (set_href el v w) = requests w"
  "requests (set_disabled el b w) = requests w"
  "requests (fetch url p ka k w) = requests w @ [Fetch (next_id w) url p ka]"
  "requests (read_json k w) = requests w"
  "requests (getCurrentPosition k opts w) = requests w"
  "requests (addEventListener t ty l w) = requests w"
  "requests (w\<lparr>microtasks := m\<rparr>) = requests w"
  "requests (w\<lparr>pending := ps\<rparr>) = requests w"
  "requests (w\<lparr>lastGeo := g\<rparr>) = requests w"
  "requests (w\<lparr>visibilityState := vs\<rparr>) = requests w"
  "requests (w\<lparr>visitPingTimer := vt\<rparr>) = requests w"
  "requests (w\<lparr>next_timer := nt\<rparr>) = requests w"
  "requests (w\<lparr>intervals := iv\<rparr>) = requests w"
  by (simp_all add: requests_def is_request_def)

lemma is_request_simps [simp]:
  "is_request (Console level m args) = False"
  "is_request (SetInterval h ms) = False"
  "is_request (AddEventListener t ty) = False"
  "is_request (SendBeacon url b ty) = True"
  "is_request (Fetch i url b ka) = True"
  by (simp_all add: is_request_def)

lemma wf_page_prims [simp]:
  "wf_page (emit e w) = wf_page w"
  "wf_page (reject e' w) = wf_page w"
  "wf_page (set_textContent el v w) = wf_page w"
  "wf_page (set_style_display el v w) = wf_page w"
  "wf_page (set_src el v w) = wf_page w"
  "wf_page (set_alt el v w) = wf_page w"
  "wf_page (set_href el v w) = wf_page w"
  "wf_page (set_disabled el b w) = wf_page w"
  "wf_page (fetch url p ka k w) = wf_page w"
  "wf_page (read_json k w) = wf_page w"
  "wf_page (getCurrentPosition k opts w) = wf_page w"
  "wf_page (addEventListener t ty l w) = wf_page w"
  "wf_page (w\<lparr>microtasks := m\<rparr>) = wf_page w"
  "wf_page (w\<lparr>pending := ps\<rparr>) = wf_page w"
  "wf_page (w\<lparr>lastGeo := g\<rparr>) = wf_page w"
  "wf_page (w\<lparr>visibilityState := vs\<rparr>) = wf_page w"
  "wf_page (w\<lparr>visitPingTimer := vt\<rparr>) = wf_page w"
  by (simp_all add: wf_page_def)

subsection \<open>The functions on a page that has all its elements\<close>

lemma requestAd_fetched_wf:
  "present w ''status'' \<Longrightarrow>
   requestAd_fetched s w =
     (case s of
        Rejected e \<Rightarrow> requestAd_catch e w
      | Fulfilled r \<Rightarrow>
          if status r = 204 then
            set_textContent ''status'' msg_ad_empty
              (set_style_display ''error'' ''none''
                (set_style_display ''empty'' ''block'' (set_style_display ''ad-card'' ''none'' w)))
          else if \<not> ok r then requestAd_catch (Error (''HTTP '' @ show_nat (status r))) w
          else read_json RequestAd_json w)"
  by (simp add: requestAd_fetched_def Let_def split: settled.splits)

lemma acceptPortal_catch_wf:
  "present w ''accept-status'' \<Longrightarrow>
   acceptPortal_catch e w =
     set_disabled ''accept-btn'' False
       (set_textContent ''accept-status'' msg_accept_failed
         (emit (Console ''error'' ''accept portal error:'' [ArgError e]) w))"
  by (simp add: acceptPortal_catch_def acceptPortal_finally_def Let_def)

lemma acceptPortal_wf:
  "present w ''accept-btn'' \<Longrightarrow> present w ''accept-status'' \<Longrightarrow>
   acceptPortal w =
     (case lastGeo w of
        Some g \<Rightarrow> acceptPortal_submit (Some g)
                    (set_textContent ''accept-status'' msg_accept_submitting
                      (set_disabled ''accept-btn'' True w))
      | None \<Rightarrow> tryGetGeo AcceptPortal_await
                  (set_textContent ''accept-status'' msg_accept_submitting
                    (set_disabled ''accept-btn'' True w)))"
  by (simp add: acceptPortal_def Let_def)

lemma acceptPortal_parsed_wf:
  "present w ''accept-status'' \<Longrightarrow>
   acceptPortal_parsed s w =
     (case s of
        Rejected e \<Rightarrow> acceptPortal_catch e w
      | Fulfilled data \<Rightarrow>
         (case get_prop data ''ok'' of
            Inl e \<Rightarrow> acceptPortal_catch e w
          | Inr data_ok \<Rightarrow>
              if truthy data_ok then
                (case get_prop data ''venue'' of
                   Inl e \<Rightarrow> acceptPortal_catch e (startVisitPingLoop w)
                 | Inr venue \<Rightarrow>
                     if truthy venue then
                       (case accept_venue_text venue of
                          Inl e \<Rightarrow> acceptPortal_catch e (startVisitPingLoop w)
                        | Inr text \<Rightarrow>
                            set_disabled ''accept-btn'' False
                              (set_textContent ''accept-status'' text (startVisitPingLoop w)))
                     else
                       set_disabled ''accept-btn'' False
                         (set_textContent ''accept-status'' msg_accept_no_venue
                           (startVisitPingLoop w)))
              else
                set_disabled ''accept-btn'' False
                  (set_textContent ''accept-status'' msg_accept_rejected w)))"
  by (simp add: acceptPortal_parsed_def acceptPortal_finally_def Let_def
      split: settled.splits sum.splits)

lemma acceptPortal_alt_wf:
  "present w ''accept-btn'' \<Longrightarrow> present w ''accept-status'' \<Longrightarrow>
   acceptPortal_alt w =
     fetch ''/api/v1/portal/accept/'' EmptyObject False AcceptPortalAlt_fetch
       (set_textContent ''accept-status'' msg_accept_submitting
         (set_disabled ''accept-btn'' True w))"
  by (simp add: acceptPortal_alt_def Let_def)

lemma initPortal_success_wf:
  "wf_page w \<Longrightarrow>
   initPortal_success pos w =
     requestAd (Some (coords_latitude pos)) (Some (coords_longitude pos))
       (set_textContent ''status''
          (msg_located_1 @ toFixed6 (coords_latitude pos) @ '', '' @
           toFixed6 (coords_longitude pos) @ msg_located_2 @
           show_int (Math_round (coords_accuracy pos)) @ msg_located_3) w)"
  by (simp add: initPortal_success_def Let_def wf_pageD)

lemma initPortal_error_wf:
  "wf_page w \<Longrightarrow>
   initPortal_error code message w =
     requestAd None None
       (set_textContent ''status'' (msg_locate_failed_1 @ show_nat code @ '' msg='' @ message) w)"
  by (simp add: initPortal_error_def Let_def wf_pageD)

lemma initPortal_wf:
  "wf_page w \<Longrightarrow>
   initPortal w =
     (if \<not> geolocation_in_navigator (nav w) then
        (None, requestAd None None
                 (set_textContent ''status'' msg_no_geolocation
                   (set_textContent ''status'' msg_init
                     (addEventListener (Element ''accept-btn'') ''click'' OnAcceptClick w))))
      else if \<not> geolocation (nav w) then
        (Some (TypeError ''Cannot read properties of undefined (reading getCurrentPosition)''),
         set_textContent ''status'' msg_locating
           (set_textContent ''status'' msg_init
             (addEventListener (Element ''accept-btn'') ''click'' OnAcceptClick w)))
      else
        (None, getCurrentPosition InitPortal_position
                 \<lparr>enableHighAccuracy = False, timeout = 5000, maximumAge = 0\<rparr>
                 (set_textContent ''status'' msg_locating
                   (set_textContent ''status'' msg_init
                     (addEventListener (Element ''accept-btn'') ''click'' OnAcceptClick w)))))"
  by (simp add: initPortal_def Let_def wf_pageD)

subsection \<open>Heartbeats\<close>

lemma heartbeat_sent_requests:
  "filter (heartbeat_sent ev) (trace w) = filter (heartbeat_sent ev) (requests w)"
proof -
  have "heartbeat_sent ev e \<Longrightarrow> is_request e" for e
    by (cases e) (simp_all add: heartbeat_sent_def is_request_def)
  then have "(is_request e \<and> heartbeat_sent ev e) = heartbeat_sent ev e" for e
    by blast
  then show ?thesis
    by (simp add: requests_def)
qed

lemma heartbeats_eq:
  "heartbeats ev w =
     length (filter (heartbeat_sent ev) (requests w)) + heartbeat_waiting ev w"
  by (simp add: heartbeats_def heartbeat_sent_requests)

lemma heartbeat_sent_simps [simp]:
  "heartbeat_sent ev (Fetch i ''/api/v1/portal/ping/'' (PingPayload la lo ac ev') ka) = (ev' = ev)"
  "heartbeat_sent ev (SendBeacon ''/api/v1/portal/ping/'' (PingPayload la lo ac ev') ty) = (ev' = ev)"
  "heartbeat_sent ev (Fetch i url (AcceptPayload la lo ac) ka) = False"
  "heartbeat_sent ev (Fetch i url (AdApiPayload la lo ua hr) ka) = False"
  "heartbeat_sent ev (Fetch i url EmptyObject ka) = False"
  by (simp_all add: heartbeat_sent_def)

lemma postVisitPing_send_effects:
  "pending (postVisitPing_send ev geo w) =
     pending w @ (if ev = Leave \<and> sendBeacon (nav w) then [] else [(next_id w, PostVisitPing_fetch)])"
  "requests (postVisitPing_send ev geo w) =
     requests w @
       [if ev = Leave \<and> sendBeacon (nav w)
        then SendBeacon ''/api/v1/portal/ping/''
               (PingPayload (map_option latitude geo) (map_option longitude geo)
                  (map_option accuracy_m geo) ev) ''application/json''
        else Fetch (next_id w) ''/api/v1/portal/ping/''
               (PingPayload (map_option latitude geo) (map_option longitude geo)
                  (map_option accuracy_m geo) ev) True]"
  "btn_disabled (postVisitPing_send ev geo w) = btn_disabled w"
  by (simp_all add: postVisitPing_send_def Let_def)

lemma tryGetGeo_effects:
  "pending (tryGetGeo k w) =
     pending w @ (if geolocation (nav w) then [(next_id w, TryGetGeo_position k)] else [])"
  "microtasks (tryGetGeo k w) =
     microtasks w @ (if geolocation (nav w) then [] else [(k, Fulfilled None)])"
  "requests (tryGetGeo k w) = requests w"
  "btn_disabled (tryGetGeo k w) = btn_disabled w"
  by (simp_all add: tryGetGeo_def tryGetGeo_unavailable_def)

lemma postVisitPing_effects:
  "pending (postVisitPing ev w) =
     (case lastGeo w of Some g \<Rightarrow> pending (postVisitPing_send ev (Some g) w)
      | None \<Rightarrow> pending (tryGetGeo (PostVisitPing_await ev) w))"
  "microtasks (postVisitPing ev w) =
     (case lastGeo w of Some g \<Rightarrow> microtasks w
      | None \<Rightarrow> microtasks (tryGetGeo (PostVisitPing_await ev) w))"
  "requests (postVisitPing ev w) =
     (case lastGeo w of Some g \<Rightarrow> requests (postVisitPing_send ev (Some g) w)
      | None \<Rightarrow> requests w)"
  "btn_disabled (postVisitPing ev w) = btn_disabled w"
  by (simp_all add: postVisitPing_def postVisitPing_send_effects tryGetGeo_effects
      split: option.splits)

lemma heartbeat_waiting_append:
  "heartbeat_waiting ev (w\<lparr>pending := pending w @ ps\<rparr>) =
     heartbeat_waiting ev w +
     length (filter (\<lambda>(i, k). k = TryGetGeo_position (PostVisitPing_await ev)) ps)"
  by (simp add: heartbeat_waiting_def)

lemma postVisitPing_heartbeats:
  "heartbeats ev' (postVisitPing ev w) = heartbeats ev' w + (if ev = ev' then 1 else 0)"
  by (auto simp: heartbeats_eq heartbeat_waiting_def fulfilled_ping_def is_fulfilled_def
      postVisitPing_effects postVisitPing_send_effects tryGetGeo_effects split: option.splits)

lemma startVisitPingLoop_started:
  assumes "visitPingTimer w = None"
  shows "visitPingTimer (startVisitPingLoop w) = Some (next_timer w)"
    "intervals (startVisitPingLoop w) = intervals w @ [(next_timer w, 60000, PingTick)]"
    "listeners (startVisitPingLoop w) = listeners w @ leave_listeners"
    "next_timer (startVisitPingLoop w) = Suc (next_timer w)"
    "pending (startVisitPingLoop w) = pending (postVisitPing Ping w)"
    "microtasks (startVisitPingLoop w) = microtasks (postVisitPing Ping w)"
    "requests (startVisitPingLoop w) = requests (postVisitPing Ping w)"
    "btn_disabled (startVisitPingLoop w) = btn_disabled w"
  using assms
  by (simp_all add: startVisitPingLoop_def setInterval_eq Let_def leave_listeners_def
      btn_disabled_def requests_def)

lemma startVisitPingLoop_running:
  "visitPingTimer w \<noteq> None \<Longrightarrow> startVisitPingLoop w = w"
  by (simp add: startVisitPingLoop_def)

lemma startVisitPingLoop_timer: "visitPingTimer (startVisitPingLoop w) \<noteq> None"
  by (cases "visitPingTimer w") (simp_all add: startVisitPingLoop_started startVisitPingLoop_running)

lemma startVisitPingLoop_twice:
  "startVisitPingLoop (startVisitPingLoop w) = startVisitPingLoop w"
  by (rule startVisitPingLoop_running) (rule startVisitPingLoop_timer)

lemma startVisitPingLoop_funpow:
  "(startVisitPingLoop ^^ Suc n) w = startVisitPingLoop w"
  by (induction n) (simp_all add: startVisitPingLoop_twice)

lemma startVisitPingLoop_heartbeats:
  "heartbeats ev (startVisitPingLoop w) =
     heartbeats ev w + (if visitPingTimer w = None \<and> ev = Ping then 1 else 0)"
proof (cases "visitPingTimer w")
  case None
  then have "heartbeats ev (startVisitPingLoop w) = heartbeats ev (postVisitPing Ping w)"
    by (simp add: heartbeats_eq heartbeat_waiting_def startVisitPingLoop_started)
  with None show ?thesis
    by (simp add: postVisitPing_heartbeats)
next
  case (Some h)
  then show ?thesis by (simp add: startVisitPingLoop_running)
qed

lemma heartbeat_wired_cong:
  "visitPingTimer w' = visitPingTimer w \<Longrightarrow> intervals w' = intervals w \<Longrightarrow>
   listeners w' = listeners w \<Longrightarrow> heartbeat_wired w' = heartbeat_wired w"
  by (simp add: heartbeat_wired_def split: option.splits)

lemma heartbeat_wired_start:
  "heartbeat_wired w \<Longrightarrow> heartbeat_wired (startVisitPingLoop w)"
  by (cases "visitPingTimer w")
    (simp_all add: startVisitPingLoop_started startVisitPingLoop_running heartbeat_wired_def)

subsection \<open>The wiring of the heartbeat is an invariant of the page\<close>

lemma heartbeat_wired_prims [simp]:
  "heartbeat_wired (emit e w) = heartbeat_wired w"
  "heartbeat_wired (reject e' w) = heartbeat_wired w"
  "heartbeat_wired (set_textContent el v w) = heartbeat_wired w"
  "heartbeat_wired (set_style_display el v w) = heartbeat_wired w"
  "heartbeat_wired (set_src el v w) = heartbeat_wired w"
  "heartbeat_wired (set_alt el v w) = heartbeat_wired w"
  "heartbeat_wired (set_href el v w) = heartbeat_wired w"
  "heartbeat_wired (set_disabled el b w) = heartbeat_wired w"
  "heartbeat_wired (fetch url p ka k w) = heartbeat_wired w"
  "heartbeat_wired (read_json k w) = heartbeat_wired w"
  "heartbeat_wired (getCurrentPosition k opts w) = heartbeat_wired w"
  "heartbeat_wired (w\<lparr>pending := ps\<rparr>) = heartbeat_wired w"
  "heartbeat_wired (w\<lparr>lastGeo := g\<rparr>) = heartbeat_wired w"
  "heartbeat_wired (w\<lparr>visibilityState := vs\<rparr>) = heartbeat_wired w"
  "heartbeat_wired (w\<lparr>microtasks := ms\<rparr>) = heartbeat_wired w"
  by (rule heartbeat_wired_cong; simp)+


lemma requestAd_catch_requests [simp]: "requests (requestAd_catch e w) = requests w"
  by (simp add: requestAd_catch_def Let_def status_eqs split: settled.splits sum.splits option.splits)

lemma requestAd_catch_btn [simp]: "btn_disabled (requestAd_catch e w) = btn_disabled w"
  by (simp add: requestAd_catch_def Let_def status_eqs postVisitPing_effects tryGetGeo_effects
      postVisitPing_send_effects split: settled.splits sum.splits option.splits)

lemma requestAd_catch_wired [simp]: "heartbeat_wired (requestAd_catch e w) = heartbeat_wired w"
  by (rule heartbeat_wired_cong) simp_all

lemma requestAd_btn [simp]: "btn_disabled (requestAd lat lon w) = btn_disabled w"
  by (simp add: requestAd_def Let_def status_eqs postVisitPing_effects tryGetGeo_effects
      postVisitPing_send_effects split: settled.splits sum.splits option.splits)

lemma requestAd_wired [simp]: "heartbeat_wired (requestAd lat lon w) = heartbeat_wired w"
  by (rule heartbeat_wired_cong) simp_all

lemma requestAd_fetched_requests [simp]: "requests (requestAd_fetched s w) = requests w"
  by (simp add: requestAd_fetched_def Let_def status_eqs split: settled.splits sum.splits option.splits)

lemma requestAd_fetched_btn [simp]: "btn_disabled (requestAd_fetched s w) = btn_disabled w"
  by (simp add: requestAd_fetched_def Let_def status_eqs postVisitPing_effects tryGetGeo_effects
      postVisitPing_send_effects split: settled.splits sum.splits option.splits)

lemma requestAd_fetched_wired [simp]: "heartbeat_wired (requestAd_fetched s w) = heartbeat_wired w"
  by (rule heartbeat_wired_cong) simp_all

lemma requestAd_parsed_requests [simp]: "requests (requestAd_parsed s w) = requests w"
  by (simp add: requestAd_parsed_def Let_def status_eqs split: settled.splits sum.splits option.splits)

lemma requestAd_parsed_btn [simp]: "btn_disabled (requestAd_parsed s w) = btn_disabled w"
  by (simp add: requestAd_parsed_def Let_def status_eqs postVisitPing_effects tryGetGeo_effects
      postVisitPing_send_effects split: settled.splits sum.splits option.splits)

lemma requestAd_parsed_wired [simp]: "heartbeat_wired (requestAd_parsed s w) = heartbeat_wired w"
  by (rule heartbeat_wired_cong) simp_all

lemma tryGetGeo_wired [simp]: "heartbeat_wired (tryGetGeo k w) = heartbeat_wired w"
  by (rule heartbeat_wired_cong) simp_all

lemma postVisitPing_send_wired [simp]: "heartbeat_wired (postVisitPing_send ev geo w) = heartbeat_wired w"
  by (rule heartbeat_wired_cong) simp_all

lemma postVisitPing_wired [simp]: "heartbeat_wired (postVisitPing ev w) = heartbeat_wired w"
  by (rule heartbeat_wired_cong) simp_all

lemma postVisitPing_fetched_requests [simp]: "requests (postVisitPing_fetched s w) = requests w"
  by (simp add: postVisitPing_fetched_def Let_def status_eqs split: settled.splits sum.splits option.splits)

lemma postVisitPing_fetched_btn [simp]: "btn_disabled (postVisitPing_fetched s w) = btn_disabled w"
  by (simp add: postVisitPing_fetched_def Let_def status_eqs postVisitPing_effects tryGetGeo_effects
      postVisitPing_send_effects split: settled.splits sum.splits option.splits)

lemma postVisitPing_fetched_wired [simp]: "heartbeat_wired (postVisitPing_fetched s w) = heartbeat_wired w"
  by (rule heartbeat_wired_cong) simp_all

lemma acceptPortal_finally_requests [simp]: "requests (acceptPortal_finally err w) = requests w"
  by (simp add: acceptPortal_finally_def Let_def status_eqs split: settled.splits sum.splits option.splits)

lemma acceptPortal_finally_wired [simp]: "heartbeat_wired (acceptPortal_finally err w) = heartbeat_wired w"
  by (rule heartbeat_wired_cong) simp_all

lemma acceptPortal_catch_requests [simp]: "requests (acceptPortal_catch e w) = requests w"
  by (simp add: acceptPortal_catch_def Let_def status_eqs split: settled.splits sum.splits option.splits)

lemma acceptPortal_catch_wired [simp]: "heartbeat_wired (acceptPortal_catch e w) = heartbeat_wired w"
  by (rule heartbeat_wired_cong) simp_all

lemma acceptPortal_submit_btn [simp]: "btn_disabled (acceptPortal_submit geo w) = btn_disabled w"
  by (simp add: acceptPortal_submit_def Let_def status_eqs postVisitPing_effects tryGetGeo_effects
      postVisitPing_send_effects split: settled.splits sum.splits option.splits)

lemma acceptPortal_submit_wired [simp]: "heartbeat_wired (acceptPortal_submit geo w) = heartbeat_wired w"
  by (rule heartbeat_wired_cong) simp_all

lemma acceptPortal_wired [simp]: "heartbeat_wired (acceptPortal w) = heartbeat_wired w"
  by (rule heartbeat_wired_cong) simp_all

lemma acceptPortal_fetched_requests [simp]: "requests (acceptPortal_fetched s w) = requests w"
  by (simp add: acceptPortal_fetched_def Let_def status_eqs split: settled.splits sum.splits option.splits)

lemma acceptPortal_fetched_wired [simp]: "heartbeat_wired (acceptPortal_fetched s w) = heartbeat_wired w"
  by (rule heartbeat_wired_cong) simp_all

lemma resume_geo_waiter_wired [simp]: "heartbeat_wired (resume_geo_waiter k s w) = heartbeat_wired w"
  by (rule heartbeat_wired_cong) simp_all

lemma acceptPortal_alt_finally_requests [simp]: "requests (acceptPortal_alt_finally w) = requests w"
  by (simp add: acceptPortal_alt_finally_def Let_def status_eqs split: settled.splits sum.splits option.splits)

lemma acceptPortal_alt_finally_wired [simp]: "heartbeat_wired (acceptPortal_alt_finally w) = heartbeat_wired w"
  by (rule heartbeat_wired_cong) simp_all

lemma acceptPortal_alt_catch_requests [simp]: "requests (acceptPortal_alt_catch e w) = requests w"
  by (simp add: acceptPortal_alt_catch_def Let_def status_eqs split: settled.splits sum.splits option.splits)

lemma acceptPortal_alt_catch_wired [simp]: "heartbeat_wired (acceptPortal_alt_catch e w) = heartbeat_wired w"
  by (rule heartbeat_wired_cong) simp_all

lemma acceptPortal_alt_wired [simp]: "heartbeat_wired (acceptPortal_alt w) = heartbeat_wired w"
  by (rule heartbeat_wired_cong) simp_all

lemma acceptPortal_alt_fetched_requests [simp]: "requests (acceptPortal_alt_fetched s w) = requests w"
  by (simp add: acceptPortal_alt_fetched_def Let_def status_eqs split: settled.splits sum.splits option.splits)

lemma acceptPortal_alt_fetched_wired [simp]: "heartbeat_wired (acceptPortal_alt_fetched s w) = heartbeat_wired w"
  by (rule heartbeat_wired_cong) simp_all

lemma acceptPortal_alt_parsed_requests [simp]: "requests (acceptPortal_alt_parsed s w) = requests w"
  by (simp add: acceptPortal_alt_parsed_def Let_def status_eqs split: settled.splits sum.splits option.splits)

lemma acceptPortal_alt_parsed_wired [simp]: "heartbeat_wired (acceptPortal_alt_parsed s w) = heartbeat_wired w"
  by (rule heartbeat_wired_cong) simp_all

lemma initPortal_success_btn [simp]: "btn_disabled (initPortal_success pos w) = btn_disabled w"
  by (simp add: initPortal_success_def Let_def status_eqs postVisitPing_effects tryGetGeo_effects
      postVisitPing_send_effects split: settled.splits sum.splits option.splits)

lemma initPortal_success_wired [simp]: "heartbeat_wired (initPortal_success pos w) = heartbeat_wired w"
  by (rule heartbeat_wired_cong) simp_all

lemma initPortal_error_btn [simp]: "btn_disabled (initPortal_error code message w) = btn_disabled w"
  by (simp add: initPortal_error_def Let_def status_eqs postVisitPing_effects tryGetGeo_effects
      postVisitPing_send_effects split: settled.splits sum.splits option.splits)

lemma initPortal_error_wired [simp]: "heartbeat_wired (initPortal_error code message w) = heartbeat_wired w"
  by (rule heartbeat_wired_cong) simp_all

lemma drain_wired [simp]: "heartbeat_wired (drain w) = heartbeat_wired w"
  by (rule heartbeat_wired_cong) simp_all

lemma acceptPortal_parsed_wired:
  "heartbeat_wired w \<Longrightarrow> heartbeat_wired (acceptPortal_parsed s w)"
  by (simp add: acceptPortal_parsed_def Let_def status_eqs heartbeat_wired_start
      split: settled.splits sum.splits)

lemma dispatch_click:
  "heartbeat_wired w \<Longrightarrow>
   dispatch (Element ''accept-btn'') ''click'' w = drain (run_listener OnAcceptClick w)"
  by (simp add: dispatch_def heartbeat_wired_def base_listeners_def leave_listeners_def
      split: option.splits)

lemma dispatch_beforeunload:
  "heartbeat_wired w \<Longrightarrow>
   dispatch Window ''beforeunload'' w =
     (if visitPingTimer w = None then w else drain (postVisitPing Leave w))"
  by (simp add: dispatch_def heartbeat_wired_def base_listeners_def leave_listeners_def
      run_listener_def split: option.splits)

lemma dispatch_visibilitychange:
  "heartbeat_wired w \<Longrightarrow>
   dispatch Document ''visibilitychange'' w =
     (if visitPingTimer w = None then w
      else drain (if visibilityState w = ''hidden'' then postVisitPing Leave w else w))"
  by (simp add: dispatch_def heartbeat_wired_def base_listeners_def leave_listeners_def
      run_listener_def split: option.splits)

lemma run_listener_click_wired [simp]:
  "heartbeat_wired (run_listener OnAcceptClick w) = heartbeat_wired w"
  by (simp add: run_listener_def split: source_file.splits)

lemma settle_position_wired:
  "heartbeat_wired w \<Longrightarrow> heartbeat_wired (settle_position i r w)"
  by (simp add: settle_position_def take_pending_def tryGetGeo_success_def tryGetGeo_error_def
      Let_def split: option.splits cont.splits sum.splits prod.splits)

lemma settle_fetch_wired:
  "heartbeat_wired w \<Longrightarrow> heartbeat_wired (settle_fetch i s w)"
  by (simp add: settle_fetch_def take_pending_def split: option.splits cont.splits)

lemma settle_json_wired:
  "heartbeat_wired w \<Longrightarrow> heartbeat_wired (settle_json i s w)"
  by (simp add: settle_json_def take_pending_def acceptPortal_parsed_wired
      split: option.splits cont.splits)

lemma handle_wired:
  "heartbeat_wired w \<Longrightarrow> heartbeat_wired (handle ev w)"
  by (cases ev)
    (simp_all add: handle_def dispatch_click dispatch_beforeunload dispatch_visibilitychange
      settle_position_wired settle_fetch_wired settle_json_wired
      split: option.splits prod.splits callback.splits)

lemma step_wired: "heartbeat_wired w \<Longrightarrow> heartbeat_wired (step ev w)"
  by (simp add: step_def handle_wired)

lemma run_wired: "heartbeat_wired w \<Longrightarrow> heartbeat_wired (run w evs)"
  by (induction evs arbitrary: w) (simp_all add: run_def step_wired)

lemma script_loaded_fields [simp]:
  "loaded (script_loaded f n h els) = f" "nav (script_loaded f n h els) = n"
  "hours (script_loaded f n h els) = h" "elems (script_loaded f n h els) = els"
  "lastGeo (script_loaded f n h els) = None" "visitPingTimer (script_loaded f n h els) = None"
  "listeners (script_loaded f n h els) = [(Document, ''DOMContentLoaded'', OnDOMContentLoaded)]"
  "intervals (script_loaded f n h els) = []" "next_timer (script_loaded f n h els) = 1"
  "pending (script_loaded f n h els) = []" "next_id (script_loaded f n h els) = 0"
  "microtasks (script_loaded f n h els) = []" "unhandled (script_loaded f n h els) = []"
  "visibilityState (script_loaded f n h els) = ''visible''"
  "trace (script_loaded f n h els) = [AddEventListener Document ''DOMContentLoaded'']"
  by (simp_all add: script_loaded_def)

lemma page_load_eq:
  "page_load f n h els = drain (run_listener OnDOMContentLoaded (script_loaded f n h els))"
  by (simp add: page_load_def dispatch_def)

lemma initPortal_listeners:
  "wf_page w \<Longrightarrow>
   listeners (snd (initPortal w)) = listeners w @ [(Element ''accept-btn'', ''click'', OnAcceptClick)]"
  by (simp add: initPortal_wf)

lemma run_listener_init_wired:
  assumes "wf_page w"
  shows "listeners (run_listener OnDOMContentLoaded w) =
           listeners w @ [(Element ''accept-btn'', ''click'', OnAcceptClick)]"
    "intervals (run_listener OnDOMContentLoaded w) = intervals w"
    "visitPingTimer (run_listener OnDOMContentLoaded w) = visitPingTimer w"
  using assms by (simp_all add: run_listener_def initPortal_wf Let_def wf_pageD)

lemma page_load_wired:
  "wf_page (script_loaded f n h els) \<Longrightarrow> heartbeat_wired (page_load f n h els)"
  by (simp add: page_load_eq heartbeat_wired_def run_listener_init_wired base_listeners_def)

subsection \<open>The page after loading\<close>

lemma wf_portal_page [simp]: "wf_page (script_loaded f n h portal_page)"
  by (simp add: wf_page_def present_def portal_page_def)

lemma run_listener_init_next_timer:
  "wf_page w \<Longrightarrow> next_timer (run_listener OnDOMContentLoaded w) = next_timer w"
  by (simp add: run_listener_def initPortal_wf Let_def wf_pageD)

lemma page_load_fresh:
  assumes "wf_page (script_loaded f n h els)"
  shows "visitPingTimer (page_load f n h els) = None"
    "intervals (page_load f n h els) = []"
    "next_timer (page_load f n h els) = 1"
    "lastGeo (page_load f n h els) = None"
  using assms
  by (simp_all add: page_load_eq run_listener_init_wired run_listener_init_next_timer)

lemma page_load_microtasks [simp]: "microtasks (page_load f n h els) = []"
  by (simp add: page_load_eq)

lemma run_microtasks [simp]: "microtasks (run (page_load f n h els) evs) = []"
proof (induction evs rule: rev_induct)
  case Nil
  show ?case by (simp add: run_def)
next
  case (snoc ev evs)
  show ?case by (simp add: run_def step_def)
qed

subsection \<open>Heartbeats through the microtask checkpoint\<close>

lemma heartbeat_waiting_updates [simp]:
  "heartbeat_waiting ev (emit e w) = heartbeat_waiting ev w"
  "heartbeat_waiting ev (reject e' w) = heartbeat_waiting ev w"
  "heartbeat_waiting ev (set_textContent el v w) = heartbeat_waiting ev w"
  "heartbeat_waiting ev (set_disabled el b w) = heartbeat_waiting ev w"
  "heartbeat_waiting ev (w\<lparr>visibilityState := vs\<rparr>) = heartbeat_waiting ev w"
  "heartbeat_waiting ev (w\<lparr>lastGeo := g\<rparr>) = heartbeat_waiting ev w"
  by (simp_all add: heartbeat_waiting_def)

lemma heartbeats_updates [simp]:
  "heartbeats ev (w\<lparr>visibilityState := vs\<rparr>) = heartbeats ev w"
  "heartbeats ev (w\<lparr>lastGeo := g\<rparr>) = heartbeats ev w"
  by (simp_all add: heartbeats_eq)

lemma heartbeat_waiting_frame:
  "pending w' = pending w \<Longrightarrow> microtasks w' = microtasks w \<Longrightarrow>
   heartbeat_waiting ev w' = heartbeat_waiting ev w"
  by (simp add: heartbeat_waiting_def)

lemma acceptPortal_submit_effects:
  "pending (acceptPortal_submit geo w) = pending w @ [(next_id w, AcceptPortal_fetch)]"
  "requests (acceptPortal_submit geo w) =
     requests w @ [Fetch (next_id w) ''/api/v1/portal/accept/''
                     (AcceptPayload (map_option latitude geo) (map_option longitude geo)
                        (map_option accuracy_m geo)) False]"
  by (simp_all add: acceptPortal_submit_def Let_def)

lemma resume_heartbeats:
  "length (filter (heartbeat_sent ev) (requests (resume_geo_waiter k s w))) =
     length (filter (heartbeat_sent ev) (requests w)) + (if fulfilled_ping ev (k, s) then 1 else 0)"
  "length (filter (\<lambda>(i, k). k = TryGetGeo_position (PostVisitPing_await ev))
             (pending (resume_geo_waiter k s w))) =
   length (filter (\<lambda>(i, k). k = TryGetGeo_position (PostVisitPing_await ev)) (pending w))"
  by (auto simp: resume_geo_waiter_def fulfilled_ping_def is_fulfilled_def postVisitPing_send_effects
      acceptPortal_submit_effects split: geo_waiter.splits settled.splits)

lemma foldl_resume_heartbeats:
  "length (filter (heartbeat_sent ev)
     (requests (foldl (\<lambda>w' (k, s). resume_geo_waiter k s w') w ms))) =
   length (filter (heartbeat_sent ev) (requests w)) + length (filter (fulfilled_ping ev) ms) \<and>
   length (filter (\<lambda>(i, k). k = TryGetGeo_position (PostVisitPing_await ev))
     (pending (foldl (\<lambda>w' (k, s). resume_geo_waiter k s w') w ms))) =
   length (filter (\<lambda>(i, k). k = TryGetGeo_position (PostVisitPing_await ev)) (pending w))"
proof (induction ms arbitrary: w)
  case Nil
  show ?case by simp
next
  case (Cons m ms)
  obtain k s where m: "m = (k, s)" by (cases m)
  show ?case
    using Cons.IH [of "resume_geo_waiter k s w"] resume_heartbeats [of ev k s w]
    by (simp add: m)
qed

lemma foldl_resume_microtasks [simp]:
  "microtasks (foldl (\<lambda>w' (k, s). resume_geo_waiter k s w') w ms) = microtasks w"
  by (rule foldl_resume_preserves) simp

lemma drain_heartbeats [simp]: "heartbeats ev (drain w) = heartbeats ev w"
  using foldl_resume_heartbeats [of ev "w\<lparr>microtasks := []\<rparr>" "microtasks w"]
  by (simp add: heartbeats_eq heartbeat_waiting_def drain_def)

lemma drain_waiting:
  "heartbeat_waiting ev (drain w) =
     length (filter (\<lambda>(i, k). k = TryGetGeo_position (PostVisitPing_await ev)) (pending w))"
  using foldl_resume_heartbeats [of ev "w\<lparr>microtasks := []\<rparr>" "microtasks w"]
  by (simp add: heartbeat_waiting_def drain_def)

lemma hide_heartbeats:
  assumes "heartbeat_wired w"
  shows "heartbeats ev (step (VisibilityChange ''hidden'') w) =
           heartbeats ev w + (if visitPingTimer w \<noteq> None \<and> ev = Leave then 1 else 0)"
    "heartbeats ev (step BeforeUnload w) =
           heartbeats ev w + (if visitPingTimer w \<noteq> None \<and> ev = Leave then 1 else 0)"
    "v \<noteq> ''hidden'' \<Longrightarrow> heartbeats ev (step (VisibilityChange v) w) = heartbeats ev w"
  using assms
  by (auto simp: step_def handle_def dispatch_visibilitychange dispatch_beforeunload
      postVisitPing_heartbeats)

subsection \<open>The accept response\<close>

lemma accept_status_prims [simp]:
  "accept_status (emit e w) = accept_status w"
  "accept_status (reject e' w) = accept_status w"
  "accept_status (fetch url p ka k w) = accept_status w"
  "accept_status (read_json k w) = accept_status w"
  "accept_status (set_disabled el b w) = accept_status w"
  "accept_status (w\<lparr>microtasks := m\<rparr>) = accept_status w"
  "accept_status (w\<lparr>pending := ps\<rparr>) = accept_status w"
  "present w ''accept-status'' \<Longrightarrow>
     accept_status (set_textContent ''accept-status'' t w) = Some t"
  by (auto simp: accept_status_def option.map_comp comp_def present_def)

lemma elems_resume_fulfilled [simp]:
  "elems (resume_geo_waiter k (Fulfilled g) w) = elems w"
  by (simp add: resume_geo_waiter_def split: geo_waiter.splits)

lemma foldl_resume_elems:
  "list_all (\<lambda>(k, s). is_fulfilled s) ms \<Longrightarrow>
   elems (foldl (\<lambda>w' (k, s). resume_geo_waiter k s w') w ms) = elems w"
proof (induction ms arbitrary: w)
  case Nil
  show ?case by simp
next
  case (Cons m ms)
  obtain k s where m: "m = (k, s)" by (cases m)
  with Cons.prems obtain g where s: "s = Fulfilled g"
    by (cases s) (simp_all add: is_fulfilled_def)
  show ?case
    using Cons m s by simp
qed

lemma drain_elems:
  "list_all (\<lambda>(k, s). is_fulfilled s) (microtasks w) \<Longrightarrow> elems (drain w) = elems w"
  by (simp add: drain_def foldl_resume_elems)

lemma startVisitPingLoop_microtasks:
  "microtasks (startVisitPingLoop w) =
     microtasks w @
       (if visitPingTimer w = None \<and> lastGeo w = None \<and> \<not> geolocation (nav w)
        then [(PostVisitPing_await Ping, Fulfilled None)] else [])"
  by (cases "visitPingTimer w")
    (simp_all add: startVisitPingLoop_started startVisitPingLoop_running postVisitPing_effects
      tryGetGeo_effects split: option.splits)

lemma acceptPortal_parsed_microtasks:
  "microtasks (acceptPortal_parsed s w) = microtasks w \<or>
   microtasks (acceptPortal_parsed s w) = microtasks (startVisitPingLoop w)"
  by (simp add: acceptPortal_parsed_def Let_def status_eqs split: settled.splits sum.splits)

lemma acceptPortal_parsed_fulfilled:
  "list_all (\<lambda>(k, s). is_fulfilled s) (microtasks w) \<Longrightarrow>
   list_all (\<lambda>(k, s). is_fulfilled s) (microtasks (acceptPortal_parsed s' w))"
  using acceptPortal_parsed_microtasks [of s' w]
  by (auto simp: startVisitPingLoop_microtasks is_fulfilled_def)

lemma step_accept_json:
  assumes "map_of (pending w) i = Some AcceptPortal_json" and "microtasks w = []"
  shows "elems (step (JsonFulfilled i data) w) =
           elems (acceptPortal_parsed (Fulfilled data)
                    (w\<lparr>pending := remove1 (i, AcceptPortal_json) (pending w)\<rparr>))"
    "visitPingTimer (step (JsonFulfilled i data) w) =
           visitPingTimer (acceptPortal_parsed (Fulfilled data)
                    (w\<lparr>pending := remove1 (i, AcceptPortal_json) (pending w)\<rparr>))"
    "intervals (step (JsonFulfilled i data) w) =
           intervals (acceptPortal_parsed (Fulfilled data)
                    (w\<lparr>pending := remove1 (i, AcceptPortal_json) (pending w)\<rparr>))"
    "heartbeats ev (step (JsonFulfilled i data) w) =
           heartbeats ev (acceptPortal_parsed (Fulfilled data)
                    (w\<lparr>pending := remove1 (i, AcceptPortal_json) (pending w)\<rparr>))"
proof -
  let ?w = "w\<lparr>pending := remove1 (i, AcceptPortal_json) (pending w)\<rparr>"
  have h: "handle (JsonFulfilled i data) w = acceptPortal_parsed (Fulfilled data) ?w"
    using assms(1) by (simp add: handle_def settle_json_def take_pending_Some)
  have "list_all (\<lambda>(k, s). is_fulfilled s) (microtasks (acceptPortal_parsed (Fulfilled data) ?w))"
    by (rule acceptPortal_parsed_fulfilled) (simp add: assms(2))
  then show "elems (step (JsonFulfilled i data) w) = elems (acceptPortal_parsed (Fulfilled data) ?w)"
    by (simp add: step_def h drain_elems)
  show "visitPingTimer (step (JsonFulfilled i data) w) =
          visitPingTimer (acceptPortal_parsed (Fulfilled data) ?w)"
    "intervals (step (JsonFulfilled i data) w) =
          intervals (acceptPortal_parsed (Fulfilled data) ?w)"
    "heartbeats ev (step (JsonFulfilled i data) w) =
          heartbeats ev (acceptPortal_parsed (Fulfilled data) ?w)"
    by (simp_all add: step_def h)
qed

lemma acceptPortal_parsed_ok:
  assumes "get_prop data ''ok'' = Inr data_ok" and "truthy data_ok"
  shows "visitPingTimer (acceptPortal_parsed (Fulfilled data) w) =
           visitPingTimer (startVisitPingLoop w)"
    "intervals (acceptPortal_parsed (Fulfilled data) w) = intervals (startVisitPingLoop w)"
    "listeners (acceptPortal_parsed (Fulfilled data) w) = listeners (startVisitPingLoop w)"
    "pending (acceptPortal_parsed (Fulfilled data) w) = pending (startVisitPingLoop w)"
    "microtasks (acceptPortal_parsed (Fulfilled data) w) = microtasks (startVisitPingLoop w)"
    "requests (acceptPortal_parsed (Fulfilled data) w) = requests (startVisitPingLoop w)"
  using assms
  by (simp_all add: acceptPortal_parsed_def Let_def status_eqs split: sum.splits)

lemma acceptPortal_parsed_ok_heartbeats:
  assumes "get_prop data ''ok'' = Inr data_ok" and "truthy data_ok"
  shows "heartbeats ev (acceptPortal_parsed (Fulfilled data) w) =
           heartbeats ev w + (if visitPingTimer w = None \<and> ev = Ping then 1 else 0)"
proof -
  have "heartbeats ev (acceptPortal_parsed (Fulfilled data) w) =
          heartbeats ev (startVisitPingLoop w)"
    using acceptPortal_parsed_ok [OF assms, of w]
    by (simp add: heartbeats_eq heartbeat_waiting_def)
  then show ?thesis
    by (simp add: startVisitPingLoop_heartbeats)
qed

lemma show_int_12: "show_int 12 = ''12''"
  by code_simp

lemma cafe_venue_text:
  "accept_venue_text (Some (JObj [(''name'', JStr ''Cafe X''), (''category'', JStr ''food''),
                                   (''distance_m'', JNum 12)])) =
     Inr (msg_accept_venue_1 @ ''Cafe X'' @ msg_accept_venue_2 @ ''food'' @ msg_accept_venue_3 @
          ''12'' @ ''m'')"
  by (simp add: accept_venue_text_def get_prop_val_def get_prop_def to_string_val_def nullish_def
      show_int_12)

lemma acceptPortal_parsed_status:
  assumes "present w ''accept-status''"
  shows "accept_status (acceptPortal_parsed (Fulfilled cafe_venue) w) =
           Some (msg_accept_venue_1 @ ''Cafe X'' @ msg_accept_venue_2 @ ''food'' @
                 msg_accept_venue_3 @ ''12'' @ ''m'')"
    "get_prop data ''ok'' = Inr (Some (JBool True)) \<Longrightarrow> get_prop data ''venue'' = Inr venue \<Longrightarrow>
     \<not> truthy venue \<Longrightarrow>
     accept_status (acceptPortal_parsed (Fulfilled data) w) = Some msg_accept_no_venue"
  using assms
  by (simp_all add: acceptPortal_parsed_wf cafe_venue_def get_prop_def truthy_def cafe_venue_text)

lemma step_accept_fetch_ok:
  assumes "map_of (pending w) j = Some AcceptPortal_fetch" and "ok res"
  shows "(next_id w, AcceptPortal_json) \<in> set (pending (handle (FetchFulfilled j res) w))"
  using assms
  by (simp add: handle_def settle_fetch_def take_pending_Some acceptPortal_fetched_def)

lemma pending_drain_mono: "x \<in> set (pending w) \<Longrightarrow> x \<in> set (pending (drain w))"
proof -
  have r: "x \<in> set (pending w') \<Longrightarrow> x \<in> set (pending (resume_geo_waiter k s w'))" for w' k s
    by (auto simp: resume_geo_waiter_def postVisitPing_send_effects acceptPortal_submit_effects
        split: geo_waiter.splits settled.splits)
  have "x \<in> set (pending w') \<Longrightarrow>
        x \<in> set (pending (foldl (\<lambda>w' (k, s). resume_geo_waiter k s w') w' ms))" for w' ms
    by (induction ms arbitrary: w') (auto simp: r split: prod.splits)
  then show "x \<in> set (pending w) \<Longrightarrow> x \<in> set (pending (drain w))"
    by (simp add: drain_def)
qed

lemma filter_remove1_other:
  "\<not> P x \<Longrightarrow> filter P (remove1 x xs) = filter P xs"
  by (simp add: filter_remove1 remove1_idem)

lemma length_filter_remove1:
  "x \<in> set xs \<Longrightarrow>
   length (filter P (remove1 x xs)) = length (filter P xs) - (if P x then 1 else 0)"
  by (simp add: filter_remove1 length_remove1 remove1_idem)

lemma success_prefix:
  "take 15 msg_accept_no_venue = take 15 msg_accept_venue_1"
  "msg_accept_no_venue \<noteq> msg_accept_failed" "msg_accept_no_venue \<noteq> msg_accept_rejected"
  "take 12 msg_accept_failed = take 12 msg_accept_rejected"
  "take 12 msg_accept_no_venue \<noteq> take 12 msg_accept_failed"
  by (simp_all add: msg_accept_no_venue_def msg_accept_venue_1_def msg_accept_failed_def
      msg_accept_rejected_def)

lemma accept_json_ok:
  assumes "present w ''accept-status''" and "microtasks w = []"
    and "map_of (pending w) i = Some AcceptPortal_json"
    and "get_prop data ''ok'' = Inr (Some (JBool True))"
  shows "visitPingTimer (step (JsonFulfilled i data) w) \<noteq> None \<and>
    (visitPingTimer w = None \<longrightarrow>
       visitPingTimer (step (JsonFulfilled i data) w) = Some (next_timer w) \<and>
       intervals (step (JsonFulfilled i data) w) = intervals w @ [(next_timer w, 60000, PingTick)] \<and>
       heartbeats Ping (step (JsonFulfilled i data) w) = heartbeats Ping w + 1) \<and>
    (get_prop data ''venue'' =
       Inr (Some (JObj [(''name'', JStr ''Cafe X''), (''category'', JStr ''food''),
                        (''distance_m'', JNum 12)])) \<longrightarrow>
       (\<exists>text. accept_status (step (JsonFulfilled i data) w) = Some text \<and>
               sublist ''Cafe X'' text \<and> sublist ''12m'' text \<and>
               take 15 text = take 15 msg_accept_no_venue)) \<and>
    (get_prop data ''venue'' = Inr (Some JNull) \<or> get_prop data ''venue'' = Inr None \<longrightarrow>
       accept_status (step (JsonFulfilled i data) w) = Some msg_accept_no_venue)"
proof -
  let ?w = "w\<lparr>pending := remove1 (i, AcceptPortal_json) (pending w)\<rparr>"
  have ok: "truthy (Some (JBool True))" by (simp add: truthy_def)
  note st = step_accept_json [OF assms(3) assms(2), where data = data]
  note pk = acceptPortal_parsed_ok [OF assms(4) ok, of ?w]
  have timer: "visitPingTimer (step (JsonFulfilled i data) w) \<noteq> None"
    by (simp add: st pk startVisitPingLoop_timer)
  have fresh: "visitPingTimer (step (JsonFulfilled i data) w) = Some (next_timer w) \<and>
       intervals (step (JsonFulfilled i data) w) = intervals w @ [(next_timer w, 60000, PingTick)] \<and>
       heartbeats Ping (step (JsonFulfilled i data) w) = heartbeats Ping w + 1"
    if "visitPingTimer w = None"
  proof -
    have "heartbeats Ping ?w = heartbeats Ping w"
      by (simp add: heartbeats_eq heartbeat_waiting_def filter_remove1_other)
    then show ?thesis
      using that
      by (simp add: st pk startVisitPingLoop_started
          acceptPortal_parsed_ok_heartbeats [OF assms(4) ok])
  qed
  have venue: "\<exists>text. accept_status (step (JsonFulfilled i data) w) = Some text \<and>
               sublist ''Cafe X'' text \<and> sublist ''12m'' text \<and>
               take 15 text = take 15 msg_accept_no_venue"
    if v: "get_prop data ''venue'' =
       Inr (Some (JObj [(''name'', JStr ''Cafe X''), (''category'', JStr ''food''),
                        (''distance_m'', JNum 12)]))"
  proof -
    let ?t = "msg_accept_venue_1 @ ''Cafe X'' @ msg_accept_venue_2 @ ''food'' @
              msg_accept_venue_3 @ ''12'' @ ''m''"
    have "accept_status (acceptPortal_parsed (Fulfilled data) ?w) = Some ?t"
      using assms(1) assms(4) v
      by (simp add: acceptPortal_parsed_wf truthy_def cafe_venue_text)
    then have "accept_status (step (JsonFulfilled i data) w) = Some ?t"
      by (simp add: accept_status_def st)
    moreover have "sublist ''Cafe X'' ?t"
      by (rule sublist_appendI [of _ msg_accept_venue_1]) 
    moreover have "?t = (msg_accept_venue_1 @ ''Cafe X'' @ msg_accept_venue_2 @ ''food'' @
              msg_accept_venue_3) @ ''12m'' @ []"
      by simp
    then have "sublist ''12m'' ?t"
      unfolding sublist_def by blast
    moreover have "take 15 ?t = take 15 msg_accept_no_venue"
      by (simp add: msg_accept_venue_1_def msg_accept_no_venue_def)
    ultimately show ?thesis by blast
  qed
  have none: "accept_status (step (JsonFulfilled i data) w) = Some msg_accept_no_venue"
    if "get_prop data ''venue'' = Inr (Some JNull) \<or> get_prop data ''venue'' = Inr None"
  proof -
    have "accept_status (acceptPortal_parsed (Fulfilled data) ?w) = Some msg_accept_no_venue"
      using assms(1) assms(4) that
      by (auto simp: acceptPortal_parsed_wf truthy_def)
    then show ?thesis
      by (simp add: accept_status_def st)
  qed
  show ?thesis
    using timer fresh venue none by simp
qed

lemma page_load_frame [simp]:
  "loaded (page_load f n h els) = f" "nav (page_load f n h els) = n"
  "hours (page_load f n h els) = h"
  "present (page_load f n h els) i = present (script_loaded f n h els) i"
  by (simp_all add: page_load_def)

lemma wf_page_load [simp]: "wf_page (page_load f n h els) = wf_page (script_loaded f n h els)"
  by (simp add: wf_page_def)

lemma run_kiosk_accepting:
  "map_of (pending (run (page_load Portal_js kiosk 9 portal_page) [Click, FetchFulfilled 1 http_ok])) 2
     = Some AcceptPortal_json"
  by code_simp

section \<open>acceptPortal: a successful answer\<close>

text \<open>
  Claim C3. On a page with its status line, when the accept request is answered with a
  status in 200..299 the body is read; when the body parses to a value with
  \<open>ok: true\<close>, the heartbeat is running afterwards, whatever \<open>venue\<close> is: the
  sentinel is set, and if it was \<open>null\<close> before, the timer is armed and one ping
  heartbeat is added. With the venue \<open>{name: "Cafe X", category: "food", distance_m: 12}\<close>
  the status text contains \<open>Cafe X\<close> and \<open>12m\<close>; with \<open>venue\<close> \<open>null\<close> or
  absent the status is the "no venue matched" text, which begins like the attributed
  success text and differs from both failure texts.
\<close>

theorem acceptPortal_success:
  assumes "present w ''accept-status''" and "microtasks w = []"
  shows "(map_of (pending w) j = Some AcceptPortal_fetch \<and> ok res \<longrightarrow>
      (next_id w, AcceptPortal_json) \<in> set (pending (step (FetchFulfilled j res) w))) \<and>
    (map_of (pending w) i = Some AcceptPortal_json \<and>
     get_prop data ''ok'' = Inr (Some (JBool True)) \<longrightarrow>
       visitPingTimer (step (JsonFulfilled i data) w) \<noteq> None \<and>
       (visitPingTimer w = None \<longrightarrow>
          visitPingTimer (step (JsonFulfilled i data) w) = Some (next_timer w) \<and>
          intervals (step (JsonFulfilled i data) w) =
            intervals w @ [(next_timer w, 60000, PingTick)] \<and>
          heartbeats Ping (step (JsonFulfilled i data) w) = heartbeats Ping w + 1) \<and>
       (get_prop data ''venue'' =
          Inr (Some (JObj [(''name'', JStr ''Cafe X''), (''category'', JStr ''food''),
                           (''distance_m'', JNum 12)])) \<longrightarrow>
          (\<exists>text. accept_status (step (JsonFulfilled i data) w) = Some text \<and>
                  sublist ''Cafe X'' text \<and> sublist ''12m'' text \<and>
                  take 15 text = take 15 msg_accept_no_venue)) \<and>
       (get_prop data ''venue'' = Inr (Some JNull) \<or> get_prop data ''venue'' = Inr None \<longrightarrow>
          accept_status (step (JsonFulfilled i data) w) = Some msg_accept_no_venue)) \<and>
    msg_accept_no_venue \<noteq> msg_accept_failed \<and> msg_accept_no_venue \<noteq> msg_accept_rejected \<and>
    take 12 msg_accept_no_venue \<noteq> take 12 msg_accept_failed \<and>
    take 12 msg_accept_rejected = take 12 msg_accept_failed"
proof (intro conjI)
  show "map_of (pending w) j = Some AcceptPortal_fetch \<and> ok res \<longrightarrow>
      (next_id w, AcceptPortal_json) \<in> set (pending (step (FetchFulfilled j res) w))"
    unfolding step_def by (auto intro: pending_drain_mono step_accept_fetch_ok)
  show "map_of (pending w) i = Some AcceptPortal_json \<and>
     get_prop data ''ok'' = Inr (Some (JBool True)) \<longrightarrow>
       visitPingTimer (step (JsonFulfilled i data) w) \<noteq> None \<and>
       (visitPingTimer w = None \<longrightarrow>
          visitPingTimer (step (JsonFulfilled i data) w) = Some (next_timer w) \<and>
          intervals (step (JsonFulfilled i data) w) =
            intervals w @ [(next_timer w, 60000, PingTick)] \<and>
          heartbeats Ping (step (JsonFulfilled i data) w) = heartbeats Ping w + 1) \<and>
       (get_prop data ''venue'' =
          Inr (Some (JObj [(''name'', JStr ''Cafe X''), (''category'', JStr ''food''),
                           (''distance_m'', JNum 12)])) \<longrightarrow>
          (\<exists>text. accept_status (step (JsonFulfilled i data) w) = Some text \<and>
                  sublist ''Cafe X'' text \<and> sublist ''12m'' text \<and>
                  take 15 text = take 15 msg_accept_no_venue)) \<and>
       (get_prop data ''venue'' = Inr (Some JNull) \<or> get_prop data ''venue'' = Inr None \<longrightarrow>
          accept_status (step (JsonFulfilled i data) w) = Some msg_accept_no_venue)"
  proof (intro impI, elim conjE)
    assume "map_of (pending w) i = Some AcceptPortal_json"
      and "get_prop data ''ok'' = Inr (Some (JBool True))"
    then show "visitPingTimer (step (JsonFulfilled i data) w) \<noteq> None \<and>
       (visitPingTimer w = None \<longrightarrow>
          visitPingTimer (step (JsonFulfilled i data) w) = Some (next_timer w) \<and>
          intervals (step (JsonFulfilled i data) w) =
            intervals w @ [(next_timer w, 60000, PingTick)] \<and>
          heartbeats Ping (step (JsonFulfilled i data) w) = heartbeats Ping w + 1) \<and>
       (get_prop data ''venue'' =
          Inr (Some (JObj [(''name'', JStr ''Cafe X''), (''category'', JStr ''food''),
                           (''distance_m'', JNum 12)])) \<longrightarrow>
          (\<exists>text. accept_status (step (JsonFulfilled i data) w) = Some text \<and>
                  sublist ''Cafe X'' text \<and> sublist ''12m'' text \<and>
                  take 15 text = take 15 msg_accept_no_venue)) \<and>
       (get_prop data ''venue'' = Inr (Some JNull) \<or> get_prop data ''venue'' = Inr None \<longrightarrow>
          accept_status (step (JsonFulfilled i data) w) = Some msg_accept_no_venue)"
      by (rule accept_json_ok [OF assms])
  qed
qed (simp_all add: msg_accept_no_venue_def msg_accept_failed_def msg_accept_rejected_def)

text \<open>
  The theorem on the page of a device without geolocation, after a click and a 200:
  the body is being read, and the two bodies of the claim give the attributed and the
  unattributed success, each with the heartbeat running.
\<close>

theorem acceptPortal_success_witness:
  "present (run (page_load Portal_js kiosk 9 portal_page) [Click, FetchFulfilled 1 http_ok])
     ''accept-status'' \<and>
   microtasks (run (page_load Portal_js kiosk 9 portal_page) [Click, FetchFulfilled 1 http_ok]) = [] \<and>
   map_of (pending (run (page_load Portal_js kiosk 9 portal_page) [Click, FetchFulfilled 1 http_ok])) 2
     = Some AcceptPortal_json \<and>
   get_prop cafe_venue ''ok'' = Inr (Some (JBool True)) \<and>
   get_prop no_venue ''ok'' = Inr (Some (JBool True)) \<and>
   visitPingTimer (step (JsonFulfilled 2 cafe_venue)
     (run (page_load Portal_js kiosk 9 portal_page) [Click, FetchFulfilled 1 http_ok])) \<noteq> None \<and>
   (\<exists>text. accept_status (step (JsonFulfilled 2 cafe_venue)
       (run (page_load Portal_js kiosk 9 portal_page) [Click, FetchFulfilled 1 http_ok])) = Some text \<and>
       sublist ''Cafe X'' text \<and> sublist ''12m'' text) \<and>
   visitPingTimer (step (JsonFulfilled 2 no_venue)
     (run (page_load Portal_js kiosk 9 portal_page) [Click, FetchFulfilled 1 http_ok])) \<noteq> None \<and>
   accept_status (step (JsonFulfilled 2 no_venue)
     (run (page_load Portal_js kiosk 9 portal_page) [Click, FetchFulfilled 1 http_ok])) =
     Some msg_accept_no_venue"
proof -
  let ?w = "run (page_load Portal_js kiosk 9 portal_page) [Click, FetchFulfilled 1 http_ok]"
  have p: "present ?w ''accept-status''"
    using wf_portal_page [of Portal_js kiosk 9] by (simp add: wf_page_def)
  have m: "microtasks ?w = []" by simp
  have c: "get_prop cafe_venue ''ok'' = Inr (Some (JBool True))"
    "get_prop cafe_venue ''venue'' =
       Inr (Some (JObj [(''name'', JStr ''Cafe X''), (''category'', JStr ''food''),
                        (''distance_m'', JNum 12)]))"
    "get_prop no_venue ''ok'' = Inr (Some (JBool True))"
    "get_prop no_venue ''venue'' = Inr (Some JNull)"
    by (simp_all add: cafe_venue_def no_venue_def get_prop_def)
  from acceptPortal_success [OF p m, of 2 http_ok 2 cafe_venue] c run_kiosk_accepting
  have 1: "visitPingTimer (step (JsonFulfilled 2 cafe_venue) ?w) \<noteq> None"
    "\<exists>text. accept_status (step (JsonFulfilled 2 cafe_venue) ?w) = Some text \<and>
       sublist ''Cafe X'' text \<and> sublist ''12m'' text"
    by blast+
  from acceptPortal_success [OF p m, of 2 http_ok 2 no_venue] c run_kiosk_accepting
  have 2: "visitPingTimer (step (JsonFulfilled 2 no_venue) ?w) \<noteq> None"
    "accept_status (step (JsonFulfilled 2 no_venue) ?w) = Some msg_accept_no_venue"
    by blast+
  show ?thesis
    using 1 2 p m c run_kiosk_accepting by simp
qed

subsection \<open>Where lastGeo is written\<close>

lemma settle_position_lastGeo:
  "lastGeo (settle_position i r w) =
     (case (map_of (pending w) i, r) of
        (Some (TryGetGeo_position k), Inl pos) \<Rightarrow>
           Some \<lparr>latitude = coords_latitude pos, longitude = coords_longitude pos,
                 accuracy_m = Math_round (coords_accuracy pos)\<rparr>
      | _ \<Rightarrow> lastGeo w)"
  by (simp add: settle_position_def take_pending_def tryGetGeo_success_def
      tryGetGeo_error_def Let_def split: option.splits cont.splits sum.splits prod.splits)

lemma handle_lastGeo:
  "lastGeo (handle ev w) =
     (case ev of
        GeoSuccess i pos \<Rightarrow> lastGeo (settle_position i (Inl pos) w)
      | _ \<Rightarrow> lastGeo w)"
  by (simp add: handle_def settle_position_lastGeo
      split: event.splits option.splits prod.splits callback.splits cont.splits)

subsection \<open>The suspended calls, function by function\<close>

lemma accept_cont_simps [simp]:
  "accept_cont (TryGetGeo_position k) = (k = AcceptPortal_await)"
  "accept_cont AcceptPortal_fetch" "accept_cont AcceptPortal_json"
  "accept_cont AcceptPortalAlt_fetch" "accept_cont AcceptPortalAlt_json"
  "\<not> accept_cont InitPortal_position" "\<not> accept_cont RequestAd_fetch"
  "\<not> accept_cont RequestAd_json" "\<not> accept_cont PostVisitPing_fetch"
  by (auto simp: accept_cont_def)

lemma pending_effects:
  "wf_page w \<Longrightarrow> pending (requestAd lat lon w) = pending w @ [(next_id w, RequestAd_fetch)]"
  "wf_page w \<Longrightarrow> requests (requestAd lat lon w) =
     requests w @ [Fetch (next_id w) ''/api/v1/ad-recommend/''
                     (AdApiPayload lat lon (userAgent (nav w)) (hours w)) False]"
  "present w ''status'' \<Longrightarrow>
   pending (requestAd_fetched s w) =
     pending w @ (case s of Fulfilled r \<Rightarrow>
                    if status r \<noteq> 204 \<and> ok r then [(next_id w, RequestAd_json)] else []
                  | Rejected e \<Rightarrow> [])"
  "pending (acceptPortal_fetched s' w) =
     pending w @ (case s' of Fulfilled r \<Rightarrow> if ok r then [(next_id w, AcceptPortal_json)] else []
                  | Rejected e \<Rightarrow> [])"
  "pending (acceptPortal_alt_fetched s' w) =
     pending w @ (case s' of Fulfilled r \<Rightarrow> if ok r then [(next_id w, AcceptPortalAlt_json)] else []
                  | Rejected e \<Rightarrow> [])"
  "wf_page w \<Longrightarrow>
   pending (initPortal_success pos w) = pending w @ [(next_id w, RequestAd_fetch)]"
  "wf_page w \<Longrightarrow>
   pending (initPortal_error code message w) = pending w @ [(next_id w, RequestAd_fetch)]"
  by (simp_all add: requestAd_wf requestAd_fetched_wf acceptPortal_fetched_def
      acceptPortal_alt_fetched_def initPortal_success_wf initPortal_error_wf Let_def wf_pageD
      split: settled.splits)

lemma acceptPortal_effects:
  assumes "present w ''accept-btn''" and "present w ''accept-status''"
  shows "pending (acceptPortal w) =
     pending w @ (case lastGeo w of
                    Some g \<Rightarrow> [(next_id w, AcceptPortal_fetch)]
                  | None \<Rightarrow> if geolocation (nav w)
                            then [(next_id w, TryGetGeo_position AcceptPortal_await)] else [])"
    "microtasks (acceptPortal w) =
     microtasks w @ (case lastGeo w of
                       Some g \<Rightarrow> []
                     | None \<Rightarrow> if geolocation (nav w) then []
                               else [(AcceptPortal_await, Fulfilled None)])"
    "btn_disabled (acceptPortal w) = Some True"
    "requests (acceptPortal w) =
     requests w @ (case lastGeo w of
                     Some g \<Rightarrow> [Fetch (next_id w) ''/api/v1/portal/accept/''
                                  (AcceptPayload (Some (latitude g)) (Some (longitude g))
                                     (Some (accuracy_m g))) False]
                   | None \<Rightarrow> [])"
    "pending (acceptPortal_alt w) = pending w @ [(next_id w, AcceptPortalAlt_fetch)]"
    "btn_disabled (acceptPortal_alt w) = Some True"
    "requests (acceptPortal_alt w) =
     requests w @ [Fetch (next_id w) ''/api/v1/portal/accept/'' EmptyObject False]"
  using assms
  by (simp_all add: acceptPortal_wf acceptPortal_alt_wf acceptPortal_submit_effects
      tryGetGeo_effects acceptPortal_submit_def split: option.splits)

lemma btn_enabled_after:
  assumes "present w ''accept-btn''" and "present w ''accept-status''"
  shows "btn_disabled (acceptPortal_catch e w) = Some False"
    "btn_disabled (acceptPortal_parsed s w) = Some False"
    "btn_disabled (acceptPortal_alt_catch e w) = Some False"
    "btn_disabled (acceptPortal_alt_parsed s w) = Some False"
    "btn_disabled (acceptPortal_fetched s' w) =
       (case s' of Fulfilled r \<Rightarrow> if ok r then btn_disabled w else Some False
        | Rejected e \<Rightarrow> Some False)"
    "btn_disabled (acceptPortal_alt_fetched s' w) =
       (case s' of Fulfilled r \<Rightarrow> if ok r then btn_disabled w else Some False
        | Rejected e \<Rightarrow> Some False)"
  using assms
  by (simp_all add: acceptPortal_catch_wf acceptPortal_parsed_wf acceptPortal_alt_catch_def
      acceptPortal_alt_parsed_def acceptPortal_alt_finally_def acceptPortal_fetched_def
      acceptPortal_alt_fetched_def Let_def
      split: settled.splits sum.splits prod.splits)

subsection \<open>The busy flag is an invariant of the page\<close>

lemma accept_measures [simp]:
  "accept_suspended (w\<lparr>microtasks := ms\<rparr>) = accept_suspended w"
  "accept_resuming (w\<lparr>microtasks := ms\<rparr>) = length (filter (\<lambda>(k, s). k = AcceptPortal_await) ms)"
  "accept_resuming (w\<lparr>pending := ps\<rparr>) = accept_resuming w"
  "accept_suspended (w\<lparr>pending := ps\<rparr>) = length (filter (\<lambda>(i, k). accept_cont k) ps)"
  "accept_suspended (w\<lparr>lastGeo := g\<rparr>) = accept_suspended w"
  "accept_resuming (w\<lparr>lastGeo := g\<rparr>) = accept_resuming w"
  "accept_suspended (w\<lparr>visibilityState := v\<rparr>) = accept_suspended w"
  "accept_resuming (w\<lparr>visibilityState := v\<rparr>) = accept_resuming w"
  by (simp_all add: accept_suspended_def accept_resuming_def)

lemma accept_measures_frame:
  "pending w' = pending w \<Longrightarrow> accept_suspended w' = accept_suspended w"
  "microtasks w' = microtasks w \<Longrightarrow> accept_resuming w' = accept_resuming w"
  by (simp_all add: accept_suspended_def accept_resuming_def)

lemma accept_guarded_cong:
  "pending w' = pending w \<Longrightarrow> microtasks w' = microtasks w \<Longrightarrow>
   btn_disabled w' = btn_disabled w \<Longrightarrow> accept_guarded w' = accept_guarded w"
  by (simp add: accept_guarded_def accept_in_flight_def accept_suspended_def accept_resuming_def)

lemma resume_guarded:
  assumes "present w ''accept-btn''" and "present w ''accept-status''"
    and "accept_guarded (w\<lparr>microtasks := (k, s) # ms\<rparr>)"
  shows "accept_guarded ((resume_geo_waiter k s w)\<lparr>microtasks := ms\<rparr>)"
proof (cases k)
  case (PostVisitPing_await ev)
  then show ?thesis
    using assms
    by (cases s)
      (auto simp: accept_guarded_def accept_in_flight_def resume_geo_waiter_def btn_disabled_def
        accept_suspended_def postVisitPing_send_effects)
next
  case AcceptPortal_await
  then show ?thesis
    using assms
    by (cases s)
      (auto simp: accept_guarded_def accept_in_flight_def resume_geo_waiter_def
        accept_suspended_def acceptPortal_submit_effects btn_enabled_after)
qed

lemma foldl_guarded:
  "present w ''accept-btn'' \<Longrightarrow> present w ''accept-status'' \<Longrightarrow>
   accept_guarded (w\<lparr>microtasks := ms\<rparr>) \<Longrightarrow>
   accept_guarded ((foldl (\<lambda>w' (k, s). resume_geo_waiter k s w') w ms)\<lparr>microtasks := []\<rparr>)"
proof (induction ms arbitrary: w)
  case Nil
  then show ?case by simp
next
  case (Cons m ms)
  obtain k s where m: "m = (k, s)" by (cases m)
  have "accept_guarded ((resume_geo_waiter k s w)\<lparr>microtasks := ms\<rparr>)"
    using Cons.prems by (simp add: m resume_guarded)
  then have "accept_guarded
     ((foldl (\<lambda>w' (k, s). resume_geo_waiter k s w') (resume_geo_waiter k s w) ms)\<lparr>microtasks := []\<rparr>)"
    using Cons.prems by (intro Cons.IH) simp_all
  then show ?case by (simp add: m)
qed

lemma drain_guarded:
  assumes "present w ''accept-btn''" and "present w ''accept-status''" and "accept_guarded w"
  shows "accept_guarded (drain w)"
proof -
  let ?f = "foldl (\<lambda>w' (k, s). resume_geo_waiter k s w') (w\<lparr>microtasks := []\<rparr>) (microtasks w)"
  have "accept_guarded ((w\<lparr>microtasks := []\<rparr>)\<lparr>microtasks := microtasks w\<rparr>)"
    using assms(3) by simp
  then have "accept_guarded (?f\<lparr>microtasks := []\<rparr>)"
    using assms(1,2) by (intro foldl_guarded) simp_all
  moreover have "accept_guarded (?f\<lparr>microtasks := []\<rparr>) = accept_guarded ?f"
    by (rule accept_guarded_cong) simp_all
  ultimately show ?thesis by (simp add: drain_def)
qed

lemma guarded_quiet:
  "btn_disabled w' = btn_disabled w \<Longrightarrow> accept_suspended w' = accept_suspended w \<Longrightarrow>
   accept_resuming w' = accept_resuming w \<Longrightarrow> accept_guarded w' = accept_guarded w"
  by (simp add: accept_guarded_def accept_in_flight_def)

lemma Suc_length_filter_remove1:
  "x \<in> set xs \<Longrightarrow> P x \<Longrightarrow> Suc (length (filter P (remove1 x xs))) = length (filter P xs)"
  by (induction xs) auto

lemma postVisitPing_guarded [simp]: "accept_guarded (postVisitPing ev w) = accept_guarded w"
  by (rule guarded_quiet)
    (simp_all add: accept_suspended_def accept_resuming_def postVisitPing_effects
      postVisitPing_send_effects tryGetGeo_effects split: option.splits)

lemma startVisitPingLoop_guarded [simp]:
  "accept_guarded (startVisitPingLoop w) = accept_guarded w"
proof (cases "visitPingTimer w")
  case None
  have "accept_guarded (startVisitPingLoop w) = accept_guarded (postVisitPing Ping w)"
    by (rule accept_guarded_cong)
      (simp_all add: startVisitPingLoop_started None postVisitPing_effects)
  then show ?thesis by simp
next
  case (Some h)
  then show ?thesis by (simp add: startVisitPingLoop_running)
qed

lemma acceptPortal_guarded:
  assumes "present w ''accept-btn''" and "present w ''accept-status''"
    and "accept_guarded w" and "btn_disabled w = Some False"
  shows "accept_guarded (acceptPortal w)" "accept_guarded (acceptPortal_alt w)"
proof -
  have z: "accept_suspended w = 0" "accept_resuming w = 0"
    using assms(3,4) by (auto simp: accept_guarded_def accept_in_flight_def)
  have "accept_suspended (acceptPortal w) + accept_resuming (acceptPortal w) = 1"
    using z assms(1,2)
    by (auto simp: accept_suspended_def accept_resuming_def acceptPortal_effects
        split: option.splits)
  then show "accept_guarded (acceptPortal w)"
    using assms(1,2) by (simp add: accept_guarded_def accept_in_flight_def acceptPortal_effects)
  have "accept_suspended (acceptPortal_alt w) + accept_resuming (acceptPortal_alt w) = 1"
    using z assms(1,2)
    by (auto simp: accept_suspended_def accept_resuming_def acceptPortal_effects)
  then show "accept_guarded (acceptPortal_alt w)"
    using assms(1,2) by (simp add: accept_guarded_def accept_in_flight_def acceptPortal_effects)
qed

lemma accept_finished:
  assumes "accept_guarded w" and "map_of (pending w) i = Some k" and "accept_cont k"
    and "btn_disabled w' = Some False"
    and "pending w' = remove1 (i, k) (pending w) @ ps" and "microtasks w' = microtasks w @ ms"
    and "\<forall>(j, k') \<in> set ps. \<not> accept_cont k'" and "\<forall>(k', s) \<in> set ms. k' \<noteq> AcceptPortal_await"
  shows "accept_guarded w'"
proof -
  have mem: "(i, k) \<in> set (pending w)"
    using assms(2) by (rule map_of_SomeD)
  have 1: "Suc (length (filter (\<lambda>(i, k). accept_cont k) (remove1 (i, k) (pending w)))) =
        accept_suspended w"
    unfolding accept_suspended_def
    by (rule Suc_length_filter_remove1 [OF mem]) (simp add: assms(3))
  have 2: "filter (\<lambda>(i, k). accept_cont k) ps = []" "filter (\<lambda>(k, s). k = AcceptPortal_await) ms = []"
    using assms(7,8) by (auto simp: filter_empty_conv)
  show ?thesis
    using assms(1,4) 1 2
    by (auto simp: accept_guarded_def accept_in_flight_def accept_suspended_def
        accept_resuming_def assms(5,6))
qed

lemma accept_continued:
  assumes "accept_guarded w" and "map_of (pending w) i = Some k" and "accept_cont k"
    and "btn_disabled w' = btn_disabled w"
    and "pending w' = remove1 (i, k) (pending w) @ [(j, k')]" and "accept_cont k'"
    and "microtasks w' = microtasks w"
  shows "accept_guarded w'"
proof -
  have mem: "(i, k) \<in> set (pending w)"
    using assms(2) by (rule map_of_SomeD)
  have 1: "Suc (length (filter (\<lambda>(i, k). accept_cont k) (remove1 (i, k) (pending w)))) =
        accept_suspended w"
    unfolding accept_suspended_def
    by (rule Suc_length_filter_remove1 [OF mem]) (simp add: assms(3))
  show ?thesis
    using assms(1,4,6) 1
    by (auto simp: accept_guarded_def accept_in_flight_def accept_suspended_def
        accept_resuming_def assms(5,7))
qed

lemma other_settled:
  assumes "accept_guarded w" and "map_of (pending w) i = Some k" and "\<not> accept_cont k"
    and "btn_disabled w' = btn_disabled w"
    and "pending w' = remove1 (i, k) (pending w) @ ps" and "microtasks w' = microtasks w @ ms"
    and "\<forall>(j, k') \<in> set ps. \<not> accept_cont k'" and "\<forall>(k', s) \<in> set ms. k' \<noteq> AcceptPortal_await"
  shows "accept_guarded w'"
proof -
  have 1: "filter (\<lambda>(i, k). accept_cont k) (remove1 (i, k) (pending w)) =
           filter (\<lambda>(i, k). accept_cont k) (pending w)"
    by (rule filter_remove1_other) (simp add: assms(3))
  have 2: "filter (\<lambda>(i, k). accept_cont k) ps = []" "filter (\<lambda>(k, s). k = AcceptPortal_await) ms = []"
    using assms(7,8) by (auto simp: filter_empty_conv)
  show ?thesis
    using assms(1,4) 1 2
    by (auto simp: accept_guarded_def accept_in_flight_def accept_suspended_def
        accept_resuming_def assms(5,6))
qed

lemma settle_fetch_guarded:
  assumes wf: "wf_page w" and g: "accept_guarded w"
  shows "accept_guarded (settle_fetch i s w)"
proof (cases "map_of (pending w) i")
  case None
  then show ?thesis using g by (simp add: settle_fetch_def take_pending_def)
next
  case (Some k)
  let ?w = "w\<lparr>pending := remove1 (i, k) (pending w)\<rparr>"
  note p = wf_pageD [OF wf]
  show ?thesis
  proof (cases k)
    case RequestAd_fetch
    have "accept_guarded (requestAd_fetched s ?w)"
      by (rule other_settled [OF g Some, where ms = "[]"])
        (use RequestAd_fetch p in \<open>auto simp: pending_effects split: settled.splits\<close>)
    then show ?thesis
      using Some RequestAd_fetch by (simp add: settle_fetch_def take_pending_Some)
  next
    case PostVisitPing_fetch
    have "accept_guarded (postVisitPing_fetched s ?w)"
      by (rule other_settled [OF g Some, where ms = "[]" and ps = "[]"])
        (use PostVisitPing_fetch in simp_all)
    then show ?thesis
      using Some PostVisitPing_fetch by (simp add: settle_fetch_def take_pending_Some)
  next
    case AcceptPortal_fetch
    have "accept_guarded (acceptPortal_fetched s ?w)"
    proof (cases "\<exists>r. s = Fulfilled r \<and> ok r")
      case True
      then show ?thesis
        by (intro accept_continued [OF g Some, where k' = AcceptPortal_json and j = "next_id w"])
          (use AcceptPortal_fetch p in \<open>auto simp: pending_effects btn_enabled_after\<close>)
    next
      case False
      then show ?thesis
        by (intro accept_finished [OF g Some, where ms = "[]" and ps = "[]"])
          (use AcceptPortal_fetch p in
            \<open>auto simp: pending_effects btn_enabled_after split: settled.splits\<close>)
    qed
    then show ?thesis
      using Some AcceptPortal_fetch by (simp add: settle_fetch_def take_pending_Some)
  next
    case AcceptPortalAlt_fetch
    have "accept_guarded (acceptPortal_alt_fetched s ?w)"
    proof (cases "\<exists>r. s = Fulfilled r \<and> ok r")
      case True
      then show ?thesis
        by (intro accept_continued [OF g Some, where k' = AcceptPortalAlt_json and j = "next_id w"])
          (use AcceptPortalAlt_fetch p in \<open>auto simp: pending_effects btn_enabled_after\<close>)
    next
      case False
      then show ?thesis
        by (intro accept_finished [OF g Some, where ms = "[]" and ps = "[]"])
          (use AcceptPortalAlt_fetch p in
            \<open>auto simp: pending_effects btn_enabled_after split: settled.splits\<close>)
    qed
    then show ?thesis
      using Some AcceptPortalAlt_fetch by (simp add: settle_fetch_def take_pending_Some)
  qed (use Some g in \<open>simp_all add: settle_fetch_def take_pending_Some\<close>)
qed

lemma acceptPortal_parsed_pending:
  "pending (acceptPortal_parsed s w) = pending w \<or>
   pending (acceptPortal_parsed s w) = pending (startVisitPingLoop w)"
  by (simp add: acceptPortal_parsed_def Let_def status_eqs split: settled.splits sum.splits)

lemma startVisitPingLoop_measures:
  "accept_suspended (startVisitPingLoop w) = accept_suspended w"
  "accept_resuming (startVisitPingLoop w) = accept_resuming w"
proof -
  have "accept_suspended (postVisitPing Ping w) = accept_suspended w"
    "accept_resuming (postVisitPing Ping w) = accept_resuming w"
    by (simp_all add: accept_suspended_def accept_resuming_def postVisitPing_effects
        postVisitPing_send_effects tryGetGeo_effects split: option.splits)
  then show "accept_suspended (startVisitPingLoop w) = accept_suspended w"
    "accept_resuming (startVisitPingLoop w) = accept_resuming w"
    by (cases "visitPingTimer w";
        simp add: accept_suspended_def accept_resuming_def startVisitPingLoop_started
          startVisitPingLoop_running)+
qed

lemma acceptPortal_parsed_measures:
  "accept_suspended (acceptPortal_parsed s w) = accept_suspended w"
  "accept_resuming (acceptPortal_parsed s w) = accept_resuming w"
  using acceptPortal_parsed_pending [of s w] acceptPortal_parsed_microtasks [of s w]
    startVisitPingLoop_measures [of w]
  by (auto simp: accept_suspended_def accept_resuming_def)

lemma accept_removed:
  assumes "accept_guarded w" and "map_of (pending w) i = Some k" and "accept_cont k"
  shows "accept_suspended (w\<lparr>pending := remove1 (i, k) (pending w)\<rparr>) = 0"
    "accept_resuming w = 0"
proof -
  define n where "n = length (filter (\<lambda>(i, k). accept_cont k) (remove1 (i, k) (pending w)))"
  have mem: "(i, k) \<in> set (pending w)"
    using assms(2) by (rule map_of_SomeD)
  have "Suc n = accept_suspended w"
    unfolding accept_suspended_def n_def
    by (rule Suc_length_filter_remove1 [OF mem]) (simp add: assms(3))
  then have "n = 0 \<and> accept_resuming w = 0"
    using assms(1) by (simp add: accept_guarded_def accept_in_flight_def)
  then show "accept_suspended (w\<lparr>pending := remove1 (i, k) (pending w)\<rparr>) = 0"
    "accept_resuming w = 0"
    by (simp_all add: accept_suspended_def n_def)
qed

lemma settle_json_guarded:
  assumes wf: "wf_page w" and g: "accept_guarded w"
  shows "accept_guarded (settle_json i s w)"
proof (cases "map_of (pending w) i")
  case None
  then show ?thesis using g by (simp add: settle_json_def take_pending_def)
next
  case (Some k)
  let ?w = "w\<lparr>pending := remove1 (i, k) (pending w)\<rparr>"
  note p = wf_pageD [OF wf]
  show ?thesis
  proof (cases k)
    case RequestAd_json
    have "accept_guarded (requestAd_parsed s ?w)"
      by (rule other_settled [OF g Some, where ms = "[]" and ps = "[]"])
        (use RequestAd_json in simp_all)
    then show ?thesis
      using Some RequestAd_json by (simp add: settle_json_def take_pending_Some)
  next
    case AcceptPortal_json
    have "accept_suspended ?w = 0" "accept_resuming ?w = 0"
      using accept_removed [OF g Some] AcceptPortal_json by simp_all
    then have "accept_guarded (acceptPortal_parsed s ?w)"
      using p by (simp add: accept_guarded_def accept_in_flight_def acceptPortal_parsed_measures
          btn_enabled_after)
    then show ?thesis
      using Some AcceptPortal_json by (simp add: settle_json_def take_pending_Some)
  next
    case AcceptPortalAlt_json
    have "accept_guarded (acceptPortal_alt_parsed s ?w)"
      by (rule accept_finished [OF g Some, where ms = "[]" and ps = "[]"])
        (use AcceptPortalAlt_json p in \<open>simp_all add: btn_enabled_after\<close>)
    then show ?thesis
      using Some AcceptPortalAlt_json by (simp add: settle_json_def take_pending_Some)
  qed (use Some g in \<open>simp_all add: settle_json_def take_pending_Some\<close>)
qed

lemma settle_position_guarded:
  assumes wf: "wf_page w" and g: "accept_guarded w"
  shows "accept_guarded (settle_position i r w)"
proof (cases "map_of (pending w) i")
  case None
  then show ?thesis using g by (simp add: settle_position_def take_pending_def)
next
  case (Some k)
  let ?w = "w\<lparr>pending := remove1 (i, k) (pending w)\<rparr>"
  note p = wf_pageD [OF wf]
  show ?thesis
  proof (cases k)
    case InitPortal_position
    have "accept_guarded (case r of Inl pos \<Rightarrow> initPortal_success pos ?w
                          | Inr (code, message) \<Rightarrow> initPortal_error code message ?w)"
      by (rule other_settled [OF g Some, where ms = "[]" and ps = "[(next_id w, RequestAd_fetch)]"])
        (use InitPortal_position wf in \<open>auto simp: pending_effects split: sum.splits\<close>)
    then show ?thesis
      using Some InitPortal_position
      by (auto simp: settle_position_def take_pending_Some split: sum.splits)
  next
    case (TryGetGeo_position k')
    let ?v = "w\<lparr>pending := remove1 (i, TryGetGeo_position k') (pending w)\<rparr>"
    have Some': "map_of (pending w) i = Some (TryGetGeo_position k')"
      using Some TryGetGeo_position by simp
    obtain geo w2 where r: "(case r of Inl pos \<Rightarrow> tryGetGeo_success pos ?v
                                  | Inr err \<Rightarrow> tryGetGeo_error ?v) = (Fulfilled geo, w2)"
      and w2: "pending w2 = pending ?v" "microtasks w2 = microtasks w"
        "btn_disabled w2 = btn_disabled w" "next_id w2 = next_id w" "nav w2 = nav w"
      by (cases r) (auto simp: tryGetGeo_success_def tryGetGeo_error_def Let_def)
    have "accept_guarded (resume_geo_waiter k' (Fulfilled geo) w2)"
    proof (cases k')
      case (PostVisitPing_await ev)
      show ?thesis
        by (rule other_settled [OF g Some', where ms = "[]" and
              ps = "if ev = Leave \<and> sendBeacon (nav w) then [] else [(next_id w, PostVisitPing_fetch)]"])
          (use PostVisitPing_await w2 in
            \<open>auto simp: resume_geo_waiter_def postVisitPing_send_effects\<close>)
    next
      case AcceptPortal_await
      show ?thesis
        by (rule accept_continued [OF g Some', where k' = AcceptPortal_fetch and j = "next_id w"])
          (use AcceptPortal_await w2 in
            \<open>auto simp: resume_geo_waiter_def acceptPortal_submit_effects\<close>)
    qed
    then show ?thesis
      using Some' r
      by (simp add: settle_position_def take_pending_Some)
  qed (use Some g in \<open>simp_all add: settle_position_def take_pending_Some\<close>)
qed

lemma accept_guarded_visibility [simp]:
  "accept_guarded (w\<lparr>visibilityState := v\<rparr>) = accept_guarded w"
  by (rule accept_guarded_cong) simp_all

lemma run_listener_click_guarded:
  assumes "wf_page w" and "accept_guarded w" and "btn_disabled w = Some False"
  shows "accept_guarded (run_listener OnAcceptClick w)"
  using assms acceptPortal_guarded [of w]
  by (simp add: run_listener_def wf_pageD split: source_file.splits)

lemma handle_guarded:
  assumes wf: "wf_page w" and hw: "heartbeat_wired w" and g: "accept_guarded w"
  shows "accept_guarded (handle ev w)"
proof (cases ev)
  case Click
  note p = wf_pageD [OF wf]
  show ?thesis
  proof (cases "btn_disabled w = Some False")
    case True
    have "accept_guarded (drain (run_listener OnAcceptClick w))"
      by (rule drain_guarded) (simp_all add: p run_listener_click_guarded [OF wf g True])
    then show ?thesis
      using Click hw True
      by (auto simp: handle_def dispatch_click btn_disabled_def split: option.splits)
  next
    case False
    then show ?thesis
      using Click g by (auto simp: handle_def btn_disabled_def split: option.splits)
  qed
next
  case (IntervalFired t)
  then show ?thesis
    using g by (simp add: handle_def split: option.splits prod.splits callback.splits)
next
  case BeforeUnload
  have "accept_guarded (drain (postVisitPing Leave w))"
    by (rule drain_guarded) (simp_all add: wf_pageD [OF wf] g)
  then show ?thesis
    using BeforeUnload hw g by (simp add: handle_def dispatch_beforeunload)
next
  case (VisibilityChange v)
  have "accept_guarded (drain (postVisitPing Leave (w\<lparr>visibilityState := v\<rparr>)))"
    "accept_guarded (drain (w\<lparr>visibilityState := v\<rparr>))"
    by (rule drain_guarded; simp add: wf_pageD [OF wf] g)+
  then show ?thesis
    using VisibilityChange hw g by (auto simp: handle_def dispatch_visibilitychange)
qed (use wf g in \<open>simp_all add: handle_def settle_position_guarded settle_fetch_guarded
      settle_json_guarded\<close>)

lemma step_guarded:
  assumes "wf_page w" and "heartbeat_wired w" and "accept_guarded w"
  shows "accept_guarded (step ev w)"
  unfolding step_def
  by (rule drain_guarded) (simp_all add: wf_pageD [OF assms(1)] handle_guarded [OF assms])

lemma run_guarded:
  "wf_page w \<Longrightarrow> heartbeat_wired w \<Longrightarrow> accept_guarded w \<Longrightarrow> accept_guarded (run w evs)"
proof (induction evs arbitrary: w)
  case Nil
  then show ?case by (simp add: run_def)
next
  case (Cons ev evs)
  have "accept_guarded (run (step ev w) evs)"
    using Cons.prems by (intro Cons.IH) (simp_all add: step_wired step_guarded)
  then show ?case by (simp add: run_def)
qed

lemma run_listener_init_wf:
  "wf_page w \<Longrightarrow>
   run_listener OnDOMContentLoaded w =
     (if \<not> geolocation_in_navigator (nav w) then
        requestAd None None
          (set_textContent ''status'' msg_no_geolocation
            (set_textContent ''status'' msg_init
              (addEventListener (Element ''accept-btn'') ''click'' OnAcceptClick w)))
      else if \<not> geolocation (nav w) then
        set_textContent ''status'' msg_init_failed
          (emit (Console ''error'' ''Init portal error:''
                   [ArgError (TypeError ''Cannot read properties of undefined (reading getCurrentPosition)'')])
            (set_textContent ''status'' msg_locating
              (set_textContent ''status'' msg_init
                (addEventListener (Element ''accept-btn'') ''click'' OnAcceptClick w))))
      else
        getCurrentPosition InitPortal_position
          \<lparr>enableHighAccuracy = False, timeout = 5000, maximumAge = 0\<rparr>
          (set_textContent ''status'' msg_locating
            (set_textContent ''status'' msg_init
              (addEventListener (Element ''accept-btn'') ''click'' OnAcceptClick w))))"
  by (simp add: run_listener_def initPortal_wf Let_def wf_pageD)

lemma page_load_wf:
  assumes "wf_page (script_loaded f n h els)"
  shows "page_load f n h els = run_listener OnDOMContentLoaded (script_loaded f n h els)"
proof -
  have "microtasks (run_listener OnDOMContentLoaded (script_loaded f n h els)) = []"
    using assms by (simp add: run_listener_init_wf)
  then show ?thesis
    by (simp add: page_load_eq drain_idle)
qed

lemma script_loaded_requests [simp]:
  "requests (script_loaded f n h els) = []"
  by (simp add: requests_def is_request_def)

lemma page_load_effects:
  assumes "wf_page (script_loaded f n h els)"
  shows "pending (page_load f n h els) =
           (if \<not> geolocation_in_navigator n then [(0, RequestAd_fetch)]
            else if \<not> geolocation n then [] else [(0, InitPortal_position)])"
    "requests (page_load f n h els) =
           (if \<not> geolocation_in_navigator n
            then [Fetch 0 ''/api/v1/ad-recommend/'' (AdApiPayload None None (userAgent n) h) False]
            else [])"
    "btn_disabled (page_load f n h els) = btn_disabled (script_loaded f n h els)"
    "microtasks (page_load f n h els) = []"
  using assms
  by (simp_all add: page_load_wf run_listener_init_wf pending_effects requestAd_wf)

lemma page_load_position_request:
  assumes "wf_page (script_loaded f n h els)"
  shows "GetCurrentPosition j opts \<in> set (trace (page_load f n h els)) \<longleftrightarrow>
       geolocation_in_navigator n \<and> geolocation n \<and> j = 0 \<and>
       opts = \<lparr>enableHighAccuracy = False, timeout = 5000, maximumAge = 0\<rparr>"
  using assms
  by (auto simp: page_load_wf run_listener_init_wf requestAd_wf)

lemma page_load_guarded:
  assumes "wf_page (script_loaded f n h els)"
    and "btn_disabled (script_loaded f n h els) = Some False"
  shows "accept_guarded (page_load f n h els)"
  using assms
  by (simp add: accept_guarded_def accept_in_flight_def accept_suspended_def accept_resuming_def
      page_load_effects)

lemma btn_disabled_elems: "elems w' = elems w \<Longrightarrow> btn_disabled w' = btn_disabled w"
  by (simp add: btn_disabled_def)

lemma trace_resume_prefix: "prefix (trace w) (trace (resume_geo_waiter k s w))"
  by (auto simp: resume_geo_waiter_def postVisitPing_send_def acceptPortal_submit_def
      acceptPortal_catch_def acceptPortal_finally_def status_eqs Let_def
      split: geo_waiter.splits settled.splits option.splits)

lemma trace_foldl_resume_prefix:
  "prefix (trace w) (trace (foldl (\<lambda>w' (k, s). resume_geo_waiter k s w') w ms))"
proof (induction ms arbitrary: w)
  case Nil
  show ?case by simp
next
  case (Cons m ms)
  obtain k s where m: "m = (k, s)" by (cases m)
  have "prefix (trace w) (trace (resume_geo_waiter k s w))"
    by (rule trace_resume_prefix)
  also have "prefix \<dots> (trace (foldl (\<lambda>w' (k, s). resume_geo_waiter k s w')
                                (resume_geo_waiter k s w) ms))"
    by (rule Cons.IH)
  finally show ?case by (simp add: m)
qed

lemma trace_drain_prefix: "prefix (trace w) (trace (drain w))"
  using trace_foldl_resume_prefix [of "w\<lparr>microtasks := []\<rparr>" "microtasks w"]
  by (simp add: drain_def)

lemma step_click_disabled:
  "btn_disabled w = Some True \<Longrightarrow> microtasks w = [] \<Longrightarrow> step Click w = w"
  by (auto simp: step_def handle_def btn_disabled_def drain_idle split: option.splits)

lemma step_click_enabled:
  assumes wf: "wf_page w" and hw: "heartbeat_wired w" and "btn_disabled w = Some False"
    and m: "microtasks w = []"
  shows "prefix (trace w @ [SetDisabled ''accept-btn'' True]) (trace (step Click w))"
    "btn_disabled (step Click w) = Some True"
proof -
  note p = wf_pageD [OF wf]
  let ?a = "run_listener OnAcceptClick w"
  have step: "step Click w = drain ?a"
    using assms(3) hw
    by (auto simp: step_def handle_def btn_disabled_def dispatch_click drain_idle)
  have "prefix (trace w @ [SetDisabled ''accept-btn'' True]) (trace ?a)"
    using p
    by (auto simp: run_listener_def acceptPortal_wf acceptPortal_alt_wf acceptPortal_submit_def
        tryGetGeo_def tryGetGeo_unavailable_def Let_def
        split: source_file.splits option.splits)
  also have "prefix \<dots> (trace (drain ?a))"
    by (rule trace_drain_prefix)
  finally show "prefix (trace w @ [SetDisabled ''accept-btn'' True]) (trace (step Click w))"
    by (simp add: step)
  have "list_all (\<lambda>(k, s). is_fulfilled s) (microtasks ?a)"
    using p m
    by (auto simp: run_listener_def acceptPortal_effects acceptPortal_alt_wf is_fulfilled_def
        split: source_file.splits option.splits)
  then have "elems (drain ?a) = elems ?a"
    by (rule drain_elems)
  then have "btn_disabled (drain ?a) = btn_disabled ?a"
    by (rule btn_disabled_elems)
  also have "\<dots> = Some True"
    using p by (simp add: run_listener_def acceptPortal_effects split: source_file.splits)
  finally show "btn_disabled (step Click w) = Some True"
    by (simp add: step)
qed

lemma accept_outcome_enabled:
  assumes wf: "wf_page w" and m: "microtasks w = []" and k: "map_of (pending w) i = Some k"
  shows "k = AcceptPortal_json \<or> k = AcceptPortalAlt_json \<Longrightarrow>
           btn_disabled (step (JsonFulfilled i data) w) = Some False \<and>
           btn_disabled (step (JsonRejected i e) w) = Some False"
    "k = AcceptPortal_fetch \<or> k = AcceptPortalAlt_fetch \<Longrightarrow>
           btn_disabled (step (FetchRejected i e) w) = Some False \<and>
           (\<not> ok res \<longrightarrow> btn_disabled (step (FetchFulfilled i res) w) = Some False)"
proof -
  note p = wf_pageD [OF wf]
  let ?w = "w\<lparr>pending := remove1 (i, k) (pending w)\<rparr>"
  have q: "present ?w ''accept-btn''" "present ?w ''accept-status''"
    using p by simp_all
  have parsed: "btn_disabled (drain (acceptPortal_parsed s ?w)) = Some False" for s
  proof -
    have "list_all (\<lambda>(k, s). is_fulfilled s) (microtasks (acceptPortal_parsed s ?w))"
      by (rule acceptPortal_parsed_fulfilled) (simp add: m)
    then have "elems (drain (acceptPortal_parsed s ?w)) = elems (acceptPortal_parsed s ?w)"
      by (rule drain_elems)
    then show ?thesis
      using btn_enabled_after(2) [OF q] by (simp add: btn_disabled_def)
  qed
  show "btn_disabled (step (JsonFulfilled i data) w) = Some False \<and>
        btn_disabled (step (JsonRejected i e) w) = Some False"
    if "k = AcceptPortal_json \<or> k = AcceptPortalAlt_json"
    using that k parsed btn_enabled_after(4) [OF q] m
    by (auto simp: step_def handle_def settle_json_def take_pending_Some drain_idle)
  show "btn_disabled (step (FetchRejected i e) w) = Some False \<and>
        (\<not> ok res \<longrightarrow> btn_disabled (step (FetchFulfilled i res) w) = Some False)"
    if "k = AcceptPortal_fetch \<or> k = AcceptPortalAlt_fetch"
    using that k btn_enabled_after(5,6) [OF q] m
    by (auto simp: step_def handle_def settle_fetch_def take_pending_Some drain_idle)
qed

section \<open>acceptPortal: the busy flag\<close>

lemma run_kiosk_clicked:
  "accept_in_flight (page_load Portal_js kiosk 9 portal_page) = 0"
  "map_of (pending (run (page_load Portal_js kiosk 9 portal_page) [Click])) 1 =
     Some AcceptPortal_fetch"
  "accept_in_flight (run (page_load Portal_js kiosk 9 portal_page) [Click]) = 1"
  "btn_disabled (script_loaded Portal_js kiosk 9 portal_page) = Some False"
  by code_simp+

text \<open>
  Claim C8. Take a page that has its elements and whose accept button is enabled when the
  script is loaded, and any sequence of events after the load (clicks, settled positions,
  answered or failed requests, parsed or unparseable bodies, timer ticks, page hides). In
  the state \<open>w\<close> reached, at most one call of \<open>acceptPortal\<close> is unfinished, and the
  button is disabled exactly when there is one. While the button is disabled a click changes
  nothing: no listener runs and no request is added. When no call is unfinished, the first
  thing a click does is to disable the button; everything else the call does, its request
  included, comes later in the trace, and the call is then the unfinished one. Every way a
  call ends enables the button again: a parsed body (with \<open>ok\<close> true, false or missing), a
  body that does not parse, a request that fails, and an answer whose status is not
  in 200..299.
\<close>

theorem acceptPortal_busy_flag:
  assumes "wf_page (script_loaded f nv h els)"
    and "btn_disabled (script_loaded f nv h els) = Some False"
    and "w = run (page_load f nv h els) evs"
  shows "accept_in_flight w \<le> 1 \<and>
    btn_disabled w = Some (accept_in_flight w = 1) \<and>
    (accept_in_flight w = 1 \<longrightarrow> step Click w = w) \<and>
    (accept_in_flight w = 0 \<longrightarrow>
       prefix (trace w @ [SetDisabled ''accept-btn'' True]) (trace (step Click w)) \<and>
       btn_disabled (step Click w) = Some True \<and> accept_in_flight (step Click w) = 1) \<and>
    (map_of (pending w) i = Some k \<and> (k = AcceptPortal_json \<or> k = AcceptPortalAlt_json) \<longrightarrow>
       btn_disabled (step (JsonFulfilled i data) w) = Some False \<and>
       btn_disabled (step (JsonRejected i e) w) = Some False) \<and>
    (map_of (pending w) i = Some k \<and> (k = AcceptPortal_fetch \<or> k = AcceptPortalAlt_fetch) \<longrightarrow>
       btn_disabled (step (FetchRejected i e) w) = Some False \<and>
       (\<not> ok res \<longrightarrow> btn_disabled (step (FetchFulfilled i res) w) = Some False))"
proof -
  have wf: "wf_page w"
    using assms(1,3) by simp
  have hw: "heartbeat_wired w"
    using assms(1,3) by (simp add: run_wired page_load_wired)
  have g: "accept_guarded w"
    unfolding assms(3) using assms(1,2)
    by (intro run_guarded page_load_wired page_load_guarded) simp_all
  have m: "microtasks w = []"
    by (simp add: assms(3))
  have a: "accept_in_flight w \<le> 1" and b: "btn_disabled w = Some (accept_in_flight w = 1)"
    using g by (simp_all add: accept_guarded_def)
  have c: "step Click w = w" if "accept_in_flight w = 1"
    using that b m by (simp add: step_click_disabled)
  have d: "prefix (trace w @ [SetDisabled ''accept-btn'' True]) (trace (step Click w)) \<and>
       btn_disabled (step Click w) = Some True \<and> accept_in_flight (step Click w) = 1"
    if "accept_in_flight w = 0"
  proof -
    have enabled: "btn_disabled w = Some False"
      using that b by simp
    have "accept_guarded (step Click w)"
      by (rule step_guarded [OF wf hw g])
    then have "btn_disabled (step Click w) = Some (accept_in_flight (step Click w) = 1)"
      by (simp add: accept_guarded_def)
    then show ?thesis
      using step_click_enabled [OF wf hw enabled m] by simp
  qed
  show ?thesis
    using a b c d accept_outcome_enabled [OF wf m] by blast
qed

theorem acceptPortal_busy_flag_witness:
  "wf_page (script_loaded Portal_js kiosk 9 portal_page) \<and>
   btn_disabled (script_loaded Portal_js kiosk 9 portal_page) = Some False \<and>
   accept_in_flight (page_load Portal_js kiosk 9 portal_page) = 0 \<and>
   btn_disabled (step Click (page_load Portal_js kiosk 9 portal_page)) = Some True \<and>
   accept_in_flight (run (page_load Portal_js kiosk 9 portal_page) [Click]) = 1 \<and>
   step Click (run (page_load Portal_js kiosk 9 portal_page) [Click]) =
     run (page_load Portal_js kiosk 9 portal_page) [Click] \<and>
   map_of (pending (run (page_load Portal_js kiosk 9 portal_page) [Click])) 1 =
     Some AcceptPortal_fetch \<and>
   btn_disabled (step (FetchRejected 1 (TypeError ''Failed to fetch''))
                   (run (page_load Portal_js kiosk 9 portal_page) [Click])) = Some False \<and>
   map_of (pending (run (page_load Portal_js kiosk 9 portal_page)
                      [Click, FetchFulfilled 1 http_ok])) 2 = Some AcceptPortal_json \<and>
   btn_disabled (step (JsonFulfilled 2 cafe_venue)
                   (run (page_load Portal_js kiosk 9 portal_page)
                      [Click, FetchFulfilled 1 http_ok])) = Some False"
proof -
  note start = wf_portal_page [of Portal_js kiosk 9] run_kiosk_clicked(4)
  have "run (page_load Portal_js kiosk 9 portal_page) [] = page_load Portal_js kiosk 9 portal_page"
    by (simp add: run_def)
  from acceptPortal_busy_flag [OF start this [symmetric]]
  have 1: "btn_disabled (step Click (page_load Portal_js kiosk 9 portal_page)) = Some True"
    using run_kiosk_clicked(1) by blast
  from acceptPortal_busy_flag [OF start refl, of "[Click]" 1 AcceptPortal_fetch]
  have 2: "step Click (run (page_load Portal_js kiosk 9 portal_page) [Click]) =
             run (page_load Portal_js kiosk 9 portal_page) [Click]"
    "btn_disabled (step (FetchRejected 1 (TypeError ''Failed to fetch''))
                   (run (page_load Portal_js kiosk 9 portal_page) [Click])) = Some False"
    using run_kiosk_clicked(2,3) by blast+
  from acceptPortal_busy_flag [OF start refl, of "[Click, FetchFulfilled 1 http_ok]" 2
      AcceptPortal_json]
  have 3: "btn_disabled (step (JsonFulfilled 2 cafe_venue)
                   (run (page_load Portal_js kiosk 9 portal_page)
                      [Click, FetchFulfilled 1 http_ok])) = Some False"
    using run_kiosk_accepting by blast
  show ?thesis
    using start run_kiosk_clicked 1 2 3 run_kiosk_accepting by simp
qed

subsection \<open>A pending position request\<close>

lemma awaiting_position:
  "map_of (pending (tryGetGeo AcceptPortal_await (script_loaded Portal_js phone 9 portal_page))) 0 =
     Some (TryGetGeo_position AcceptPortal_await)"
  "lastGeo (tryGetGeo AcceptPortal_await (script_loaded Portal_js phone 9 portal_page)) = None"
  "\<not> geolocation (nav (script_loaded Portal_js kiosk 9 portal_page))"
  by (simp_all add: tryGetGeo_effects phone_def kiosk_def)

section \<open>The cached fix\<close>

text \<open>
  Claim C4. \<open>lastGeo\<close> is written in one place, the success callback of \<open>tryGetGeo\<close>,
  and there before the promise is resolved: the callback returns the stored fix together with
  the state that already holds it. So a position delivered to a pending \<open>tryGetGeo\<close> makes
  \<open>lastGeo\<close> the new fix, with the accuracy rounded. A position delivered to the request of
  \<open>initPortal\<close> leaves \<open>lastGeo\<close> as it was, and so do a failed position request of either
  kind, the call of \<open>tryGetGeo\<close> itself, and every other event of the page.
\<close>

theorem lastGeo_written_by_tryGetGeo_only:
  "tryGetGeo_success pos w =
     (Fulfilled (Some \<lparr>latitude = coords_latitude pos, longitude = coords_longitude pos,
                       accuracy_m = Math_round (coords_accuracy pos)\<rparr>),
      w\<lparr>lastGeo := Some \<lparr>latitude = coords_latitude pos, longitude = coords_longitude pos,
                          accuracy_m = Math_round (coords_accuracy pos)\<rparr>\<rparr>) \<and>
   (map_of (pending w) i = Some (TryGetGeo_position k) \<longrightarrow>
      lastGeo (step (GeoSuccess i pos) w) =
        Some \<lparr>latitude = coords_latitude pos, longitude = coords_longitude pos,
              accuracy_m = Math_round (coords_accuracy pos)\<rparr>) \<and>
   (map_of (pending w) i = Some InitPortal_position \<longrightarrow>
      lastGeo (step (GeoSuccess i pos) w) = lastGeo w) \<and>
   lastGeo (step (GeoError i code message) w) = lastGeo w \<and>
   lastGeo (tryGetGeo k w) = lastGeo w \<and>
   ((\<forall>j p k'. ev = GeoSuccess j p \<longrightarrow> map_of (pending w) j \<noteq> Some (TryGetGeo_position k')) \<longrightarrow>
      lastGeo (step ev w) = lastGeo w)"
proof -
  have other: "lastGeo (step ev w) = lastGeo w"
    if "\<forall>j p k'. ev = GeoSuccess j p \<longrightarrow> map_of (pending w) j \<noteq> Some (TryGetGeo_position k')"
    using that
    by (cases ev)
      (auto simp: step_def handle_lastGeo settle_position_lastGeo split: option.splits cont.splits)
  show ?thesis
    using other
    by (simp add: step_def handle_lastGeo settle_position_lastGeo tryGetGeo_success_def Let_def)
qed

text \<open>
  The theorem at a pending \<open>tryGetGeo\<close> on a device with geolocation: the position
  (31, 121), accurate to 12 m, becomes the cached fix; a refusal and a click leave the cache
  empty.
\<close>

theorem lastGeo_written_by_tryGetGeo_only_witness:
  "map_of (pending (tryGetGeo AcceptPortal_await (script_loaded Portal_js phone 9 portal_page))) 0 =
     Some (TryGetGeo_position AcceptPortal_await) \<and>
   lastGeo (step (GeoSuccess 0 cafe_fix)
              (tryGetGeo AcceptPortal_await (script_loaded Portal_js phone 9 portal_page))) =
     Some \<lparr>latitude = 31, longitude = 121, accuracy_m = 12\<rparr> \<and>
   lastGeo (step (GeoError 0 1 ''User denied Geolocation'')
              (tryGetGeo AcceptPortal_await (script_loaded Portal_js phone 9 portal_page))) = None \<and>
   lastGeo (step Click
              (tryGetGeo AcceptPortal_await (script_loaded Portal_js phone 9 portal_page))) = None \<and>
   map_of (pending (page_load Portal_js phone 9 portal_page)) 0 = Some InitPortal_position \<and>
   lastGeo (step (GeoSuccess 0 cafe_fix) (page_load Portal_js phone 9 portal_page)) =
     lastGeo (page_load Portal_js phone 9 portal_page)"
proof -
  let ?w = "tryGetGeo AcceptPortal_await (script_loaded Portal_js phone 9 portal_page)"
  note T = lastGeo_written_by_tryGetGeo_only
    [where w = ?w and i = 0 and k = AcceptPortal_await and pos = cafe_fix and ev = Click
       and code = 1 and message = "''User denied Geolocation''"]
  have r: "Math_round 12 = 12"
    by (simp add: Math_round_def)
  have 1: "lastGeo (step (GeoSuccess 0 cafe_fix) ?w) =
             Some \<lparr>latitude = 31, longitude = 121, accuracy_m = 12\<rparr>"
    using T [THEN conjunct2, THEN conjunct1, THEN mp, OF awaiting_position(1)]
    by (simp add: cafe_fix_def r)
  have 2: "lastGeo (step (GeoError 0 1 ''User denied Geolocation'') ?w) = None"
    using T [THEN conjunct2, THEN conjunct2, THEN conjunct2, THEN conjunct1]
      awaiting_position(2) by simp
  have 3: "lastGeo (step Click ?w) = None"
    using T [THEN conjunct2, THEN conjunct2, THEN conjunct2, THEN conjunct2, THEN conjunct2]
      awaiting_position(2) by simp
  have 4: "map_of (pending (page_load Portal_js phone 9 portal_page)) 0 = Some InitPortal_position"
    by (simp add: page_load_effects phone_def)
  note 5 = lastGeo_written_by_tryGetGeo_only
    [where w = "page_load Portal_js phone 9 portal_page" and i = 0 and pos = cafe_fix,
     THEN conjunct2, THEN conjunct2, THEN conjunct1, THEN mp, OF 4]
  show ?thesis
    by (intro conjI awaiting_position(1) 1 2 3 4 5)
qed

text \<open>
  The position request of \<open>initPortal\<close> succeeds on a device with geolocation, and the
  cache is still empty afterwards: the fix went into the status line and the ad request only.
\<close>

theorem initPortal_fix_not_cached_counterexample:
  "map_of (pending (page_load Portal_js phone 9 portal_page)) 0 = Some InitPortal_position \<and>
   lastGeo (run (page_load Portal_js phone 9 portal_page) [GeoSuccess 0 cafe_fix]) = None \<and>
   lastGeo (run (page_load Portal_js phone 9 portal_page) [GeoSuccess 0 cafe_fix]) \<noteq>
     Some \<lparr>latitude = 31, longitude = 121, accuracy_m = 12\<rparr>"
  by (simp add: run_def step_def handle_lastGeo settle_position_lastGeo page_load_effects
      page_load_fresh phone_def)

section \<open>tryGetGeo never rejects\<close>

text \<open>
  Claim C7. The promise of \<open>tryGetGeo\<close> is settled in three places and each of them
  resolves it: with \<open>null\<close> when \<open>navigator.geolocation\<close> is missing, with \<open>null\<close> in
  the error callback (permission denied, position unavailable, timeout), and with the fix in
  the success callback. Without geolocation the waiter is queued at once with \<open>null\<close>;
  otherwise whichever callback the browser calls resumes the waiter with a fulfilled promise.
  A waiter resumed with a fulfilled promise leaves no unhandled rejection and logs nothing to
  the console.
\<close>

theorem tryGetGeo_never_rejects:
  "tryGetGeo_unavailable = Fulfilled None \<and>
   fst (tryGetGeo_error w) = Fulfilled None \<and>
   fst (tryGetGeo_success pos w) =
     Fulfilled (Some \<lparr>latitude = coords_latitude pos, longitude = coords_longitude pos,
                      accuracy_m = Math_round (coords_accuracy pos)\<rparr>) \<and>
   (\<not> geolocation (nav w) \<longrightarrow>
      tryGetGeo k w = w\<lparr>microtasks := microtasks w @ [(k, Fulfilled None)]\<rparr>) \<and>
   (map_of (pending w) i = Some (TryGetGeo_position k) \<longrightarrow>
      handle (GeoError i code message) w =
        resume_geo_waiter k (Fulfilled None)
          (w\<lparr>pending := remove1 (i, TryGetGeo_position k) (pending w)\<rparr>) \<and>
      handle (GeoSuccess i pos) w =
        resume_geo_waiter k
          (Fulfilled (Some \<lparr>latitude = coords_latitude pos, longitude = coords_longitude pos,
                            accuracy_m = Math_round (coords_accuracy pos)\<rparr>))
          (w\<lparr>pending := remove1 (i, TryGetGeo_position k) (pending w),
             lastGeo := Some \<lparr>latitude = coords_latitude pos, longitude = coords_longitude pos,
                               accuracy_m = Math_round (coords_accuracy pos)\<rparr>\<rparr>)) \<and>
   unhandled (resume_geo_waiter k (Fulfilled g) w) = unhandled w \<and>
   filter (\<lambda>e. case e of Console level m args \<Rightarrow> True | _ \<Rightarrow> False)
     (trace (resume_geo_waiter k (Fulfilled g) w)) =
   filter (\<lambda>e. case e of Console level m args \<Rightarrow> True | _ \<Rightarrow> False) (trace w)"
  by (simp add: tryGetGeo_unavailable_def tryGetGeo_error_def tryGetGeo_success_def
      tryGetGeo_def handle_def settle_position_def take_pending_Some Let_def
      resume_geo_waiter_def postVisitPing_send_def acceptPortal_submit_def
      split: geo_waiter.splits)

text \<open>
  The theorem on a device without geolocation, where the waiter is queued with \<open>null\<close>,
  and at a pending \<open>tryGetGeo\<close> on a device with geolocation, where a timeout resumes the
  waiter with \<open>null\<close>.
\<close>

theorem tryGetGeo_never_rejects_witness:
  "\<not> geolocation (nav (script_loaded Portal_js kiosk 9 portal_page)) \<and>
   microtasks (tryGetGeo (PostVisitPing_await Ping) (script_loaded Portal_js kiosk 9 portal_page)) =
     [(PostVisitPing_await Ping, Fulfilled None)] \<and>
   map_of (pending (tryGetGeo AcceptPortal_await (script_loaded Portal_js phone 9 portal_page))) 0 =
     Some (TryGetGeo_position AcceptPortal_await) \<and>
   handle (GeoError 0 3 ''Timeout expired'')
     (tryGetGeo AcceptPortal_await (script_loaded Portal_js phone 9 portal_page)) =
   resume_geo_waiter AcceptPortal_await (Fulfilled None)
     (tryGetGeo AcceptPortal_await (script_loaded Portal_js phone 9 portal_page)
        \<lparr>pending := remove1 (0, TryGetGeo_position AcceptPortal_await)
           (pending (tryGetGeo AcceptPortal_await (script_loaded Portal_js phone 9 portal_page)))\<rparr>)"
proof -
  let ?w = "tryGetGeo AcceptPortal_await (script_loaded Portal_js phone 9 portal_page)"
  let ?k = "script_loaded Portal_js kiosk 9 portal_page"
  have 1: "microtasks (tryGetGeo (PostVisitPing_await Ping) ?k) =
             [(PostVisitPing_await Ping, Fulfilled None)]"
    using tryGetGeo_never_rejects [where w = ?k and k = "PostVisitPing_await Ping",
        THEN conjunct2, THEN conjunct2, THEN conjunct2, THEN conjunct1, THEN mp,
        OF awaiting_position(3)]
    by simp
  note 2 = tryGetGeo_never_rejects [where w = ?w and i = 0 and k = AcceptPortal_await
        and code = 3 and message = "''Timeout expired''",
        THEN conjunct2, THEN conjunct2, THEN conjunct2, THEN conjunct2, THEN conjunct1, THEN mp,
        OF awaiting_position(1), THEN conjunct1]
  show ?thesis
    by (intro conjI awaiting_position(3) awaiting_position(1) 1 2)
qed

section \<open>The two versions of acceptPortal\<close>

lemma kiosk_accept_request:
  "requests (run (page_load Portal_js kiosk 9 portal_page) [Click]) =
     [Fetch 0 ''/api/v1/ad-recommend/'' (AdApiPayload None None ''Mozilla/5.0'' 9) False,
      Fetch 1 ''/api/v1/portal/accept/'' (AcceptPayload None None None) False]"
  "requests (run (page_load Part_000 kiosk 9 portal_page) [Click]) =
     [Fetch 0 ''/api/v1/ad-recommend/'' (AdApiPayload None None ''Mozilla/5.0'' 9) False,
      Fetch 1 ''/api/v1/portal/accept/'' EmptyObject False]"
  by code_simp+

lemma kiosk_accept_http_error:
  "accept_status (run (page_load Portal_js kiosk 9 portal_page)
     [Click, FetchFulfilled 1 http_error]) = Some msg_accept_failed"
  "accept_status (run (page_load Part_000 kiosk 9 portal_page)
     [Click, FetchFulfilled 1 http_error]) = Some (msg_alt_http_failed @ ''500'')"
  "filter (\<lambda>e. case e of Console level m args \<Rightarrow> True | _ \<Rightarrow> False)
     (trace (run (page_load Portal_js kiosk 9 portal_page) [Click, FetchFulfilled 1 http_error])) =
     [Console ''error'' ''accept portal error:'' [ArgError (Error ''HTTP 500'')]]"
  "filter (\<lambda>e. case e of Console level m args \<Rightarrow> True | _ \<Rightarrow> False)
     (trace (run (page_load Part_000 kiosk 9 portal_page) [Click, FetchFulfilled 1 http_error])) =
     [Console ''error'' ''portal accept http error:''
        [ArgNum 500, ArgStr ''Internal Server Error'']]"
  by code_simp+

lemma kiosk_accept_unparseable:
  "accept_status (run (page_load Portal_js kiosk 9 portal_page)
     [Click, FetchFulfilled 1 http_ok, JsonRejected 2 (SyntaxError ''Unexpected end of JSON input'')]) =
     Some msg_accept_failed"
  "accept_status (run (page_load Part_000 kiosk 9 portal_page)
     [Click, FetchFulfilled 1 http_ok, JsonRejected 2 (SyntaxError ''Unexpected end of JSON input'')]) =
     Some msg_alt_success"
  "filter (\<lambda>e. case e of Console level m args \<Rightarrow> True | _ \<Rightarrow> False)
     (trace (run (page_load Portal_js kiosk 9 portal_page)
       [Click, FetchFulfilled 1 http_ok,
        JsonRejected 2 (SyntaxError ''Unexpected end of JSON input'')])) =
     [Console ''error'' ''accept portal error:''
        [ArgError (SyntaxError ''Unexpected end of JSON input'')]]"
  "filter (\<lambda>e. case e of Console level m args \<Rightarrow> True | _ \<Rightarrow> False)
     (trace (run (page_load Part_000 kiosk 9 portal_page)
       [Click, FetchFulfilled 1 http_ok,
        JsonRejected 2 (SyntaxError ''Unexpected end of JSON input'')])) =
     [Console ''warn'' ''portal accept response is not valid JSON:''
        [ArgError (SyntaxError ''Unexpected end of JSON input'')]]"
  by code_simp+

lemma kiosk_accept_no_ok:
  "accept_status (run (page_load Portal_js kiosk 9 portal_page)
     [Click, FetchFulfilled 1 http_ok, JsonFulfilled 2 (JObj [])]) = Some msg_accept_rejected"
  "accept_status (run (page_load Part_000 kiosk 9 portal_page)
     [Click, FetchFulfilled 1 http_ok, JsonFulfilled 2 (JObj [])]) = Some msg_alt_success"
  by code_simp+

lemma kiosk_accept_ok_alt:
  "visitPingTimer (run (page_load Part_000 kiosk 9 portal_page)
     [Click, FetchFulfilled 1 http_ok, JsonFulfilled 2 no_venue]) = None"
  "heartbeats Ping (run (page_load Part_000 kiosk 9 portal_page)
     [Click, FetchFulfilled 1 http_ok, JsonFulfilled 2 no_venue]) = 0"
  "accept_status (run (page_load Part_000 kiosk 9 portal_page)
     [Click, FetchFulfilled 1 http_ok, JsonFulfilled 2 no_venue]) = Some msg_alt_success"
  by code_simp+

lemma kiosk_accept_ok:
  "visitPingTimer (run (page_load Portal_js kiosk 9 portal_page)
     [Click, FetchFulfilled 1 http_ok, JsonFulfilled 2 no_venue]) = Some 1"
  "heartbeats Ping (run (page_load Portal_js kiosk 9 portal_page)
     [Click, FetchFulfilled 1 http_ok, JsonFulfilled 2 no_venue]) = 1"
  "accept_status (run (page_load Portal_js kiosk 9 portal_page)
     [Click, FetchFulfilled 1 http_ok, JsonFulfilled 2 no_venue]) = Some msg_accept_no_venue"
proof -
  let ?w1 = "run (page_load Portal_js kiosk 9 portal_page) [Click, FetchFulfilled 1 http_ok]"
  let ?w = "run (page_load Portal_js kiosk 9 portal_page)
     [Click, FetchFulfilled 1 http_ok, JsonFulfilled 2 no_venue]"
  have s: "?w = step (JsonFulfilled 2 no_venue) ?w1"
    by (simp add: run_def)
  have p: "present ?w1 ''accept-status''"
    using wf_portal_page [of Portal_js kiosk 9] by (simp add: wf_page_def)
  have w1: "visitPingTimer ?w1 = None" "next_timer ?w1 = 1" "heartbeats Ping ?w1 = 0"
    by code_simp+
  note j = accept_json_ok [OF p _ run_kiosk_accepting, of no_venue]
  show "visitPingTimer ?w = Some 1" "heartbeats Ping ?w = 1"
    "accept_status ?w = Some msg_accept_no_venue"
    unfolding s using j w1 by (simp_all add: no_venue_def get_prop_def)
qed

lemma msg_alt_distinct:
  "msg_accept_failed \<noteq> msg_alt_http_failed @ ''500''" "msg_accept_failed \<noteq> msg_alt_success"
  "msg_accept_rejected \<noteq> msg_alt_success" "msg_accept_no_venue \<noteq> msg_alt_success"
  by (simp_all add: msg_accept_failed_def msg_alt_http_failed_def msg_alt_success_def
      msg_accept_rejected_def msg_accept_no_venue_def)

text \<open>
  Claim C9. The \<open>acceptPortal\<close> of \<open>static/js/portal.js\<close> and the one of \<open>part_000\<close>
  are run on the same page, on a device without geolocation, with the same events, and the
  outcomes are compared. After the click the first sends the location payload (here three
  \<open>null\<close>s), the second the empty object. To the answer 500 the first throws
  \<open>Error("HTTP 500")\<close>, logs it from its \<open>catch\<close> block and shows the general failure
  text; the second throws nothing, logs status and status text, and shows the text with the
  status code. To a 200 whose body does not parse the first logs the error and shows the
  failure text; the second logs a warning and shows its success text. To the body \<open>{}\<close>,
  with no \<open>ok\<close>, the first shows the rejection text and the second its success text. To
  \<open>{ok: true, venue: null}\<close> the first starts the heartbeat (timer armed, one ping) and
  the second does not. The texts compared are different strings.
\<close>

theorem acceptPortal_variants_differ:
  "requests (run (page_load Portal_js kiosk 9 portal_page) [Click]) \<noteq>
     requests (run (page_load Part_000 kiosk 9 portal_page) [Click]) \<and>
   last (requests (run (page_load Portal_js kiosk 9 portal_page) [Click])) =
     Fetch 1 ''/api/v1/portal/accept/'' (AcceptPayload None None None) False \<and>
   last (requests (run (page_load Part_000 kiosk 9 portal_page) [Click])) =
     Fetch 1 ''/api/v1/portal/accept/'' EmptyObject False \<and>
   accept_status (run (page_load Portal_js kiosk 9 portal_page)
     [Click, FetchFulfilled 1 http_error]) = Some msg_accept_failed \<and>
   accept_status (run (page_load Part_000 kiosk 9 portal_page)
     [Click, FetchFulfilled 1 http_error]) = Some (msg_alt_http_failed @ ''500'') \<and>
   msg_accept_failed \<noteq> msg_alt_http_failed @ ''500'' \<and>
   filter (\<lambda>e. case e of Console level m args \<Rightarrow> True | _ \<Rightarrow> False)
     (trace (run (page_load Portal_js kiosk 9 portal_page) [Click, FetchFulfilled 1 http_error])) =
     [Console ''error'' ''accept portal error:'' [ArgError (Error ''HTTP 500'')]] \<and>
   filter (\<lambda>e. case e of Console level m args \<Rightarrow> True | _ \<Rightarrow> False)
     (trace (run (page_load Part_000 kiosk 9 portal_page) [Click, FetchFulfilled 1 http_error])) =
     [Console ''error'' ''portal accept http error:''
        [ArgNum 500, ArgStr ''Internal Server Error'']] \<and>
   accept_status (run (page_load Portal_js kiosk 9 portal_page)
     [Click, FetchFulfilled 1 http_ok, JsonRejected 2 (SyntaxError ''Unexpected end of JSON input'')]) =
     Some msg_accept_failed \<and>
   accept_status (run (page_load Part_000 kiosk 9 portal_page)
     [Click, FetchFulfilled 1 http_ok, JsonRejected 2 (SyntaxError ''Unexpected end of JSON input'')]) =
     Some msg_alt_success \<and>
   msg_accept_failed \<noteq> msg_alt_success \<and>
   filter (\<lambda>e. case e of Console level m args \<Rightarrow> True | _ \<Rightarrow> False)
     (trace (run (page_load Portal_js kiosk 9 portal_page)
       [Click, FetchFulfilled 1 http_ok,
        JsonRejected 2 (SyntaxError ''Unexpected end of JSON input'')])) =
     [Console ''error'' ''accept portal error:''
        [ArgError (SyntaxError ''Unexpected end of JSON input'')]] \<and>
   filter (\<lambda>e. case e of Console level m args \<Rightarrow> True | _ \<Rightarrow> False)
     (trace (run (page_load Part_000 kiosk 9 portal_page)
       [Click, FetchFulfilled 1 http_ok,
        JsonRejected 2 (SyntaxError ''Unexpected end of JSON input'')])) =
     [Console ''warn'' ''portal accept response is not valid JSON:''
        [ArgError (SyntaxError ''Unexpected end of JSON input'')]] \<and>
   accept_status (run (page_load Portal_js kiosk 9 portal_page)
     [Click, FetchFulfilled 1 http_ok, JsonFulfilled 2 (JObj [])]) = Some msg_accept_rejected \<and>
   accept_status (run (page_load Part_000 kiosk 9 portal_page)
     [Click, FetchFulfilled 1 http_ok, JsonFulfilled 2 (JObj [])]) = Some msg_alt_success \<and>
   msg_accept_rejected \<noteq> msg_alt_success \<and>
   visitPingTimer (run (page_load Portal_js kiosk 9 portal_page)
     [Click, FetchFulfilled 1 http_ok, JsonFulfilled 2 no_venue]) = Some 1 \<and>
   heartbeats Ping (run (page_load Portal_js kiosk 9 portal_page)
     [Click, FetchFulfilled 1 http_ok, JsonFulfilled 2 no_venue]) = 1 \<and>
   visitPingTimer (run (page_load Part_000 kiosk 9 portal_page)
     [Click, FetchFulfilled 1 http_ok, JsonFulfilled 2 no_venue]) = None \<and>
   heartbeats Ping (run (page_load Part_000 kiosk 9 portal_page)
     [Click, FetchFulfilled 1 http_ok, JsonFulfilled 2 no_venue]) = 0 \<and>
   accept_status (run (page_load Portal_js kiosk 9 portal_page)
     [Click, FetchFulfilled 1 http_ok, JsonFulfilled 2 no_venue]) = Some msg_accept_no_venue \<and>
   accept_status (run (page_load Part_000 kiosk 9 portal_page)
     [Click, FetchFulfilled 1 http_ok, JsonFulfilled 2 no_venue]) = Some msg_alt_success \<and>
   msg_accept_no_venue \<noteq> msg_alt_success"
proof -
  have 1: "requests (run (page_load Portal_js kiosk 9 portal_page) [Click]) \<noteq>
     requests (run (page_load Part_000 kiosk 9 portal_page) [Click])"
    "last (requests (run (page_load Portal_js kiosk 9 portal_page) [Click])) =
       Fetch 1 ''/api/v1/portal/accept/'' (AcceptPayload None None None) False"
    "last (requests (run (page_load Part_000 kiosk 9 portal_page) [Click])) =
       Fetch 1 ''/api/v1/portal/accept/'' EmptyObject False"
    by (simp_all add: kiosk_accept_request)
  show ?thesis
    by (intro conjI 1 kiosk_accept_http_error kiosk_accept_unparseable kiosk_accept_no_ok
        kiosk_accept_ok kiosk_accept_ok_alt msg_alt_distinct)
qed

subsection \<open>A call of acceptPortal that fails\<close>

lemma acceptPortal_parsed_failed:
  assumes "case s of Rejected e \<Rightarrow> True
           | Fulfilled data \<Rightarrow> (case get_prop data ''ok'' of Inl e \<Rightarrow> True | Inr v \<Rightarrow> \<not> truthy v)"
  shows "visitPingTimer (acceptPortal_parsed s w) = visitPingTimer w"
    "intervals (acceptPortal_parsed s w) = intervals w"
    "listeners (acceptPortal_parsed s w) = listeners w"
    "next_timer (acceptPortal_parsed s w) = next_timer w"
    "pending (acceptPortal_parsed s w) = pending w"
    "microtasks (acceptPortal_parsed s w) = microtasks w"
    "requests (acceptPortal_parsed s w) = requests w"
  using assms
  by (auto simp: acceptPortal_parsed_def Let_def status_eqs split: settled.splits sum.splits)

lemma heartbeat_waiting_settled:
  assumes "pending w' = remove1 (i, k) (pending w)" and "microtasks w' = microtasks w"
    and "\<forall>ev. k \<noteq> TryGetGeo_position (PostVisitPing_await ev)"
  shows "heartbeat_waiting ev w' = heartbeat_waiting ev w"
  using assms by (simp add: heartbeat_waiting_def filter_remove1_other)

lemma handle_accept_failure:
  assumes "accept_failure w ev"
  shows "visitPingTimer (handle ev w) = visitPingTimer w"
    "intervals (handle ev w) = intervals w"
    "listeners (handle ev w) = listeners w"
    "microtasks (handle ev w) = microtasks w"
    "requests (handle ev w) = requests w"
    "heartbeat_waiting ev' (handle ev w) = heartbeat_waiting ev' w"
proof -
  obtain i k where k: "map_of (pending w) i = Some k" "k = AcceptPortal_fetch \<or> k = AcceptPortal_json"
    and h: "visitPingTimer (handle ev w) = visitPingTimer w"
      "intervals (handle ev w) = intervals w"
      "listeners (handle ev w) = listeners w"
      "microtasks (handle ev w) = microtasks w"
      "requests (handle ev w) = requests w"
      "pending (handle ev w) = remove1 (i, k) (pending w)"
    using assms
    by (cases ev)
      (auto simp: accept_failure_def handle_def settle_fetch_def settle_json_def take_pending_Some
        acceptPortal_fetched_def acceptPortal_parsed_failed split: sum.splits)
  show "visitPingTimer (handle ev w) = visitPingTimer w"
    "intervals (handle ev w) = intervals w"
    "listeners (handle ev w) = listeners w"
    "microtasks (handle ev w) = microtasks w"
    "requests (handle ev w) = requests w"
    by (rule h)+
  show "heartbeat_waiting ev' (handle ev w) = heartbeat_waiting ev' w"
    using k(2) by (intro heartbeat_waiting_settled [OF h(6) h(4)]) auto
qed

lemma handle_not_success:
  assumes "heartbeat_wired w" and "\<not> accept_success w ev"
  shows "visitPingTimer (handle ev w) = visitPingTimer w"
proof (cases ev)
  case Click
  then show ?thesis
    using assms(1) by (simp add: handle_def dispatch_click run_listener_def
        split: option.splits source_file.splits)
next
  case (GeoSuccess i pos)
  then show ?thesis
    by (simp add: handle_def settle_position_def take_pending_def tryGetGeo_success_def Let_def
        split: option.splits cont.splits)
next
  case (GeoError i code message)
  then show ?thesis
    by (simp add: handle_def settle_position_def take_pending_def tryGetGeo_error_def
        split: option.splits cont.splits)
next
  case (FetchFulfilled i res)
  then show ?thesis
    by (simp add: handle_def settle_fetch_def take_pending_def split: option.splits cont.splits)
next
  case (FetchRejected i e)
  then show ?thesis
    by (simp add: handle_def settle_fetch_def take_pending_def split: option.splits cont.splits)
next
  case (JsonFulfilled i data)
  then show ?thesis
    using assms(2)
    by (auto simp: handle_def settle_json_def take_pending_def accept_success_def
        acceptPortal_parsed_failed split: option.splits cont.splits sum.splits)
next
  case (JsonRejected i e)
  then show ?thesis
    by (simp add: handle_def settle_json_def take_pending_def acceptPortal_parsed_failed
        split: option.splits cont.splits)
next
  case (IntervalFired t)
  then show ?thesis
    by (simp add: handle_def split: option.splits prod.splits callback.splits)
next
  case BeforeUnload
  then show ?thesis
    using assms(1) by (simp add: handle_def dispatch_beforeunload)
next
  case (VisibilityChange v)
  then show ?thesis
    using assms(1) by (simp add: handle_def dispatch_visibilitychange)
qed

section \<open>acceptPortal: a failed call leaves the heartbeat alone\<close>

lemma run_kiosk_idle:
  "visitPingTimer (run (page_load Portal_js kiosk 9 portal_page) [Click]) = None"
  "intervals (run (page_load Portal_js kiosk 9 portal_page) [Click]) = []"
  "heartbeats Ping (run (page_load Portal_js kiosk 9 portal_page) [Click]) = 0"
  "\<not> ok http_error"
  by code_simp+

text \<open>
  Claim C10. Take a state of the page between two events and an event that ends a call of
  \<open>acceptPortal\<close> without success: the request fails, the answer is not in 200..299, the
  body does not parse, or the parsed body has no truthy \<open>ok\<close>. The event leaves the
  sentinel \<open>visitPingTimer\<close>, the interval timers and the registered listeners as they
  were, sends no request at all, and adds no \<open>"ping"\<close> and no \<open>"leave"\<close> heartbeat. So
  if the heartbeat was not running before, it is not running afterwards. More generally, on
  a page with its listeners in place, the sentinel is changed by no event other than a parsed
  accept body with a truthy \<open>ok\<close>.
\<close>

theorem acceptPortal_failure_atomic:
  assumes "accept_failure w ev" and "microtasks w = []"
  shows "visitPingTimer (step ev w) = visitPingTimer w \<and>
    intervals (step ev w) = intervals w \<and>
    listeners (step ev w) = listeners w \<and>
    requests (step ev w) = requests w \<and>
    heartbeats Ping (step ev w) = heartbeats Ping w \<and>
    heartbeats Leave (step ev w) = heartbeats Leave w \<and>
    (heartbeat_wired w \<and> \<not> accept_success w ev' \<longrightarrow>
       visitPingTimer (step ev' w) = visitPingTimer w)"
proof -
  note h = handle_accept_failure [OF assms(1)]
  have "microtasks (handle ev w) = []"
    using h(4) assms(2) by simp
  then have s: "step ev w = handle ev w"
    by (simp add: step_def drain_idle)
  have "heartbeats ev'' (step ev w) = heartbeats ev'' w" for ev''
    unfolding s by (simp add: heartbeats_eq h)
  moreover have "visitPingTimer (step ev' w) = visitPingTimer w"
    if "heartbeat_wired w" "\<not> accept_success w ev'"
    using that by (simp add: step_def handle_not_success)
  ultimately show ?thesis
    by (simp add: s h)
qed

text \<open>
  The theorem on the page of a device without geolocation, after the click: the accept
  request is answered with 500, and the heartbeat, which was not running, is still not
  running.
\<close>

theorem acceptPortal_failure_atomic_witness:
  "accept_failure (run (page_load Portal_js kiosk 9 portal_page) [Click])
     (FetchFulfilled 1 http_error) \<and>
   microtasks (run (page_load Portal_js kiosk 9 portal_page) [Click]) = [] \<and>
   visitPingTimer (run (page_load Portal_js kiosk 9 portal_page)
     [Click, FetchFulfilled 1 http_error]) = None \<and>
   intervals (run (page_load Portal_js kiosk 9 portal_page)
     [Click, FetchFulfilled 1 http_error]) = [] \<and>
   heartbeats Ping (run (page_load Portal_js kiosk 9 portal_page)
     [Click, FetchFulfilled 1 http_error]) = 0 \<and>
   heartbeat_wired (run (page_load Portal_js kiosk 9 portal_page) [Click]) \<and>
   \<not> accept_success (run (page_load Portal_js kiosk 9 portal_page) [Click]) Click \<and>
   visitPingTimer (step Click (run (page_load Portal_js kiosk 9 portal_page) [Click])) = None"
proof -
  let ?w = "run (page_load Portal_js kiosk 9 portal_page) [Click]"
  have f: "accept_failure ?w (FetchFulfilled 1 http_error)"
    using run_kiosk_clicked(2) run_kiosk_idle(4) by (simp add: accept_failure_def)
  have m: "microtasks ?w = []"
    by simp
  have hw: "heartbeat_wired ?w"
    by (simp add: run_wired page_load_wired)
  have ns: "\<not> accept_success ?w Click"
    by (simp add: accept_success_def)
  have s: "run (page_load Portal_js kiosk 9 portal_page) [Click, FetchFulfilled 1 http_error] =
             step (FetchFulfilled 1 http_error) ?w"
    by (simp add: run_def)
  note T = acceptPortal_failure_atomic [OF f m, where ev' = Click]
  have 1: "visitPingTimer (step (FetchFulfilled 1 http_error) ?w) = None"
    "intervals (step (FetchFulfilled 1 http_error) ?w) = []"
    "heartbeats Ping (step (FetchFulfilled 1 http_error) ?w) = 0"
    "visitPingTimer (step Click ?w) = None"
    using T hw ns run_kiosk_idle(1-3) by simp_all
  show ?thesis
    unfolding s by (intro conjI f m hw ns 1)
qed

subsection \<open>The initial ad request and the position it waits for\<close>

lemma is_ad_request_simps [simp]:
  "is_ad_request (Console level m args) = False"
  "is_ad_request (SetInterval h ms) = False"
  "is_ad_request (AddEventListener t ty) = False"
  "is_ad_request (SendBeacon url b ty) = False"
  "is_ad_request (Fetch i url b ka) = (url = ''/api/v1/ad-recommend/'')"
  by (simp_all add: is_ad_request_def)

lemma ad_requests_prims [simp]:
  "ad_requests (emit e w) = ad_requests w @ (if is_ad_request e then [e] else [])"
  "ad_requests (reject e' w) = ad_requests w"
  "ad_requests (set_textContent el v w) = ad_requests w"
  "ad_requests (set_style_display el v w) = ad_requests w"
  "ad_requests (set_src el v w) = ad_requests w"
  "ad_requests (set_alt el v w) = ad_requests w"
  "ad_requests (set_href el v w) = ad_requests w"
  "ad_requests (set_disabled el b w) = ad_requests w"
  "ad_requests (fetch url p ka k w) =
     ad_requests w @ (if url = ''/api/v1/ad-recommend/'' then [Fetch (next_id w) url p ka] else [])"
  "ad_requests (read_json k w) = ad_requests w"
  "ad_requests (getCurrentPosition k opts w) = ad_requests w"
  "ad_requests (addEventListener t ty l w) = ad_requests w"
  "ad_requests (w\<lparr>microtasks := m\<rparr>) = ad_requests w"
  "ad_requests (w\<lparr>pending := ps\<rparr>) = ad_requests w"
  "ad_requests (w\<lparr>lastGeo := g\<rparr>) = ad_requests w"
  "ad_requests (w\<lparr>visibilityState := vs\<rparr>) = ad_requests w"
  "ad_requests (w\<lparr>visitPingTimer := vt\<rparr>) = ad_requests w"
  "ad_requests (w\<lparr>next_timer := nt\<rparr>) = ad_requests w"
  "ad_requests (w\<lparr>intervals := iv\<rparr>) = ad_requests w"
  "ad_requests (w\<lparr>next_timer := nt, intervals := iv\<rparr>) = ad_requests w"
  by (simp_all add: ad_requests_def is_ad_request_def setInterval_eq)

lemma init_position_pending_prims [simp]:
  "init_position_pending (emit e w) = init_position_pending w"
  "init_position_pending (reject e' w) = init_position_pending w"
  "init_position_pending (set_textContent el v w) = init_position_pending w"
  "init_position_pending (set_style_display el v w) = init_position_pending w"
  "init_position_pending (set_src el v w) = init_position_pending w"
  "init_position_pending (set_alt el v w) = init_position_pending w"
  "init_position_pending (set_href el v w) = init_position_pending w"
  "init_position_pending (set_disabled el b w) = init_position_pending w"
  "init_position_pending (fetch url p ka k w) =
     init_position_pending w + (if k = InitPortal_position then 1 else 0)"
  "init_position_pending (read_json k w) =
     init_position_pending w + (if k = InitPortal_position then 1 else 0)"
  "init_position_pending (getCurrentPosition k opts w) =
     init_position_pending w + (if k = InitPortal_position then 1 else 0)"
  "init_position_pending (addEventListener t ty l w) = init_position_pending w"
  "init_position_pending (w\<lparr>microtasks := m\<rparr>) = init_position_pending w"
  "init_position_pending (w\<lparr>lastGeo := g\<rparr>) = init_position_pending w"
  "init_position_pending (w\<lparr>visibilityState := vs\<rparr>) = init_position_pending w"
  "init_position_pending (w\<lparr>visitPingTimer := vt\<rparr>) = init_position_pending w"
  "init_position_pending (w\<lparr>next_timer := nt\<rparr>) = init_position_pending w"
  "init_position_pending (w\<lparr>intervals := iv\<rparr>) = init_position_pending w"
  "init_position_pending (w\<lparr>next_timer := nt, intervals := iv\<rparr>) = init_position_pending w"
  by (simp_all add: init_position_pending_def setInterval_eq)

lemma requestAd_catch_initial_ad [simp]:
  "ad_requests (requestAd_catch e w) = ad_requests w"
  "init_position_pending (requestAd_catch e w) = init_position_pending w"
  by (simp_all add: requestAd_catch_def Let_def status_eqs
      split: settled.splits sum.splits option.splits geo_waiter.splits prod.splits)

lemma requestAd_fetched_initial_ad [simp]:
  "ad_requests (requestAd_fetched s w) = ad_requests w"
  "init_position_pending (requestAd_fetched s w) = init_position_pending w"
  by (simp_all add: requestAd_fetched_def Let_def status_eqs
      split: settled.splits sum.splits option.splits geo_waiter.splits prod.splits)

lemma requestAd_parsed_initial_ad [simp]:
  "ad_requests (requestAd_parsed s w) = ad_requests w"
  "init_position_pending (requestAd_parsed s w) = init_position_pending w"
  by (simp_all add: requestAd_parsed_def Let_def status_eqs
      split: settled.splits sum.splits option.splits geo_waiter.splits prod.splits)

lemma tryGetGeo_initial_ad [simp]:
  "ad_requests (tryGetGeo k w) = ad_requests w"
  "init_position_pending (tryGetGeo k w) = init_position_pending w"
  by (simp_all add: tryGetGeo_def Let_def status_eqs
      split: settled.splits sum.splits option.splits geo_waiter.splits prod.splits)

lemma postVisitPing_send_initial_ad [simp]:
  "ad_requests (postVisitPing_send ev geo w) = ad_requests w"
  "init_position_pending (postVisitPing_send ev geo w) = init_position_pending w"
  by (simp_all add: postVisitPing_send_def Let_def status_eqs
      split: settled.splits sum.splits option.splits geo_waiter.splits prod.splits)

lemma postVisitPing_initial_ad [simp]:
  "ad_requests (postVisitPing ev w) = ad_requests w"
  "init_position_pending (postVisitPing ev w) = init_position_pending w"
  by (simp_all add: postVisitPing_def Let_def status_eqs
      split: settled.splits sum.splits option.splits geo_waiter.splits prod.splits)

lemma postVisitPing_fetched_initial_ad [simp]:
  "ad_requests (postVisitPing_fetched s w) = ad_requests w"
  "init_position_pending (postVisitPing_fetched s w) = init_position_pending w"
  by (simp_all add: postVisitPing_fetched_def Let_def status_eqs
      split: settled.splits sum.splits option.splits geo_waiter.splits prod.splits)

lemma startVisitPingLoop_initial_ad [simp]:
  "ad_requests (startVisitPingLoop w) = ad_requests w"
  "init_position_pending (startVisitPingLoop w) = init_position_pending w"
  by (simp_all add: startVisitPingLoop_def Let_def status_eqs setInterval_eq
      split: settled.splits sum.splits option.splits geo_waiter.splits prod.splits)

lemma acceptPortal_finally_initial_ad [simp]:
  "ad_requests (acceptPortal_finally err w) = ad_requests w"
  "init_position_pending (acceptPortal_finally err w) = init_position_pending w"
  by (simp_all add: acceptPortal_finally_def Let_def status_eqs
      split: settled.splits sum.splits option.splits geo_waiter.splits prod.splits)

lemma acceptPortal_catch_initial_ad [simp]:
  "ad_requests (acceptPortal_catch e w) = ad_requests w"
  "init_position_pending (acceptPortal_catch e w) = init_position_pending w"
  by (simp_all add: acceptPortal_catch_def Let_def status_eqs
      split: settled.splits sum.splits option.splits geo_waiter.splits prod.splits)

lemma acceptPortal_submit_initial_ad [simp]:
  "ad_requests (acceptPortal_submit geo w) = ad_requests w"
  "init_position_pending (acceptPortal_submit geo w) = init_position_pending w"
  by (simp_all add: acceptPortal_submit_def Let_def status_eqs
      split: settled.splits sum.splits option.splits geo_waiter.splits prod.splits)

lemma acceptPortal_initial_ad [simp]:
  "ad_requests (acceptPortal w) = ad_requests w"
  "init_position_pending (acceptPortal w) = init_position_pending w"
  by (simp_all add: acceptPortal_def Let_def status_eqs
      split: settled.splits sum.splits option.splits geo_waiter.splits prod.splits)

lemma acceptPortal_fetched_initial_ad [simp]:
  "ad_requests (acceptPortal_fetched s w) = ad_requests w"
  "init_position_pending (acceptPortal_fetched s w) = init_position_pending w"
  by (simp_all add: acceptPortal_fetched_def Let_def status_eqs
      split: settled.splits sum.splits option.splits geo_waiter.splits prod.splits)

lemma acceptPortal_parsed_initial_ad [simp]:
  "ad_requests (acceptPortal_parsed s w) = ad_requests w"
  "init_position_pending (acceptPortal_parsed s w) = init_position_pending w"
  by (simp_all add: acceptPortal_parsed_def Let_def status_eqs
      split: settled.splits sum.splits option.splits geo_waiter.splits prod.splits)

lemma resume_geo_waiter_initial_ad [simp]:
  "ad_requests (resume_geo_waiter k s w) = ad_requests w"
  "init_position_pending (resume_geo_waiter k s w) = init_position_pending w"
  by (simp_all add: resume_geo_waiter_def Let_def status_eqs
      split: settled.splits sum.splits option.splits geo_waiter.splits prod.splits)

lemma acceptPortal_alt_finally_initial_ad [simp]:
  "ad_requests (acceptPortal_alt_finally w) = ad_requests w"
  "init_position_pending (acceptPortal_alt_finally w) = init_position_pending w"
  by (simp_all add: acceptPortal_alt_finally_def Let_def status_eqs
      split: settled.splits sum.splits option.splits geo_waiter.splits prod.splits)

lemma acceptPortal_alt_catch_initial_ad [simp]:
  "ad_requests (acceptPortal_alt_catch e w) = ad_requests w"
  "init_position_pending (acceptPortal_alt_catch e w) = init_position_pending w"
  by (simp_all add: acceptPortal_alt_catch_def Let_def status_eqs
      split: settled.splits sum.splits option.splits geo_waiter.splits prod.splits)

lemma acceptPortal_alt_initial_ad [simp]:
  "ad_requests (acceptPortal_alt w) = ad_requests w"
  "init_position_pending (acceptPortal_alt w) = init_position_pending w"
  by (simp_all add: acceptPortal_alt_def Let_def status_eqs
      split: settled.splits sum.splits option.splits geo_waiter.splits prod.splits)

lemma acceptPortal_alt_fetched_initial_ad [simp]:
  "ad_requests (acceptPortal_alt_fetched s w) = ad_requests w"
  "init_position_pending (acceptPortal_alt_fetched s w) = init_position_pending w"
  by (simp_all add: acceptPortal_alt_fetched_def Let_def status_eqs
      split: settled.splits sum.splits option.splits geo_waiter.splits prod.splits)

lemma acceptPortal_alt_parsed_initial_ad [simp]:
  "ad_requests (acceptPortal_alt_parsed s w) = ad_requests w"
  "init_position_pending (acceptPortal_alt_parsed s w) = init_position_pending w"
  by (simp_all add: acceptPortal_alt_parsed_def Let_def status_eqs
      split: settled.splits sum.splits option.splits geo_waiter.splits prod.splits)

lemma init_position_pending_update [simp]:
  "init_position_pending (w\<lparr>pending := ps\<rparr>) = length (filter (\<lambda>(i, k). k = InitPortal_position) ps)"
  by (simp add: init_position_pending_def)

lemma drain_initial_ad [simp]:
  "ad_requests (drain w) = ad_requests w"
  "init_position_pending (drain w) = init_position_pending w"
  by (rule drain_preserves; simp)+

lemma requestAd_initial_ad:
  assumes "wf_page w"
  shows "ad_requests (requestAd lat lon w) =
           ad_requests w @ [Fetch (next_id w) ''/api/v1/ad-recommend/''
                              (AdApiPayload lat lon (userAgent (nav w)) (hours w)) False]"
    "init_position_pending (requestAd lat lon w) = init_position_pending w"
  using assms by (simp_all add: requestAd_wf)

lemma settled_other:
  assumes "map_of (pending w) i = Some k" and "k \<noteq> InitPortal_position"
  shows "length (filter (\<lambda>(i, k). k = InitPortal_position) (remove1 (i, k) (pending w))) =
           init_position_pending w"
  using assms by (simp add: init_position_pending_def filter_remove1_other)

lemma settled_init:
  assumes "map_of (pending w) i = Some InitPortal_position"
  shows "length (filter (\<lambda>(i, k). k = InitPortal_position)
                   (remove1 (i, InitPortal_position) (pending w))) =
           init_position_pending w - 1"
  using map_of_SomeD [OF assms]
  by (simp add: init_position_pending_def length_filter_remove1)

lemma settle_position_initial_ad:
  assumes wf: "wf_page w" and k: "map_of (pending w) i = Some InitPortal_position"
  shows "ad_requests (settle_position i r w) =
           ad_requests w @
             [Fetch (next_id w) ''/api/v1/ad-recommend/''
                (case r of
                   Inl pos \<Rightarrow> AdApiPayload (Some (coords_latitude pos)) (Some (coords_longitude pos))
                                (userAgent (nav w)) (hours w)
                 | Inr err \<Rightarrow> AdApiPayload None None (userAgent (nav w)) (hours w)) False]"
    "init_position_pending (settle_position i r w) = init_position_pending w - 1"
  using wf settled_init [OF k]
  by (auto simp: settle_position_def take_pending_Some [OF k] initPortal_success_wf
      initPortal_error_wf requestAd_initial_ad split: sum.splits)

lemma settle_position_other:
  assumes "map_of (pending w) i \<noteq> Some InitPortal_position"
  shows "ad_requests (settle_position i r w) = ad_requests w"
    "init_position_pending (settle_position i r w) = init_position_pending w"
proof -
  show "ad_requests (settle_position i r w) = ad_requests w"
    using assms
    by (auto simp: settle_position_def take_pending_def tryGetGeo_success_def tryGetGeo_error_def
        Let_def split: option.splits cont.splits sum.splits)
  show "init_position_pending (settle_position i r w) = init_position_pending w"
  proof (cases "map_of (pending w) i")
    case None
    then show ?thesis by (simp add: settle_position_def take_pending_def)
  next
    case (Some k)
    then show ?thesis
      using assms settled_other [OF Some]
      by (auto simp: settle_position_def take_pending_Some [OF Some] tryGetGeo_success_def
          tryGetGeo_error_def Let_def split: cont.splits sum.splits)
  qed
qed

lemma settle_fetch_initial_ad:
  "ad_requests (settle_fetch i s w) = ad_requests w"
  "init_position_pending (settle_fetch i s w) = init_position_pending w"
proof -
  show "ad_requests (settle_fetch i s w) = ad_requests w"
    by (simp add: settle_fetch_def take_pending_def split: option.splits cont.splits)
  show "init_position_pending (settle_fetch i s w) = init_position_pending w"
  proof (cases "map_of (pending w) i")
    case None
    then show ?thesis by (simp add: settle_fetch_def take_pending_def)
  next
    case (Some k)
    then show ?thesis
      using settled_other [OF Some]
      by (cases k) (simp_all add: settle_fetch_def take_pending_Some [OF Some])
  qed
qed

lemma settle_json_initial_ad:
  "ad_requests (settle_json i s w) = ad_requests w"
  "init_position_pending (settle_json i s w) = init_position_pending w"
proof -
  show "ad_requests (settle_json i s w) = ad_requests w"
    by (simp add: settle_json_def take_pending_def split: option.splits cont.splits)
  show "init_position_pending (settle_json i s w) = init_position_pending w"
  proof (cases "map_of (pending w) i")
    case None
    then show ?thesis by (simp add: settle_json_def take_pending_def)
  next
    case (Some k)
    then show ?thesis
      using settled_other [OF Some]
      by (cases k) (simp_all add: settle_json_def take_pending_Some [OF Some])
  qed
qed

lemma handle_other_initial_ad:
  assumes "heartbeat_wired w"
    and "\<forall>i pos. ev = GeoSuccess i pos \<longrightarrow> map_of (pending w) i \<noteq> Some InitPortal_position"
    and "\<forall>i code message. ev = GeoError i code message \<longrightarrow>
           map_of (pending w) i \<noteq> Some InitPortal_position"
  shows "ad_requests (handle ev w) = ad_requests w \<and>
         init_position_pending (handle ev w) = init_position_pending w"
proof (cases ev)
  case Click
  then show ?thesis
    using assms(1)
    by (simp add: handle_def dispatch_click run_listener_def
        split: option.splits source_file.splits)
next
  case (IntervalFired t)
  then show ?thesis
    by (simp add: handle_def split: option.splits prod.splits callback.splits)
next
  case BeforeUnload
  then show ?thesis
    using assms(1) by (simp add: handle_def dispatch_beforeunload)
next
  case (VisibilityChange v)
  then show ?thesis
    using assms(1) by (simp add: handle_def dispatch_visibilitychange)
qed (use assms(2,3) in \<open>simp_all add: handle_def settle_position_other settle_fetch_initial_ad
       settle_json_initial_ad\<close>)

lemma script_loaded_initial_ad [simp]:
  "ad_requests (script_loaded f n h els) = []"
  "init_position_pending (script_loaded f n h els) = 0"
  by (simp_all add: ad_requests_def init_position_pending_def)

lemma page_load_initial_ad:
  assumes "wf_page (script_loaded f n h els)"
  shows "ad_requests (page_load f n h els) =
           (if \<not> geolocation_in_navigator n
            then [Fetch 0 ''/api/v1/ad-recommend/'' (AdApiPayload None None (userAgent n) h) False]
            else [])"
    "init_position_pending (page_load f n h els) =
           (if geolocation_in_navigator n \<and> geolocation n then 1 else 0)"
  using assms
  by (simp_all add: page_load_wf run_listener_init_wf requestAd_initial_ad)

lemma step_initial_ad:
  assumes wf: "wf_page w" and k: "map_of (pending w) i = Some InitPortal_position"
  shows "ad_requests (step (GeoError i code message) w) =
           ad_requests w @ [Fetch (next_id w) ''/api/v1/ad-recommend/''
                              (AdApiPayload None None (userAgent (nav w)) (hours w)) False]"
    "ad_requests (step (GeoSuccess i pos) w) =
           ad_requests w @ [Fetch (next_id w) ''/api/v1/ad-recommend/''
                              (AdApiPayload (Some (coords_latitude pos)) (Some (coords_longitude pos))
                                 (userAgent (nav w)) (hours w)) False]"
    "init_position_pending (step (GeoError i code message) w) = init_position_pending w - 1"
    "init_position_pending (step (GeoSuccess i pos) w) = init_position_pending w - 1"
  by (simp_all add: step_def handle_def settle_position_initial_ad [OF wf k])

lemma init_position_pending_pos:
  "map_of (pending w) i = Some InitPortal_position \<Longrightarrow> 0 < init_position_pending w"
  by (auto simp: init_position_pending_def filter_empty_conv dest: map_of_SomeD)

lemma step_initial_ad_once:
  assumes wf: "wf_page w" and hw: "heartbeat_wired w"
    and one: "length (ad_requests w) + init_position_pending w = 1"
  shows "length (ad_requests (step ev w)) + init_position_pending (step ev w) = 1"
proof (cases "\<exists>i. map_of (pending w) i = Some InitPortal_position \<and>
                 ((\<exists>pos. ev = GeoSuccess i pos) \<or> (\<exists>code message. ev = GeoError i code message))")
  case True
  then obtain i where k: "map_of (pending w) i = Some InitPortal_position"
    and ev: "(\<exists>pos. ev = GeoSuccess i pos) \<or> (\<exists>code message. ev = GeoError i code message)"
    by blast
  have "init_position_pending w = 1 \<and> length (ad_requests w) = 0"
    using init_position_pending_pos [OF k] one by arith
  then have "init_position_pending w = 1" "ad_requests w = []"
    by simp_all
  then show ?thesis
    using ev step_initial_ad [OF wf k] by auto
next
  case False
  then have "ad_requests (handle ev w) = ad_requests w \<and>
             init_position_pending (handle ev w) = init_position_pending w"
    by (intro handle_other_initial_ad [OF hw]) auto
  then show ?thesis
    using one by (simp add: step_def)
qed

lemma run_initial_ad_once:
  "wf_page w \<Longrightarrow> heartbeat_wired w \<Longrightarrow>
   length (ad_requests w) + init_position_pending w = 1 \<Longrightarrow>
   length (ad_requests (run w evs)) + init_position_pending (run w evs) = 1"
proof (induction evs arbitrary: w)
  case Nil
  then show ?case by (simp add: run_def)
next
  case (Cons ev evs)
  have "length (ad_requests (run (step ev w) evs)) +
          init_position_pending (run (step ev w) evs) = 1"
    using Cons.prems by (intro Cons.IH) (simp_all add: step_wired step_initial_ad_once)
  then show ?case by (simp add: run_def)
qed

subsection \<open>The heartbeat on the wire\<close>

lemma sent_requests: "sent ev w = filter (heartbeat_sent ev) (requests w)"
  by (simp add: sent_def heartbeat_sent_requests)

lemma postVisitPing_cases:
  "lastGeo w = Some g \<Longrightarrow> postVisitPing ev w = postVisitPing_send ev (Some g) w"
  "lastGeo w = None \<Longrightarrow> geolocation (nav w) \<Longrightarrow>
   postVisitPing ev w =
     getCurrentPosition (TryGetGeo_position (PostVisitPing_await ev))
       \<lparr>enableHighAccuracy = True, timeout = 5000, maximumAge = 300000\<rparr> w"
  "lastGeo w = None \<Longrightarrow> \<not> geolocation (nav w) \<Longrightarrow>
   postVisitPing ev w = w\<lparr>microtasks := microtasks w @ [(PostVisitPing_await ev, Fulfilled None)]\<rparr>"
  by (simp_all add: postVisitPing_def tryGetGeo_def tryGetGeo_unavailable_def)

lemma postVisitPing_send_sent:
  "sent ev' (postVisitPing_send ev geo w) =
     sent ev' w @
       (if ev' = ev
        then [if ev = Leave \<and> sendBeacon (nav w)
              then SendBeacon ''/api/v1/portal/ping/''
                     (PingPayload (map_option latitude geo) (map_option longitude geo)
                        (map_option accuracy_m geo) ev) ''application/json''
              else Fetch (next_id w) ''/api/v1/portal/ping/''
                     (PingPayload (map_option latitude geo) (map_option longitude geo)
                        (map_option accuracy_m geo) ev) True]
        else [])"
  by (auto simp: sent_requests postVisitPing_send_effects heartbeat_sent_def)

lemma postVisitPing_send_next_id:
  "next_id (postVisitPing_send ev geo w) =
     (if ev = Leave \<and> sendBeacon (nav w) then next_id w else Suc (next_id w))"
  by (simp add: postVisitPing_send_def Let_def)

lemma sent_updates [simp]:
  "sent ev (w\<lparr>microtasks := m\<rparr>) = sent ev w"
  "sent ev (w\<lparr>pending := ps\<rparr>) = sent ev w"
  "sent ev (w\<lparr>lastGeo := g\<rparr>) = sent ev w"
  "sent ev (w\<lparr>visibilityState := vs\<rparr>) = sent ev w"
  "sent ev (getCurrentPosition k opts w) = sent ev w"
  by (simp_all add: sent_requests)

lemma startVisitPingLoop_first:
  assumes "visitPingTimer w = None"
  shows "sent ev (startVisitPingLoop w) = sent ev (postVisitPing Ping w)"
    "next_id (startVisitPingLoop w) = next_id (postVisitPing Ping w)"
    "lastGeo (startVisitPingLoop w) = lastGeo w"
    "nav (startVisitPingLoop w) = nav w"
  using assms
  by (simp_all add: sent_requests startVisitPingLoop_started)
    (simp add: startVisitPingLoop_def setInterval_eq Let_def)

text \<open>A settled position request resumes the \<open>postVisitPing\<close> that waited for it.\<close>

lemma step_settle_heartbeat:
  assumes "map_of (pending w) i = Some (TryGetGeo_position (PostVisitPing_await ev))"
    and "microtasks w = []"
  shows "step (GeoError i code message) w =
           postVisitPing_send ev None
             (w\<lparr>pending := remove1 (i, TryGetGeo_position (PostVisitPing_await ev)) (pending w)\<rparr>)"
    "step (GeoSuccess i pos) w =
           postVisitPing_send ev
             (Some \<lparr>latitude = coords_latitude pos, longitude = coords_longitude pos,
                    accuracy_m = Math_round (coords_accuracy pos)\<rparr>)
             (w\<lparr>pending := remove1 (i, TryGetGeo_position (PostVisitPing_await ev)) (pending w),
                lastGeo := Some \<lparr>latitude = coords_latitude pos, longitude = coords_longitude pos,
                                  accuracy_m = Math_round (coords_accuracy pos)\<rparr>\<rparr>)"
  using assms
  by (simp_all add: step_def handle_def settle_position_def take_pending_Some
      tryGetGeo_error_def tryGetGeo_success_def Let_def resume_geo_waiter_def drain_idle)

lemma sent_settle_heartbeat:
  assumes "map_of (pending w) i = Some (TryGetGeo_position (PostVisitPing_await ev))"
    and "microtasks w = []"
  shows "sent ev' (step (GeoError i code message) w) =
           sent ev' w @
             (if ev' = ev
              then [if ev = Leave \<and> sendBeacon (nav w)
                    then SendBeacon ''/api/v1/portal/ping/'' (PingPayload None None None ev)
                           ''application/json''
                    else Fetch (next_id w) ''/api/v1/portal/ping/''
                           (PingPayload None None None ev) True]
              else [])"
    "sent ev' (step (GeoSuccess i pos) w) =
           sent ev' w @
             (if ev' = ev
              then [if ev = Leave \<and> sendBeacon (nav w)
                    then SendBeacon ''/api/v1/portal/ping/''
                           (PingPayload (Some (coords_latitude pos)) (Some (coords_longitude pos))
                              (Some (Math_round (coords_accuracy pos))) ev) ''application/json''
                    else Fetch (next_id w) ''/api/v1/portal/ping/''
                           (PingPayload (Some (coords_latitude pos)) (Some (coords_longitude pos))
                              (Some (Math_round (coords_accuracy pos))) ev) True]
              else [])"
  by (simp_all add: step_settle_heartbeat [OF assms] postVisitPing_send_sent)

subsection \<open>An accepted join, event by event\<close>

text \<open>The events of an accepted join on a device with geolocation and no cached fix.\<close>

lemma step_click_waits:
  assumes wf: "wf_page w" and hw: "heartbeat_wired w" and m: "microtasks w = []"
    and b: "btn_disabled w = Some False" and l: "loaded w = Portal_js"
    and g: "lastGeo w = None" "geolocation (nav w)"
  shows "step Click w =
           getCurrentPosition (TryGetGeo_position AcceptPortal_await)
             \<lparr>enableHighAccuracy = True, timeout = 5000, maximumAge = 300000\<rparr>
             (set_textContent ''accept-status'' msg_accept_submitting
               (set_disabled ''accept-btn'' True w))"
proof -
  note p = wf_pageD [OF wf]
  have "step Click w = drain (run_listener OnAcceptClick w)"
    using b hw by (auto simp: step_def handle_def btn_disabled_def dispatch_click drain_idle)
  also have "run_listener OnAcceptClick w =
           getCurrentPosition (TryGetGeo_position AcceptPortal_await)
             \<lparr>enableHighAccuracy = True, timeout = 5000, maximumAge = 300000\<rparr>
             (set_textContent ''accept-status'' msg_accept_submitting
               (set_disabled ''accept-btn'' True w))"
    using p l g by (simp add: run_listener_def acceptPortal_wf tryGetGeo_def)
  finally show ?thesis
    using m by (simp add: drain_idle)
qed

lemma step_settle_accept:
  assumes "map_of (pending w) i = Some (TryGetGeo_position AcceptPortal_await)"
    and "microtasks w = []"
  shows "step (GeoError i code message) w =
           fetch ''/api/v1/portal/accept/'' (AcceptPayload None None None) False AcceptPortal_fetch
             (w\<lparr>pending := remove1 (i, TryGetGeo_position AcceptPortal_await) (pending w)\<rparr>)"
  using assms
  by (simp add: step_def handle_def settle_position_def take_pending_Some
      tryGetGeo_error_def resume_geo_waiter_def acceptPortal_submit_def drain_idle)

lemma step_accept_answered:
  assumes "map_of (pending w) i = Some AcceptPortal_fetch" and "ok res"
    and "microtasks w = []"
  shows "step (FetchFulfilled i res) w =
           read_json AcceptPortal_json
             (w\<lparr>pending := remove1 (i, AcceptPortal_fetch) (pending w)\<rparr>)"
  using assms
  by (simp add: step_def handle_def settle_fetch_def take_pending_Some
      acceptPortal_fetched_def drain_idle)

lemma step_accept_joined:
  assumes k: "map_of (pending w) i = Some AcceptPortal_json"
    and ok: "get_prop data ''ok'' = Inr data_ok" "truthy data_ok"
    and m: "microtasks w = []" and t: "visitPingTimer w = None"
    and g: "lastGeo w = None" "geolocation (nav w)"
  shows "pending (step (JsonFulfilled i data) w) =
           remove1 (i, AcceptPortal_json) (pending w) @
             [(next_id w, TryGetGeo_position (PostVisitPing_await Ping))]"
    "requests (step (JsonFulfilled i data) w) = requests w"
    "visitPingTimer (step (JsonFulfilled i data) w) = Some (next_timer w)"
    "intervals (step (JsonFulfilled i data) w) = intervals w @ [(next_timer w, 60000, PingTick)]"
    "lastGeo (step (JsonFulfilled i data) w) = None"
    "next_id (step (JsonFulfilled i data) w) = Suc (next_id w)"
proof -
  let ?w = "w\<lparr>pending := remove1 (i, AcceptPortal_json) (pending w)\<rparr>"
  note pk = acceptPortal_parsed_ok [OF ok, of ?w]
  have t': "visitPingTimer ?w = None" and g': "lastGeo ?w = None" "geolocation (nav ?w)"
    using t g by simp_all
  have pv: "postVisitPing Ping ?w =
     getCurrentPosition (TryGetGeo_position (PostVisitPing_await Ping))
       \<lparr>enableHighAccuracy = True, timeout = 5000, maximumAge = 300000\<rparr> ?w"
    by (rule postVisitPing_cases(2) [OF g'])
  have mt: "microtasks (acceptPortal_parsed (Fulfilled data) ?w) = []"
    using m by (simp add: pk startVisitPingLoop_started [OF t'] pv)
  have st: "step (JsonFulfilled i data) w = acceptPortal_parsed (Fulfilled data) ?w"
    using mt by (simp add: step_def handle_def settle_json_def take_pending_Some [OF k] drain_idle)
  show "pending (step (JsonFulfilled i data) w) =
           remove1 (i, AcceptPortal_json) (pending w) @
             [(next_id w, TryGetGeo_position (PostVisitPing_await Ping))]"
    "requests (step (JsonFulfilled i data) w) = requests w"
    "visitPingTimer (step (JsonFulfilled i data) w) = Some (next_timer w)"
    "intervals (step (JsonFulfilled i data) w) = intervals w @ [(next_timer w, 60000, PingTick)]"
    "lastGeo (step (JsonFulfilled i data) w) = None"
    using g by (simp_all add: st pk startVisitPingLoop_started [OF t'] pv)
  have "next_id (acceptPortal_parsed (Fulfilled data) ?w) = next_id (startVisitPingLoop ?w)"
    using ok by (simp add: acceptPortal_parsed_def Let_def status_eqs split: sum.splits)
  then show "next_id (step (JsonFulfilled i data) w) = Suc (next_id w)"
    by (simp add: st startVisitPingLoop_first(2) [OF t'] pv)
qed

lemma step_hidden_waits:
  assumes hw: "heartbeat_wired w" and m: "microtasks w = []" and t: "visitPingTimer w \<noteq> None"
    and g: "lastGeo w = None" "geolocation (nav w)"
  shows "step (VisibilityChange ''hidden'') w =
           getCurrentPosition (TryGetGeo_position (PostVisitPing_await Leave))
             \<lparr>enableHighAccuracy = True, timeout = 5000, maximumAge = 300000\<rparr>
             (w\<lparr>visibilityState := ''hidden''\<rparr>)"
    "step BeforeUnload w =
           getCurrentPosition (TryGetGeo_position (PostVisitPing_await Leave))
             \<lparr>enableHighAccuracy = True, timeout = 5000, maximumAge = 300000\<rparr> w"
proof -
  have v: "step (VisibilityChange ''hidden'') w =
             drain (drain (postVisitPing Leave (w\<lparr>visibilityState := ''hidden''\<rparr>)))"
    using hw t by (auto simp: step_def handle_def dispatch_visibilitychange)
  have b: "step BeforeUnload w = drain (drain (postVisitPing Leave w))"
    using hw t by (auto simp: step_def handle_def dispatch_beforeunload)
  show "step (VisibilityChange ''hidden'') w =
           getCurrentPosition (TryGetGeo_position (PostVisitPing_await Leave))
             \<lparr>enableHighAccuracy = True, timeout = 5000, maximumAge = 300000\<rparr>
             (w\<lparr>visibilityState := ''hidden''\<rparr>)"
    using m g by (simp add: v postVisitPing_cases(2) drain_idle)
  show "step BeforeUnload w =
           getCurrentPosition (TryGetGeo_position (PostVisitPing_await Leave))
             \<lparr>enableHighAccuracy = True, timeout = 5000, maximumAge = 300000\<rparr> w"
    using m g by (simp add: b postVisitPing_cases(2) drain_idle)
qed

lemma page_load_next_id:
  assumes "wf_page (script_loaded f n h els)"
  shows "next_id (page_load f n h els) =
           (if geolocation_in_navigator n \<and> \<not> geolocation n then 0 else 1)"
  using assms by (simp add: page_load_wf run_listener_init_wf requestAd_wf)

subsection \<open>A join on a device that refuses its position\<close>

text \<open>
  The page of a device with geolocation whose user refuses the position: the click, the
  refusal, the answer 200 and the body \<open>{ok: true, venue: null}\<close>. The position request of
  \<open>initPortal\<close> (number 0) is still open.
\<close>

lemma phone_fields [simp]:
  "geolocation_in_navigator phone" "geolocation phone" "sendBeacon phone"
  "userAgent phone = ''Mozilla/5.0''"
  by (simp_all add: phone_def)

lemma portal_page_btn [simp]: "btn_disabled (script_loaded f n h portal_page) = Some False"
  by (simp add: btn_disabled_def portal_page_def blank_element_def)

lemma phone_loaded:
  "wf_page (page_load Portal_js phone 9 portal_page)"
  "heartbeat_wired (page_load Portal_js phone 9 portal_page)"
  "pending (page_load Portal_js phone 9 portal_page) = [(0, InitPortal_position)]"
  "next_id (page_load Portal_js phone 9 portal_page) = 1"
  "requests (page_load Portal_js phone 9 portal_page) = []"
  "lastGeo (page_load Portal_js phone 9 portal_page) = None"
  "visitPingTimer (page_load Portal_js phone 9 portal_page) = None"
  "next_timer (page_load Portal_js phone 9 portal_page) = 1"
  "intervals (page_load Portal_js phone 9 portal_page) = []"
  "btn_disabled (page_load Portal_js phone 9 portal_page) = Some False"
  by (simp_all add: page_load_wired page_load_effects page_load_next_id page_load_fresh)

lemma phone_accepting:
  "run (page_load Portal_js phone 9 portal_page)
     [Click, GeoError 1 1 ''User denied Geolocation'', FetchFulfilled 2 http_ok] =
   read_json AcceptPortal_json
     (fetch ''/api/v1/portal/accept/'' (AcceptPayload None None None) False AcceptPortal_fetch
        (getCurrentPosition (TryGetGeo_position AcceptPortal_await)
           \<lparr>enableHighAccuracy = True, timeout = 5000, maximumAge = 300000\<rparr>
           (set_textContent ''accept-status'' msg_accept_submitting
              (set_disabled ''accept-btn'' True (page_load Portal_js phone 9 portal_page)))
         \<lparr>pending := [(0, InitPortal_position)]\<rparr>)
      \<lparr>pending := [(0, InitPortal_position)]\<rparr>)"
proof -
  let ?P = "page_load Portal_js phone 9 portal_page"
  let ?w1 = "getCurrentPosition (TryGetGeo_position AcceptPortal_await)
           \<lparr>enableHighAccuracy = True, timeout = 5000, maximumAge = 300000\<rparr>
           (set_textContent ''accept-status'' msg_accept_submitting
              (set_disabled ''accept-btn'' True ?P))"
  let ?w2 = "fetch ''/api/v1/portal/accept/'' (AcceptPayload None None None) False
           AcceptPortal_fetch (?w1\<lparr>pending := [(0, InitPortal_position)]\<rparr>)"
  have 1: "step Click ?P = ?w1"
    by (rule step_click_waits) (simp_all add: phone_loaded)
  have 2: "step (GeoError 1 1 ''User denied Geolocation'') ?w1 = ?w2"
    using step_settle_accept [of ?w1 1 1 "''User denied Geolocation''"]
    by (simp add: phone_loaded)
  have 3: "step (FetchFulfilled 2 http_ok) ?w2 =
             read_json AcceptPortal_json (?w2\<lparr>pending := [(0, InitPortal_position)]\<rparr>)"
    using step_accept_answered [of ?w2 2 http_ok]
    by (simp add: phone_loaded http_ok_def ok_def)
  show ?thesis
    by (simp only: run_def foldl_Cons foldl_Nil 1 2 3)
qed

lemma phone_accepting_fields:
  "pending (run (page_load Portal_js phone 9 portal_page)
     [Click, GeoError 1 1 ''User denied Geolocation'', FetchFulfilled 2 http_ok]) =
     [(0, InitPortal_position), (3, AcceptPortal_json)]"
  "next_id (run (page_load Portal_js phone 9 portal_page)
     [Click, GeoError 1 1 ''User denied Geolocation'', FetchFulfilled 2 http_ok]) = 4"
  "requests (run (page_load Portal_js phone 9 portal_page)
     [Click, GeoError 1 1 ''User denied Geolocation'', FetchFulfilled 2 http_ok]) =
     [Fetch 2 ''/api/v1/portal/accept/'' (AcceptPayload None None None) False]"
  "lastGeo (run (page_load Portal_js phone 9 portal_page)
     [Click, GeoError 1 1 ''User denied Geolocation'', FetchFulfilled 2 http_ok]) = None"
  "visitPingTimer (run (page_load Portal_js phone 9 portal_page)
     [Click, GeoError 1 1 ''User denied Geolocation'', FetchFulfilled 2 http_ok]) = None"
  "next_timer (run (page_load Portal_js phone 9 portal_page)
     [Click, GeoError 1 1 ''User denied Geolocation'', FetchFulfilled 2 http_ok]) = 1"
  "intervals (run (page_load Portal_js phone 9 portal_page)
     [Click, GeoError 1 1 ''User denied Geolocation'', FetchFulfilled 2 http_ok]) = []"
  unfolding phone_accepting by (simp_all add: phone_loaded)

lemma phone_joined:
  "pending (run (page_load Portal_js phone 9 portal_page)
     [Click, GeoError 1 1 ''User denied Geolocation'', FetchFulfilled 2 http_ok,
      JsonFulfilled 3 no_venue]) =
     [(0, InitPortal_position), (4, TryGetGeo_position (PostVisitPing_await Ping))]"
  "requests (run (page_load Portal_js phone 9 portal_page)
     [Click, GeoError 1 1 ''User denied Geolocation'', FetchFulfilled 2 http_ok,
      JsonFulfilled 3 no_venue]) =
     [Fetch 2 ''/api/v1/portal/accept/'' (AcceptPayload None None None) False]"
  "visitPingTimer (run (page_load Portal_js phone 9 portal_page)
     [Click, GeoError 1 1 ''User denied Geolocation'', FetchFulfilled 2 http_ok,
      JsonFulfilled 3 no_venue]) = Some 1"
  "intervals (run (page_load Portal_js phone 9 portal_page)
     [Click, GeoError 1 1 ''User denied Geolocation'', FetchFulfilled 2 http_ok,
      JsonFulfilled 3 no_venue]) = [(1, 60000, PingTick)]"
  "lastGeo (run (page_load Portal_js phone 9 portal_page)
     [Click, GeoError 1 1 ''User denied Geolocation'', FetchFulfilled 2 http_ok,
      JsonFulfilled 3 no_venue]) = None"
  "next_id (run (page_load Portal_js phone 9 portal_page)
     [Click, GeoError 1 1 ''User denied Geolocation'', FetchFulfilled 2 http_ok,
      JsonFulfilled 3 no_venue]) = 5"
proof -
  let ?w3 = "run (page_load Portal_js phone 9 portal_page)
     [Click, GeoError 1 1 ''User denied Geolocation'', FetchFulfilled 2 http_ok]"
  let ?w4 = "run (page_load Portal_js phone 9 portal_page)
     [Click, GeoError 1 1 ''User denied Geolocation'', FetchFulfilled 2 http_ok,
      JsonFulfilled 3 no_venue]"
  have s: "?w4 = step (JsonFulfilled 3 no_venue) ?w3"
    by (simp add: run_def)
  have k: "map_of (pending ?w3) 3 = Some AcceptPortal_json"
    using phone_accepting_fields(1) by simp
  have ok: "get_prop no_venue ''ok'' = Inr (Some (JBool True))" "truthy (Some (JBool True))"
    by (simp_all add: no_venue_def get_prop_def truthy_def)
  have g: "geolocation (nav ?w3)"
    by simp
  note j = step_accept_joined [OF k ok run_microtasks phone_accepting_fields(5)
      phone_accepting_fields(4) g]
  show "pending ?w4 = [(0, InitPortal_position), (4, TryGetGeo_position (PostVisitPing_await Ping))]"
    "requests ?w4 = [Fetch 2 ''/api/v1/portal/accept/'' (AcceptPayload None None None) False]"
    "visitPingTimer ?w4 = Some 1"
    "intervals ?w4 = [(1, 60000, PingTick)]"
    "lastGeo ?w4 = None"
    "next_id ?w4 = 5"
    unfolding s using phone_accepting_fields j by simp_all
qed

subsection \<open>The first ping of startVisitPingLoop on the wire\<close>

lemma startVisitPingLoop_sent_cached:
  assumes "visitPingTimer w = None" and "lastGeo w = Some g"
  shows "sent Ping (startVisitPingLoop w) =
           sent Ping w @
             [Fetch (next_id w) ''/api/v1/portal/ping/''
                (PingPayload (Some (latitude g)) (Some (longitude g)) (Some (accuracy_m g)) Ping)
                True]"
  using assms
  by (simp add: startVisitPingLoop_first postVisitPing_cases(1) postVisitPing_send_sent)

lemma startVisitPingLoop_sent_unavailable:
  assumes t: "visitPingTimer w = None" and g: "lastGeo w = None" "\<not> geolocation (nav w)"
    and m: "microtasks w = []"
  shows "sent Ping (drain (startVisitPingLoop w)) =
           sent Ping w @
             [Fetch (next_id w) ''/api/v1/portal/ping/'' (PingPayload None None None Ping) True]"
proof -
  let ?w = "startVisitPingLoop w"
  have mt: "microtasks ?w = [(PostVisitPing_await Ping, Fulfilled None)]"
    using m by (simp add: startVisitPingLoop_started [OF t] postVisitPing_cases(3) [OF g])
  have d: "drain ?w = postVisitPing_send Ping None (?w\<lparr>microtasks := []\<rparr>)"
    by (simp add: drain_def mt resume_geo_waiter_def)
  show ?thesis
    by (simp add: d postVisitPing_send_sent startVisitPingLoop_first [OF t]
        postVisitPing_cases(3) [OF g])
qed

lemma startVisitPingLoop_sent_waiting:
  assumes t: "visitPingTimer w = None" and g: "lastGeo w = None" "geolocation (nav w)"
    and m: "microtasks w = []" and fresh: "map_of (pending w) (next_id w) = None"
  shows "drain (startVisitPingLoop w) = startVisitPingLoop w"
    "sent Ping (startVisitPingLoop w) = sent Ping w"
    "map_of (pending (startVisitPingLoop w)) (next_id w) =
       Some (TryGetGeo_position (PostVisitPing_await Ping))"
    "sent Ping (step (GeoError (next_id w) code message) (startVisitPingLoop w)) =
       sent Ping w @
         [Fetch (Suc (next_id w)) ''/api/v1/portal/ping/'' (PingPayload None None None Ping) True]"
    "sent Ping (step (GeoSuccess (next_id w) pos) (startVisitPingLoop w)) =
       sent Ping w @
         [Fetch (Suc (next_id w)) ''/api/v1/portal/ping/''
            (PingPayload (Some (coords_latitude pos)) (Some (coords_longitude pos))
               (Some (Math_round (coords_accuracy pos))) Ping) True]"
proof -
  let ?w = "startVisitPingLoop w"
  note pv = postVisitPing_cases(2) [OF g]
  have mt: "microtasks ?w = []"
    using m by (simp add: startVisitPingLoop_started [OF t] pv)
  show "drain ?w = ?w"
    by (rule drain_idle [OF mt])
  show s: "sent Ping ?w = sent Ping w"
    by (simp add: startVisitPingLoop_first [OF t] pv)
  show k: "map_of (pending ?w) (next_id w) = Some (TryGetGeo_position (PostVisitPing_await Ping))"
    using fresh by (simp add: startVisitPingLoop_started [OF t] pv map_add_def)
  have n: "next_id ?w = Suc (next_id w)"
    by (simp add: startVisitPingLoop_first [OF t] pv)
  show "sent Ping (step (GeoError (next_id w) code message) ?w) =
       sent Ping w @
         [Fetch (Suc (next_id w)) ''/api/v1/portal/ping/'' (PingPayload None None None Ping) True]"
    by (simp add: sent_settle_heartbeat [OF k mt] s n)
  show "sent Ping (step (GeoSuccess (next_id w) pos) ?w) =
       sent Ping w @
         [Fetch (Suc (next_id w)) ''/api/v1/portal/ping/''
            (PingPayload (Some (coords_latitude pos)) (Some (coords_longitude pos))
               (Some (Math_round (coords_accuracy pos))) Ping) True]"
    by (simp add: sent_settle_heartbeat [OF k mt] s n)
qed

subsection \<open>A page hide on the wire\<close>

lemma hide_sent:
  assumes "heartbeat_wired w" and "microtasks w = []" and "visitPingTimer w \<noteq> None"
    and "lastGeo w \<noteq> None \<or> \<not> geolocation (nav w)"
  shows "length (filter (heartbeat_sent Leave) (requests (step (VisibilityChange ''hidden'') w))) =
           length (filter (heartbeat_sent Leave) (requests w)) + 1"
    "length (filter (heartbeat_sent Leave) (requests (step BeforeUnload w))) =
           length (filter (heartbeat_sent Leave) (requests w)) + 1"
proof -
  have w: "heartbeat_waiting Leave (drain (drain (postVisitPing Leave w'))) =
             heartbeat_waiting Leave w'"
    if "microtasks w' = []" "lastGeo w' \<noteq> None \<or> \<not> geolocation (nav w')" for w'
    using that
    by (auto simp: drain_waiting heartbeat_waiting_def postVisitPing_effects
        postVisitPing_send_effects tryGetGeo_effects foldl_resume_heartbeats drain_def
        split: option.splits)
  have v: "step (VisibilityChange ''hidden'') w =
             drain (drain (postVisitPing Leave (w\<lparr>visibilityState := ''hidden''\<rparr>)))"
    using assms(1,3) by (auto simp: step_def handle_def dispatch_visibilitychange)
  have b: "step BeforeUnload w = drain (drain (postVisitPing Leave w))"
    using assms(1,3) by (auto simp: step_def handle_def dispatch_beforeunload)
  have "heartbeat_waiting Leave (step (VisibilityChange ''hidden'') w) = heartbeat_waiting Leave w"
    using w [of "w\<lparr>visibilityState := ''hidden''\<rparr>"] assms(2,4) by (simp add: v)
  then show "length (filter (heartbeat_sent Leave)
                 (requests (step (VisibilityChange ''hidden'') w))) =
           length (filter (heartbeat_sent Leave) (requests w)) + 1"
    using hide_heartbeats(1) [OF assms(1), of Leave] assms(3)
    by (simp add: heartbeats_eq)
  have "heartbeat_waiting Leave (step BeforeUnload w) = heartbeat_waiting Leave w"
    using w [of w] assms(2,4) by (simp add: b)
  then show "length (filter (heartbeat_sent Leave) (requests (step BeforeUnload w))) =
           length (filter (heartbeat_sent Leave) (requests w)) + 1"
    using hide_heartbeats(2) [OF assms(1), of Leave] assms(3)
    by (simp add: heartbeats_eq)
qed

lemma hide_waits:
  assumes hw: "heartbeat_wired w" and m: "microtasks w = []" and t: "visitPingTimer w \<noteq> None"
    and g: "lastGeo w = None" "geolocation (nav w)"
  shows "sent ev (step (VisibilityChange ''hidden'') w) = sent ev w"
    "pending (step (VisibilityChange ''hidden'') w) =
       pending w @ [(next_id w, TryGetGeo_position (PostVisitPing_await Leave))]"
    "sent ev (step BeforeUnload w) = sent ev w"
    "pending (step BeforeUnload w) =
       pending w @ [(next_id w, TryGetGeo_position (PostVisitPing_await Leave))]"
  by (simp_all add: step_hidden_waits [OF hw m t g])

subsection \<open>No ad request without a position request\<close>

lemma run_no_initial_ad:
  "heartbeat_wired w \<Longrightarrow> init_position_pending w = 0 \<Longrightarrow>
   ad_requests (run w evs) = ad_requests w \<and> init_position_pending (run w evs) = 0"
proof (induction evs arbitrary: w)
  case Nil
  then show ?case by (simp add: run_def)
next
  case (Cons ev evs)
  have "map_of (pending w) i \<noteq> Some InitPortal_position" for i
    using init_position_pending_pos [of w i] Cons.prems(2) by auto
  then have h: "ad_requests (handle ev w) = ad_requests w \<and>
             init_position_pending (handle ev w) = init_position_pending w"
    by (intro handle_other_initial_ad [OF Cons.prems(1)]) auto
  have hw: "heartbeat_wired (step ev w)"
    by (rule step_wired [OF Cons.prems(1)])
  have z: "init_position_pending (step ev w) = 0"
    using h Cons.prems(2) by (simp add: step_def)
  have "ad_requests (run (step ev w) evs) = ad_requests (step ev w) \<and>
             init_position_pending (run (step ev w) evs) = 0"
    by (rule Cons.IH [OF hw z])
  then show ?case
    using h by (simp add: run_def step_def)
qed

section \<open>startVisitPingLoop: one timer, one first ping\<close>

text \<open>
  Claim C2. \<open>startVisitPingLoop\<close> is idempotent: any number of calls is one call, and
  a call with the sentinel set changes nothing. From a state with the sentinel
  \<open>null\<close> the calls leave the handle in the sentinel, add exactly one interval timer
  of 60000 ms and call \<open>postVisitPing("ping")\<close> exactly once. The ping of that call is on
  the wire when the function returns if a fix is cached, with the cached fix; it is on the
  wire at the next microtask checkpoint if \<open>navigator.geolocation\<close> is missing, with
  \<open>null\<close>s. Otherwise \<open>postVisitPing\<close> waits for the position it asked for: no ping
  is on the wire, and the one ping leaves when the browser answers that request, with
  \<open>null\<close>s after an error and with the fix after a position. On a page with all its
  elements, whatever the browser does after loading, the page never has more than one
  interval timer, and the timer and the leave listeners are there exactly when the sentinel
  is set.
\<close>

theorem startVisitPingLoop_idempotent:
  "(startVisitPingLoop ^^ Suc n) w = startVisitPingLoop w \<and>
   (visitPingTimer w \<noteq> None \<longrightarrow> startVisitPingLoop w = w) \<and>
   visitPingTimer (startVisitPingLoop w) \<noteq> None \<and>
   (visitPingTimer w = None \<longrightarrow>
      visitPingTimer ((startVisitPingLoop ^^ Suc n) w) = Some (next_timer w) \<and>
      intervals ((startVisitPingLoop ^^ Suc n) w) = intervals w @ [(next_timer w, 60000, PingTick)] \<and>
      heartbeats Ping ((startVisitPingLoop ^^ Suc n) w) = heartbeats Ping w + 1 \<and>
      heartbeats Leave ((startVisitPingLoop ^^ Suc n) w) = heartbeats Leave w) \<and>
   (visitPingTimer w = None \<and> lastGeo w = Some g \<longrightarrow>
      sent Ping ((startVisitPingLoop ^^ Suc n) w) =
        sent Ping w @
          [Fetch (next_id w) ''/api/v1/portal/ping/''
             (PingPayload (Some (latitude g)) (Some (longitude g)) (Some (accuracy_m g)) Ping)
             True]) \<and>
   (visitPingTimer w = None \<and> lastGeo w = None \<and> \<not> geolocation (nav w) \<and>
    microtasks w = [] \<longrightarrow>
      sent Ping (drain ((startVisitPingLoop ^^ Suc n) w)) =
        sent Ping w @
          [Fetch (next_id w) ''/api/v1/portal/ping/'' (PingPayload None None None Ping) True]) \<and>
   (visitPingTimer w = None \<and> lastGeo w = None \<and> geolocation (nav w) \<and>
    microtasks w = [] \<and> map_of (pending w) (next_id w) = None \<longrightarrow>
      sent Ping (drain ((startVisitPingLoop ^^ Suc n) w)) = sent Ping w \<and>
      map_of (pending (drain ((startVisitPingLoop ^^ Suc n) w))) (next_id w) =
        Some (TryGetGeo_position (PostVisitPing_await Ping)) \<and>
      sent Ping (step (GeoError (next_id w) code message)
                   (drain ((startVisitPingLoop ^^ Suc n) w))) =
        sent Ping w @
          [Fetch (Suc (next_id w)) ''/api/v1/portal/ping/''
             (PingPayload None None None Ping) True] \<and>
      sent Ping (step (GeoSuccess (next_id w) pos)
                   (drain ((startVisitPingLoop ^^ Suc n) w))) =
        sent Ping w @
          [Fetch (Suc (next_id w)) ''/api/v1/portal/ping/''
             (PingPayload (Some (coords_latitude pos)) (Some (coords_longitude pos))
                (Some (Math_round (coords_accuracy pos))) Ping) True]) \<and>
   (wf_page (script_loaded f nv h els) \<longrightarrow>
      heartbeat_wired (run (page_load f nv h els) evs) \<and>
      length (intervals (run (page_load f nv h els) evs)) \<le> 1)"
proof -
  have wired: "heartbeat_wired (run (page_load f nv h els) evs)"
    if "wf_page (script_loaded f nv h els)"
    using that by (simp add: run_wired page_load_wired)
  then have one: "length (intervals (run (page_load f nv h els) evs)) \<le> 1"
    if "wf_page (script_loaded f nv h els)"
    using that by (auto simp: heartbeat_wired_def split: option.splits)
  have calls: "(startVisitPingLoop ^^ Suc n) w = startVisitPingLoop w"
    by (rule startVisitPingLoop_funpow)
  have start: "visitPingTimer w = None \<longrightarrow>
      visitPingTimer (startVisitPingLoop w) = Some (next_timer w) \<and>
      intervals (startVisitPingLoop w) = intervals w @ [(next_timer w, 60000, PingTick)] \<and>
      heartbeats Ping (startVisitPingLoop w) = heartbeats Ping w + 1 \<and>
      heartbeats Leave (startVisitPingLoop w) = heartbeats Leave w"
    by (simp add: startVisitPingLoop_started startVisitPingLoop_heartbeats)
  have waiting: "sent Ping (drain (startVisitPingLoop w)) = sent Ping w \<and>
      map_of (pending (drain (startVisitPingLoop w))) (next_id w) =
        Some (TryGetGeo_position (PostVisitPing_await Ping)) \<and>
      sent Ping (step (GeoError (next_id w) code message) (drain (startVisitPingLoop w))) =
        sent Ping w @
          [Fetch (Suc (next_id w)) ''/api/v1/portal/ping/''
             (PingPayload None None None Ping) True] \<and>
      sent Ping (step (GeoSuccess (next_id w) pos) (drain (startVisitPingLoop w))) =
        sent Ping w @
          [Fetch (Suc (next_id w)) ''/api/v1/portal/ping/''
             (PingPayload (Some (coords_latitude pos)) (Some (coords_longitude pos))
                (Some (Math_round (coords_accuracy pos))) Ping) True]"
    if "visitPingTimer w = None" "lastGeo w = None" "geolocation (nav w)" "microtasks w = []"
      "map_of (pending w) (next_id w) = None"
    using startVisitPingLoop_sent_waiting [OF that] by simp
  show ?thesis
    unfolding calls
    using wired one start waiting startVisitPingLoop_sent_cached [of w g]
      startVisitPingLoop_sent_unavailable [of w]
    by (simp add: startVisitPingLoop_running startVisitPingLoop_timer)
qed

text \<open>
  The theorem on the page of a device without geolocation, where two calls after loading
  leave one timer, with handle 1, and one ping on the wire after the microtask checkpoint;
  and on the page of a device that has geolocation and no fix, with the accept body awaited,
  where the two calls leave no ping on the wire and the ping leaves when the position request
  (number 4) times out. A session with two clicks has at most one timer.
\<close>

theorem startVisitPingLoop_idempotent_witness:
  "visitPingTimer (page_load Portal_js kiosk 9 portal_page) = None \<and>
   wf_page (script_loaded Portal_js kiosk 9 portal_page) \<and>
   (startVisitPingLoop ^^ 2) (page_load Portal_js kiosk 9 portal_page) =
     startVisitPingLoop (page_load Portal_js kiosk 9 portal_page) \<and>
   intervals ((startVisitPingLoop ^^ 2) (page_load Portal_js kiosk 9 portal_page)) =
     [(1, 60000, PingTick)] \<and>
   heartbeats Ping ((startVisitPingLoop ^^ 2) (page_load Portal_js kiosk 9 portal_page)) =
     heartbeats Ping (page_load Portal_js kiosk 9 portal_page) + 1 \<and>
   sent Ping (drain ((startVisitPingLoop ^^ 2) (page_load Portal_js kiosk 9 portal_page))) =
     [Fetch 1 ''/api/v1/portal/ping/'' (PingPayload None None None Ping) True] \<and>
   length (intervals (run (page_load Portal_js kiosk 9 portal_page)
                        [Click, FetchFulfilled 1 http_ok, JsonFulfilled 2 cafe_venue, Click])) \<le> 1 \<and>
   sent Ping (drain ((startVisitPingLoop ^^ 2)
     (run (page_load Portal_js phone 9 portal_page)
        [Click, GeoError 1 1 ''User denied Geolocation'', FetchFulfilled 2 http_ok]))) = [] \<and>
   sent Ping (step (GeoError 4 3 ''Timeout expired'')
     (drain ((startVisitPingLoop ^^ 2)
       (run (page_load Portal_js phone 9 portal_page)
          [Click, GeoError 1 1 ''User denied Geolocation'', FetchFulfilled 2 http_ok])))) =
     [Fetch 5 ''/api/v1/portal/ping/'' (PingPayload None None None Ping) True]"
proof -
  let ?K = "page_load Portal_js kiosk 9 portal_page"
  let ?W = "run (page_load Portal_js phone 9 portal_page)
        [Click, GeoError 1 1 ''User denied Geolocation'', FetchFulfilled 2 http_ok]"
  have two: "Suc 1 = 2"
    by simp
  have k: "visitPingTimer ?K = None" "lastGeo ?K = None" "\<not> geolocation (nav ?K)"
    "microtasks ?K = []" "next_id ?K = 1" "sent Ping ?K = []" "intervals ?K = []"
    "next_timer ?K = 1"
    by (simp_all add: page_load_fresh page_load_next_id sent_requests page_load_effects kiosk_def)
  have w: "visitPingTimer ?W = None" "lastGeo ?W = None" "geolocation (nav ?W)"
    "microtasks ?W = []" "next_id ?W = 4" "sent Ping ?W = []"
    "map_of (pending ?W) (next_id ?W) = None"
    using phone_accepting_fields by (simp_all add: sent_requests)
  note K = startVisitPingLoop_idempotent
    [where n = 1 and w = ?K and f = Portal_js and nv = kiosk and h = 9 and els = portal_page
       and evs = "[Click, FetchFulfilled 1 http_ok, JsonFulfilled 2 cafe_venue, Click]",
     unfolded two]
  note W = startVisitPingLoop_idempotent
    [where n = 1 and w = ?W and code = 3 and message = "''Timeout expired''", unfolded two]
  have 1: "(startVisitPingLoop ^^ 2) ?K = startVisitPingLoop ?K"
    by (rule K [THEN conjunct1])
  have 2: "intervals ((startVisitPingLoop ^^ 2) ?K) = [(1, 60000, PingTick)]"
    "heartbeats Ping ((startVisitPingLoop ^^ 2) ?K) = heartbeats Ping ?K + 1"
    using K [THEN conjunct2, THEN conjunct2, THEN conjunct2, THEN conjunct1] k by simp_all
  have 3: "sent Ping (drain ((startVisitPingLoop ^^ 2) ?K)) =
     [Fetch 1 ''/api/v1/portal/ping/'' (PingPayload None None None Ping) True]"
    using K [THEN conjunct2, THEN conjunct2, THEN conjunct2, THEN conjunct2, THEN conjunct2,
        THEN conjunct1] k by simp
  have 4: "length (intervals (run ?K
             [Click, FetchFulfilled 1 http_ok, JsonFulfilled 2 cafe_venue, Click])) \<le> 1"
    using K [THEN conjunct2, THEN conjunct2, THEN conjunct2, THEN conjunct2, THEN conjunct2,
        THEN conjunct2, THEN conjunct2] by simp
  have 5: "sent Ping (drain ((startVisitPingLoop ^^ 2) ?W)) = []"
    "sent Ping (step (GeoError 4 3 ''Timeout expired'') (drain ((startVisitPingLoop ^^ 2) ?W))) =
     [Fetch 5 ''/api/v1/portal/ping/'' (PingPayload None None None Ping) True]"
    using W [THEN conjunct2, THEN conjunct2, THEN conjunct2, THEN conjunct2, THEN conjunct2,
        THEN conjunct2, THEN conjunct1] w by simp_all
  show ?thesis
    by (intro conjI k(1) wf_portal_page 1 2 3 4 5)
qed

text \<open>
  On the page of a device that has geolocation and whose user refuses the position, after
  the click, the refusal and the answer 200: two calls of \<open>startVisitPingLoop\<close> leave the
  timer armed and no ping on the wire. The same after the body \<open>{ok: true, venue: null}\<close>
  has been handled: the timer is armed, no ping has left, and the call of \<open>postVisitPing\<close>
  waits for the position request number 4.
\<close>

theorem startVisitPingLoop_ping_deferred_counterexample:
  "visitPingTimer (run (page_load Portal_js phone 9 portal_page)
     [Click, GeoError 1 1 ''User denied Geolocation'', FetchFulfilled 2 http_ok]) = None \<and>
   intervals (drain ((startVisitPingLoop ^^ 2)
     (run (page_load Portal_js phone 9 portal_page)
        [Click, GeoError 1 1 ''User denied Geolocation'', FetchFulfilled 2 http_ok]))) =
     [(1, 60000, PingTick)] \<and>
   sent Ping (drain ((startVisitPingLoop ^^ 2)
     (run (page_load Portal_js phone 9 portal_page)
        [Click, GeoError 1 1 ''User denied Geolocation'', FetchFulfilled 2 http_ok]))) = [] \<and>
   visitPingTimer (run (page_load Portal_js phone 9 portal_page)
     [Click, GeoError 1 1 ''User denied Geolocation'', FetchFulfilled 2 http_ok,
      JsonFulfilled 3 no_venue]) = Some 1 \<and>
   intervals (run (page_load Portal_js phone 9 portal_page)
     [Click, GeoError 1 1 ''User denied Geolocation'', FetchFulfilled 2 http_ok,
      JsonFulfilled 3 no_venue]) = [(1, 60000, PingTick)] \<and>
   sent Ping (run (page_load Portal_js phone 9 portal_page)
     [Click, GeoError 1 1 ''User denied Geolocation'', FetchFulfilled 2 http_ok,
      JsonFulfilled 3 no_venue]) = [] \<and>
   pending (run (page_load Portal_js phone 9 portal_page)
     [Click, GeoError 1 1 ''User denied Geolocation'', FetchFulfilled 2 http_ok,
      JsonFulfilled 3 no_venue]) =
     [(0, InitPortal_position), (4, TryGetGeo_position (PostVisitPing_await Ping))]"
proof -
  let ?W = "run (page_load Portal_js phone 9 portal_page)
        [Click, GeoError 1 1 ''User denied Geolocation'', FetchFulfilled 2 http_ok]"
  have w: "visitPingTimer ?W = None" "lastGeo ?W = None" "geolocation (nav ?W)"
    "microtasks ?W = []" "map_of (pending ?W) (next_id ?W) = None" "sent Ping ?W = []"
    "intervals ?W = []" "next_timer ?W = 1"
    using phone_accepting_fields by (simp_all add: sent_requests)
  have c: "(startVisitPingLoop ^^ 2) ?W = startVisitPingLoop ?W"
    using startVisitPingLoop_funpow [of 1 ?W] by (simp add: numeral_2_eq_2 del: funpow.simps)
  note s = startVisitPingLoop_sent_waiting [OF w(1-5)]
  have 1: "intervals (drain ((startVisitPingLoop ^^ 2) ?W)) = [(1, 60000, PingTick)]"
    "sent Ping (drain ((startVisitPingLoop ^^ 2) ?W)) = []"
    unfolding c using w s(1,2) by (simp_all add: startVisitPingLoop_started)
  have 2: "sent Ping (run (page_load Portal_js phone 9 portal_page)
     [Click, GeoError 1 1 ''User denied Geolocation'', FetchFulfilled 2 http_ok,
      JsonFulfilled 3 no_venue]) = []"
    using phone_joined(2) by (simp add: sent_requests)
  show ?thesis
    by (intro conjI w(1) 1 2 phone_joined(1,3,4))
qed

lemma phone_hidden:
  "sent Leave (run (page_load Portal_js phone 9 portal_page)
     [Click, GeoError 1 1 ''User denied Geolocation'', FetchFulfilled 2 http_ok,
      JsonFulfilled 3 no_venue]) = []"
  "sent Leave (run (page_load Portal_js phone 9 portal_page)
     [Click, GeoError 1 1 ''User denied Geolocation'', FetchFulfilled 2 http_ok,
      JsonFulfilled 3 no_venue, VisibilityChange ''hidden'']) = []"
  "pending (run (page_load Portal_js phone 9 portal_page)
     [Click, GeoError 1 1 ''User denied Geolocation'', FetchFulfilled 2 http_ok,
      JsonFulfilled 3 no_venue, VisibilityChange ''hidden'']) =
     [(0, InitPortal_position), (4, TryGetGeo_position (PostVisitPing_await Ping)),
      (5, TryGetGeo_position (PostVisitPing_await Leave))]"
  "next_id (run (page_load Portal_js phone 9 portal_page)
     [Click, GeoError 1 1 ''User denied Geolocation'', FetchFulfilled 2 http_ok,
      JsonFulfilled 3 no_venue, VisibilityChange ''hidden'']) = 6"
  "sent Leave (run (page_load Portal_js phone 9 portal_page)
     [Click, GeoError 1 1 ''User denied Geolocation'', FetchFulfilled 2 http_ok,
      JsonFulfilled 3 no_venue, BeforeUnload]) = []"
  "pending (run (page_load Portal_js phone 9 portal_page)
     [Click, GeoError 1 1 ''User denied Geolocation'', FetchFulfilled 2 http_ok,
      JsonFulfilled 3 no_venue, BeforeUnload]) =
     [(0, InitPortal_position), (4, TryGetGeo_position (PostVisitPing_await Ping)),
      (5, TryGetGeo_position (PostVisitPing_await Leave))]"
proof -
  let ?w = "run (page_load Portal_js phone 9 portal_page)
     [Click, GeoError 1 1 ''User denied Geolocation'', FetchFulfilled 2 http_ok,
      JsonFulfilled 3 no_venue]"
  have v: "run (page_load Portal_js phone 9 portal_page)
     [Click, GeoError 1 1 ''User denied Geolocation'', FetchFulfilled 2 http_ok,
      JsonFulfilled 3 no_venue, VisibilityChange ''hidden''] = step (VisibilityChange ''hidden'') ?w"
    and b: "run (page_load Portal_js phone 9 portal_page)
     [Click, GeoError 1 1 ''User denied Geolocation'', FetchFulfilled 2 http_ok,
      JsonFulfilled 3 no_venue, BeforeUnload] = step BeforeUnload ?w"
    by (simp_all add: run_def)
  have hw: "heartbeat_wired ?w"
    by (simp add: run_wired page_load_wired)
  have t: "visitPingTimer ?w \<noteq> None"
    using phone_joined(3) by simp
  have g: "geolocation (nav ?w)"
    by simp
  note h = step_hidden_waits [OF hw run_microtasks t phone_joined(5) g]
  show 0: "sent Leave ?w = []"
    using phone_joined(2) by (simp add: sent_requests)
  show "sent Leave (run (page_load Portal_js phone 9 portal_page)
     [Click, GeoError 1 1 ''User denied Geolocation'', FetchFulfilled 2 http_ok,
      JsonFulfilled 3 no_venue, VisibilityChange ''hidden'']) = []"
    "pending (run (page_load Portal_js phone 9 portal_page)
     [Click, GeoError 1 1 ''User denied Geolocation'', FetchFulfilled 2 http_ok,
      JsonFulfilled 3 no_venue, VisibilityChange ''hidden'']) =
     [(0, InitPortal_position), (4, TryGetGeo_position (PostVisitPing_await Ping)),
      (5, TryGetGeo_position (PostVisitPing_await Leave))]"
    "next_id (run (page_load Portal_js phone 9 portal_page)
     [Click, GeoError 1 1 ''User denied Geolocation'', FetchFulfilled 2 http_ok,
      JsonFulfilled 3 no_venue, VisibilityChange ''hidden'']) = 6"
    unfolding v using h(1) 0 phone_joined(1,6) by simp_all
  show "sent Leave (run (page_load Portal_js phone 9 portal_page)
     [Click, GeoError 1 1 ''User denied Geolocation'', FetchFulfilled 2 http_ok,
      JsonFulfilled 3 no_venue, BeforeUnload]) = []"
    "pending (run (page_load Portal_js phone 9 portal_page)
     [Click, GeoError 1 1 ''User denied Geolocation'', FetchFulfilled 2 http_ok,
      JsonFulfilled 3 no_venue, BeforeUnload]) =
     [(0, InitPortal_position), (4, TryGetGeo_position (PostVisitPing_await Ping)),
      (5, TryGetGeo_position (PostVisitPing_await Leave))]"
    unfolding b using h(2) 0 phone_joined(1,6) by simp_all
qed

section \<open>postVisitPing: the transport\<close>

text \<open>
  Claim C5. \<open>postVisitPing\<close> with the position known sends exactly one request: a
  \<open>"leave"\<close> goes by \<open>sendBeacon\<close> when \<open>navigator.sendBeacon\<close> is there, and then no
  \<open>fetch\<close> is issued; a \<open>"ping"\<close>, or a \<open>"leave"\<close> without the capability, goes by
  \<open>fetch\<close> with \<open>keepalive\<close>. Both carry the same payload. With a cached fix the
  position is known at once; otherwise the same send runs when \<open>tryGetGeo\<close> has
  answered: a settled position request puts exactly one heartbeat of the waiting kind on the
  wire, by the same choice of transport. On a page with all its elements, whatever happened
  before, a \<open>visibilitychange\<close> to \<open>hidden\<close> and a \<open>beforeunload\<close> each call
  \<open>postVisitPing("leave")\<close> exactly once, and no \<open>"ping"\<close>, once the heartbeat has
  started, and not at all before. The \<open>"leave"\<close> is on the wire by the end of the event
  when a fix is cached or geolocation is missing. On a device with geolocation and no cached
  fix the event sends nothing: it leaves a position request pending, and the \<open>"leave"\<close>
  goes out when the browser answers that request.
\<close>

theorem postVisitPing_transport:
  "requests (postVisitPing_send ev geo w) =
     requests w @
       [if ev = Leave \<and> sendBeacon (nav w)
        then SendBeacon ''/api/v1/portal/ping/''
               (PingPayload (map_option latitude geo) (map_option longitude geo)
                  (map_option accuracy_m geo) ev) ''application/json''
        else Fetch (next_id w) ''/api/v1/portal/ping/''
               (PingPayload (map_option latitude geo) (map_option longitude geo)
                  (map_option accuracy_m geo) ev) True] \<and>
   pending (postVisitPing_send ev geo w) =
     pending w @ (if ev = Leave \<and> sendBeacon (nav w) then [] else [(next_id w, PostVisitPing_fetch)]) \<and>
   (lastGeo w = Some g \<longrightarrow> postVisitPing ev w = postVisitPing_send ev (Some g) w) \<and>
   (lastGeo w = None \<longrightarrow> postVisitPing ev w = tryGetGeo (PostVisitPing_await ev) w) \<and>
   resume_geo_waiter (PostVisitPing_await ev) (Fulfilled geo) w = postVisitPing_send ev geo w \<and>
   (map_of (pending w) i = Some (TryGetGeo_position (PostVisitPing_await ev)) \<and>
    microtasks w = [] \<longrightarrow>
      sent ev (step (GeoError i code message) w) =
        sent ev w @
          [if ev = Leave \<and> sendBeacon (nav w)
           then SendBeacon ''/api/v1/portal/ping/'' (PingPayload None None None ev)
                  ''application/json''
           else Fetch (next_id w) ''/api/v1/portal/ping/'' (PingPayload None None None ev) True] \<and>
      sent ev (step (GeoSuccess i pos) w) =
        sent ev w @
          [if ev = Leave \<and> sendBeacon (nav w)
           then SendBeacon ''/api/v1/portal/ping/''
                  (PingPayload (Some (coords_latitude pos)) (Some (coords_longitude pos))
                     (Some (Math_round (coords_accuracy pos))) ev) ''application/json''
           else Fetch (next_id w) ''/api/v1/portal/ping/''
                  (PingPayload (Some (coords_latitude pos)) (Some (coords_longitude pos))
                     (Some (Math_round (coords_accuracy pos))) ev) True]) \<and>
   (wf_page (script_loaded f nv h els) \<longrightarrow>
      heartbeats Leave (step (VisibilityChange ''hidden'') (run (page_load f nv h els) evs)) =
        heartbeats Leave (run (page_load f nv h els) evs) +
        (if visitPingTimer (run (page_load f nv h els) evs) \<noteq> None then 1 else 0) \<and>
      heartbeats Leave (step BeforeUnload (run (page_load f nv h els) evs)) =
        heartbeats Leave (run (page_load f nv h els) evs) +
        (if visitPingTimer (run (page_load f nv h els) evs) \<noteq> None then 1 else 0) \<and>
      heartbeats Ping (step (VisibilityChange ''hidden'') (run (page_load f nv h els) evs)) =
        heartbeats Ping (run (page_load f nv h els) evs) \<and>
      heartbeats Ping (step BeforeUnload (run (page_load f nv h els) evs)) =
        heartbeats Ping (run (page_load f nv h els) evs) \<and>
      (visitPingTimer (run (page_load f nv h els) evs) \<noteq> None \<and>
       (lastGeo (run (page_load f nv h els) evs) \<noteq> None \<or> \<not> geolocation nv) \<longrightarrow>
         length (filter (heartbeat_sent Leave)
           (requests (step (VisibilityChange ''hidden'') (run (page_load f nv h els) evs)))) =
         length (filter (heartbeat_sent Leave) (requests (run (page_load f nv h els) evs))) + 1 \<and>
         length (filter (heartbeat_sent Leave)
           (requests (step BeforeUnload (run (page_load f nv h els) evs)))) =
         length (filter (heartbeat_sent Leave) (requests (run (page_load f nv h els) evs))) + 1) \<and>
      (visitPingTimer (run (page_load f nv h els) evs) \<noteq> None \<and>
       lastGeo (run (page_load f nv h els) evs) = None \<and> geolocation nv \<longrightarrow>
         sent Leave (step (VisibilityChange ''hidden'') (run (page_load f nv h els) evs)) =
           sent Leave (run (page_load f nv h els) evs) \<and>
         pending (step (VisibilityChange ''hidden'') (run (page_load f nv h els) evs)) =
           pending (run (page_load f nv h els) evs) @
             [(next_id (run (page_load f nv h els) evs),
               TryGetGeo_position (PostVisitPing_await Leave))] \<and>
         sent Leave (step BeforeUnload (run (page_load f nv h els) evs)) =
           sent Leave (run (page_load f nv h els) evs) \<and>
         pending (step BeforeUnload (run (page_load f nv h els) evs)) =
           pending (run (page_load f nv h els) evs) @
             [(next_id (run (page_load f nv h els) evs),
               TryGetGeo_position (PostVisitPing_await Leave))]))"
proof -
  have session: "heartbeat_wired (run (page_load f nv h els) evs)"
    if "wf_page (script_loaded f nv h els)"
    using that by (simp add: run_wired page_load_wired)
  have settle: "sent ev (step (GeoError i code message) w) =
        sent ev w @
          [if ev = Leave \<and> sendBeacon (nav w)
           then SendBeacon ''/api/v1/portal/ping/'' (PingPayload None None None ev)
                  ''application/json''
           else Fetch (next_id w) ''/api/v1/portal/ping/'' (PingPayload None None None ev) True] \<and>
      sent ev (step (GeoSuccess i pos) w) =
        sent ev w @
          [if ev = Leave \<and> sendBeacon (nav w)
           then SendBeacon ''/api/v1/portal/ping/''
                  (PingPayload (Some (coords_latitude pos)) (Some (coords_longitude pos))
                     (Some (Math_round (coords_accuracy pos))) ev) ''application/json''
           else Fetch (next_id w) ''/api/v1/portal/ping/''
                  (PingPayload (Some (coords_latitude pos)) (Some (coords_longitude pos))
                     (Some (Math_round (coords_accuracy pos))) ev) True]"
    if "map_of (pending w) i = Some (TryGetGeo_position (PostVisitPing_await ev))"
      "microtasks w = []"
    using sent_settle_heartbeat [OF that, of ev] by simp
  have waits: "sent Leave (step (VisibilityChange ''hidden'') (run (page_load f nv h els) evs)) =
           sent Leave (run (page_load f nv h els) evs) \<and>
         pending (step (VisibilityChange ''hidden'') (run (page_load f nv h els) evs)) =
           pending (run (page_load f nv h els) evs) @
             [(next_id (run (page_load f nv h els) evs),
               TryGetGeo_position (PostVisitPing_await Leave))] \<and>
         sent Leave (step BeforeUnload (run (page_load f nv h els) evs)) =
           sent Leave (run (page_load f nv h els) evs) \<and>
         pending (step BeforeUnload (run (page_load f nv h els) evs)) =
           pending (run (page_load f nv h els) evs) @
             [(next_id (run (page_load f nv h els) evs),
               TryGetGeo_position (PostVisitPing_await Leave))]"
    if "wf_page (script_loaded f nv h els)"
      "visitPingTimer (run (page_load f nv h els) evs) \<noteq> None"
      "lastGeo (run (page_load f nv h els) evs) = None" "geolocation nv"
    using hide_waits [OF session [OF that(1)] run_microtasks that(2,3)] that(4) by simp
  show ?thesis
    using hide_heartbeats [OF session] hide_sent [OF session] settle waits
    by (simp add: postVisitPing_send_effects postVisitPing_def resume_geo_waiter_def)
qed

text \<open>
  The theorem on the page of a device without geolocation and without \<open>sendBeacon\<close>,
  after an accepted join: hiding the page puts exactly one \<open>"leave"\<close> on the wire.
  With a cached fix \<open>postVisitPing\<close> is the send itself. And on the page of a device
  that has geolocation, \<open>sendBeacon\<close> and no fix, after an accepted join: hiding the page
  sends nothing and leaves the position request number 5 pending; when that request times
  out the \<open>"leave"\<close> goes out as a beacon.
\<close>

theorem postVisitPing_transport_witness:
  "wf_page (script_loaded Portal_js kiosk 9 portal_page) \<and>
   visitPingTimer (run (page_load Portal_js kiosk 9 portal_page)
     [Click, FetchFulfilled 1 http_ok, JsonFulfilled 2 cafe_venue]) \<noteq> None \<and>
   \<not> geolocation kiosk \<and>
   lastGeo (run (page_load Portal_js kiosk 9 portal_page)
     [Click, FetchFulfilled 1 http_ok, JsonFulfilled 2 cafe_venue]) = None \<and>
   postVisitPing Leave (run (page_load Portal_js kiosk 9 portal_page)
     [Click, FetchFulfilled 1 http_ok, JsonFulfilled 2 cafe_venue]) =
     tryGetGeo (PostVisitPing_await Leave) (run (page_load Portal_js kiosk 9 portal_page)
       [Click, FetchFulfilled 1 http_ok, JsonFulfilled 2 cafe_venue]) \<and>
   heartbeats Leave (step (VisibilityChange ''hidden'') (run (page_load Portal_js kiosk 9 portal_page)
     [Click, FetchFulfilled 1 http_ok, JsonFulfilled 2 cafe_venue])) =
     heartbeats Leave (run (page_load Portal_js kiosk 9 portal_page)
       [Click, FetchFulfilled 1 http_ok, JsonFulfilled 2 cafe_venue]) + 1 \<and>
   length (filter (heartbeat_sent Leave)
     (requests (step (VisibilityChange ''hidden'') (run (page_load Portal_js kiosk 9 portal_page)
       [Click, FetchFulfilled 1 http_ok, JsonFulfilled 2 cafe_venue])))) =
   length (filter (heartbeat_sent Leave)
     (requests (run (page_load Portal_js kiosk 9 portal_page)
       [Click, FetchFulfilled 1 http_ok, JsonFulfilled 2 cafe_venue]))) + 1 \<and>
   lastGeo (script_loaded Portal_js phone 9 portal_page
              \<lparr>lastGeo := Some \<lparr>latitude = 31, longitude = 121, accuracy_m = 12\<rparr>\<rparr>) =
     Some \<lparr>latitude = 31, longitude = 121, accuracy_m = 12\<rparr> \<and>
   postVisitPing Leave (script_loaded Portal_js phone 9 portal_page
              \<lparr>lastGeo := Some \<lparr>latitude = 31, longitude = 121, accuracy_m = 12\<rparr>\<rparr>) =
     postVisitPing_send Leave (Some \<lparr>latitude = 31, longitude = 121, accuracy_m = 12\<rparr>)
       (script_loaded Portal_js phone 9 portal_page
              \<lparr>lastGeo := Some \<lparr>latitude = 31, longitude = 121, accuracy_m = 12\<rparr>\<rparr>) \<and>
   wf_page (script_loaded Portal_js phone 9 portal_page) \<and>
   visitPingTimer (run (page_load Portal_js phone 9 portal_page)
     [Click, GeoError 1 1 ''User denied Geolocation'', FetchFulfilled 2 http_ok,
      JsonFulfilled 3 no_venue]) = Some 1 \<and>
   lastGeo (run (page_load Portal_js phone 9 portal_page)
     [Click, GeoError 1 1 ''User denied Geolocation'', FetchFulfilled 2 http_ok,
      JsonFulfilled 3 no_venue]) = None \<and>
   geolocation phone \<and>
   sent Leave (step (VisibilityChange ''hidden'') (run (page_load Portal_js phone 9 portal_page)
     [Click, GeoError 1 1 ''User denied Geolocation'', FetchFulfilled 2 http_ok,
      JsonFulfilled 3 no_venue])) = [] \<and>
   map_of (pending (run (page_load Portal_js phone 9 portal_page)
     [Click, GeoError 1 1 ''User denied Geolocation'', FetchFulfilled 2 http_ok,
      JsonFulfilled 3 no_venue, VisibilityChange ''hidden''])) 5 =
     Some (TryGetGeo_position (PostVisitPing_await Leave)) \<and>
   sent Leave (step (GeoError 5 3 ''Timeout expired'')
     (run (page_load Portal_js phone 9 portal_page)
       [Click, GeoError 1 1 ''User denied Geolocation'', FetchFulfilled 2 http_ok,
        JsonFulfilled 3 no_venue, VisibilityChange ''hidden''])) =
     [SendBeacon ''/api/v1/portal/ping/'' (PingPayload None None None Leave) ''application/json'']"
proof -
  let ?w1 = "run (page_load Portal_js kiosk 9 portal_page) [Click, FetchFulfilled 1 http_ok]"
  let ?w = "run (page_load Portal_js kiosk 9 portal_page)
     [Click, FetchFulfilled 1 http_ok, JsonFulfilled 2 cafe_venue]"
  let ?c = "script_loaded Portal_js phone 9 portal_page
              \<lparr>lastGeo := Some \<lparr>latitude = 31, longitude = 121, accuracy_m = 12\<rparr>\<rparr>"
  let ?p = "run (page_load Portal_js phone 9 portal_page)
     [Click, GeoError 1 1 ''User denied Geolocation'', FetchFulfilled 2 http_ok,
      JsonFulfilled 3 no_venue]"
  let ?h = "run (page_load Portal_js phone 9 portal_page)
     [Click, GeoError 1 1 ''User denied Geolocation'', FetchFulfilled 2 http_ok,
      JsonFulfilled 3 no_venue, VisibilityChange ''hidden'']"
  have s: "?w = step (JsonFulfilled 2 cafe_venue) ?w1"
    by (simp add: run_def)
  have p: "present ?w1 ''accept-status''"
    using wf_portal_page [of Portal_js kiosk 9] by (simp add: wf_page_def)
  have t: "visitPingTimer ?w \<noteq> None"
    unfolding s
    using accept_json_ok [OF p _ run_kiosk_accepting, of cafe_venue]
    by (simp add: cafe_venue_def get_prop_def)
  have g: "\<not> geolocation kiosk" by (simp add: kiosk_def)
  have l: "lastGeo ?w = None"
    by (simp add: run_def step_def handle_lastGeo settle_position_lastGeo page_load_fresh
        split: option.splits)
  have c: "lastGeo ?c = Some \<lparr>latitude = 31, longitude = 121, accuracy_m = 12\<rparr>"
    by simp
  note T = postVisitPing_transport
      [where ev = Leave and w = ?w and f = Portal_js and nv = kiosk and h = 9
         and els = portal_page
         and evs = "[Click, FetchFulfilled 1 http_ok, JsonFulfilled 2 cafe_venue]"]
  note T7 = T [THEN conjunct2, THEN conjunct2, THEN conjunct2, THEN conjunct2, THEN conjunct2,
      THEN conjunct2, THEN mp, OF wf_portal_page]
  have pre: "visitPingTimer ?w \<noteq> None \<and> (lastGeo ?w \<noteq> None \<or> \<not> geolocation kiosk)"
    using t g by blast
  have hb: "heartbeats Leave (step (VisibilityChange ''hidden'') ?w) = heartbeats Leave ?w + 1"
    using T7 [THEN conjunct1] t by simp
  note sent = T7 [THEN conjunct2, THEN conjunct2, THEN conjunct2, THEN conjunct2, THEN conjunct1,
      THEN mp, OF pre, THEN conjunct1]
  note lg = T [THEN conjunct2, THEN conjunct2, THEN conjunct2, THEN conjunct1, THEN mp, OF l]
  note cc = postVisitPing_transport
      [where ev = Leave and w = ?c
         and g = "\<lparr>latitude = 31, longitude = 121, accuracy_m = 12\<rparr>",
       THEN conjunct2, THEN conjunct2, THEN conjunct1, THEN mp, OF c]
  have hv: "?h = step (VisibilityChange ''hidden'') ?p"
    by (simp add: run_def)
  have pre2: "visitPingTimer ?p \<noteq> None \<and> lastGeo ?p = None \<and> geolocation phone"
    using phone_joined(3,5) by simp
  note P = postVisitPing_transport
      [where f = Portal_js and nv = phone and h = 9 and els = portal_page
         and evs = "[Click, GeoError 1 1 ''User denied Geolocation'', FetchFulfilled 2 http_ok,
                     JsonFulfilled 3 no_venue]",
       THEN conjunct2, THEN conjunct2, THEN conjunct2, THEN conjunct2, THEN conjunct2,
       THEN conjunct2, THEN mp, OF wf_portal_page,
       THEN conjunct2, THEN conjunct2, THEN conjunct2, THEN conjunct2, THEN conjunct2,
       THEN mp, OF pre2]
  have w1: "sent Leave (step (VisibilityChange ''hidden'') ?p) = []"
    using P [THEN conjunct1] phone_hidden(1) by simp
  have w2: "map_of (pending ?h) 5 = Some (TryGetGeo_position (PostVisitPing_await Leave))"
    unfolding hv using P [THEN conjunct2, THEN conjunct1] phone_joined(1,6) by simp
  have m: "microtasks ?h = []"
    by (rule run_microtasks)
  have w3: "sent Leave (step (GeoError 5 3 ''Timeout expired'') ?h) =
     [SendBeacon ''/api/v1/portal/ping/'' (PingPayload None None None Leave) ''application/json'']"
    using postVisitPing_transport
      [where ev = Leave and w = ?h and i = 5 and code = 3 and message = "''Timeout expired''",
       THEN conjunct2, THEN conjunct2, THEN conjunct2, THEN conjunct2, THEN conjunct2,
       THEN conjunct1, THEN mp, OF conjI, OF w2 m, THEN conjunct1]
      phone_hidden(2)
    by simp
  show ?thesis
    by (intro conjI wf_portal_page t g l lg hb sent c cc phone_joined(3,5) phone_fields(2)
        w1 w2 w3)
qed

text \<open>
  On the page of a device that has geolocation and whose user refuses the position, after
  an accepted join the heartbeat runs. The page is hidden: no \<open>"leave"\<close> is on the wire
  at the end of the event, by either transport; \<open>postVisitPing\<close> has asked for the
  position (request number 5) and waits. The same for \<open>beforeunload\<close>.
\<close>

theorem page_hide_leave_deferred_counterexample:
  "visitPingTimer (run (page_load Portal_js phone 9 portal_page)
     [Click, GeoError 1 1 ''User denied Geolocation'', FetchFulfilled 2 http_ok,
      JsonFulfilled 3 no_venue]) = Some 1 \<and>
   sent Leave (run (page_load Portal_js phone 9 portal_page)
     [Click, GeoError 1 1 ''User denied Geolocation'', FetchFulfilled 2 http_ok,
      JsonFulfilled 3 no_venue]) = [] \<and>
   sent Leave (run (page_load Portal_js phone 9 portal_page)
     [Click, GeoError 1 1 ''User denied Geolocation'', FetchFulfilled 2 http_ok,
      JsonFulfilled 3 no_venue, VisibilityChange ''hidden'']) = [] \<and>
   pending (run (page_load Portal_js phone 9 portal_page)
     [Click, GeoError 1 1 ''User denied Geolocation'', FetchFulfilled 2 http_ok,
      JsonFulfilled 3 no_venue, VisibilityChange ''hidden'']) =
     [(0, InitPortal_position), (4, TryGetGeo_position (PostVisitPing_await Ping)),
      (5, TryGetGeo_position (PostVisitPing_await Leave))] \<and>
   sent Leave (run (page_load Portal_js phone 9 portal_page)
     [Click, GeoError 1 1 ''User denied Geolocation'', FetchFulfilled 2 http_ok,
      JsonFulfilled 3 no_venue, BeforeUnload]) = [] \<and>
   pending (run (page_load Portal_js phone 9 portal_page)
     [Click, GeoError 1 1 ''User denied Geolocation'', FetchFulfilled 2 http_ok,
      JsonFulfilled 3 no_venue, BeforeUnload]) =
     [(0, InitPortal_position), (4, TryGetGeo_position (PostVisitPing_await Ping)),
      (5, TryGetGeo_position (PostVisitPing_await Leave))]"
  by (intro conjI phone_joined(3) phone_hidden)

section \<open>initPortal: the initial ad request\<close>

subsection \<open>On a navigator whose geolocation is an object\<close>

text \<open>
  Take a page that has its elements, in a browser where \<open>navigator.geolocation\<close> is an
  object whenever \<open>"geolocation" in navigator\<close> holds, and any sequence of events after
  the load. In the state \<open>w\<close> reached, the ad requests issued and the pending position
  request of \<open>initPortal\<close> are one in all: either the position is still awaited and no ad
  request was made, or it is settled and exactly one was made. Without geolocation the
  request leaves during the load, with \<open>null\<close> coordinates. With geolocation the load
  issues no ad request: it asks for the position once, with a timeout of 5000 ms. While that
  request is pending there is no ad request; when the browser reports an error (refusal,
  position unavailable, timeout) the ad request leaves with \<open>null\<close> coordinates, and when
  it reports a position the ad request leaves with its latitude and longitude. Once the
  position is settled no event issues another ad request.
\<close>

theorem initial_ad_request_once:
  assumes "wf_page (script_loaded f nv h els)"
    and "geolocation_in_navigator nv \<longrightarrow> geolocation nv"
    and "w = run (page_load f nv h els) evs"
  shows "length (ad_requests w) + init_position_pending w = 1 \<and>
    (\<not> geolocation_in_navigator nv \<longrightarrow>
       ad_requests (page_load f nv h els) =
         [Fetch 0 ''/api/v1/ad-recommend/'' (AdApiPayload None None (userAgent nv) h) False]) \<and>
    (geolocation_in_navigator nv \<longrightarrow>
       ad_requests (page_load f nv h els) = [] \<and>
       pending (page_load f nv h els) = [(0, InitPortal_position)] \<and>
       (GetCurrentPosition j opts \<in> set (trace (page_load f nv h els)) \<longleftrightarrow>
          j = 0 \<and> opts = \<lparr>enableHighAccuracy = False, timeout = 5000, maximumAge = 0\<rparr>)) \<and>
    (map_of (pending w) i = Some InitPortal_position \<longrightarrow>
       ad_requests w = [] \<and>
       ad_requests (step (GeoError i code message) w) =
         [Fetch (next_id w) ''/api/v1/ad-recommend/''
            (AdApiPayload None None (userAgent nv) h) False] \<and>
       ad_requests (step (GeoSuccess i pos) w) =
         [Fetch (next_id w) ''/api/v1/ad-recommend/''
            (AdApiPayload (Some (coords_latitude pos)) (Some (coords_longitude pos))
               (userAgent nv) h) False]) \<and>
    (init_position_pending w = 0 \<longrightarrow>
       length (ad_requests w) = 1 \<and> ad_requests (step ev w) = ad_requests w)"
proof -
  have wf: "wf_page w"
    using assms(1,3) by simp
  have hw: "heartbeat_wired w"
    using assms(1,3) by (simp add: run_wired page_load_wired)
  have nav: "nav w = nv" "hours w = h"
    by (simp_all add: assms(3))
  have one: "length (ad_requests w) + init_position_pending w = 1"
    unfolding assms(3) using assms(1,2)
    by (intro run_initial_ad_once page_load_wired) (simp_all add: page_load_initial_ad)
  have load: "\<not> geolocation_in_navigator nv \<longrightarrow>
       ad_requests (page_load f nv h els) =
         [Fetch 0 ''/api/v1/ad-recommend/'' (AdApiPayload None None (userAgent nv) h) False]"
    "geolocation_in_navigator nv \<longrightarrow>
       ad_requests (page_load f nv h els) = [] \<and>
       pending (page_load f nv h els) = [(0, InitPortal_position)] \<and>
       (GetCurrentPosition j opts \<in> set (trace (page_load f nv h els)) \<longleftrightarrow>
          j = 0 \<and> opts = \<lparr>enableHighAccuracy = False, timeout = 5000, maximumAge = 0\<rparr>)"
    using assms(1,2)
    by (simp_all add: page_load_initial_ad page_load_effects page_load_position_request)
  have settle: "ad_requests w = [] \<and>
       ad_requests (step (GeoError i code message) w) =
         [Fetch (next_id w) ''/api/v1/ad-recommend/''
            (AdApiPayload None None (userAgent nv) h) False] \<and>
       ad_requests (step (GeoSuccess i pos) w) =
         [Fetch (next_id w) ''/api/v1/ad-recommend/''
            (AdApiPayload (Some (coords_latitude pos)) (Some (coords_longitude pos))
               (userAgent nv) h) False]"
    if k: "map_of (pending w) i = Some InitPortal_position"
  proof -
    have "init_position_pending w = 1 \<and> length (ad_requests w) = 0"
      using init_position_pending_pos [OF k] one by arith
    then have "ad_requests w = []"
      by simp
    then show ?thesis
      using step_initial_ad(1,2) [OF wf k] by (simp add: nav)
  qed
  have after: "length (ad_requests w) = 1 \<and> ad_requests (step ev w) = ad_requests w"
    if z: "init_position_pending w = 0"
  proof -
    have "map_of (pending w) i' \<noteq> Some InitPortal_position" for i'
      using init_position_pending_pos [of w i'] z by auto
    then have "ad_requests (handle ev w) = ad_requests w \<and>
               init_position_pending (handle ev w) = init_position_pending w"
      by (intro handle_other_initial_ad [OF hw]) auto
    then show ?thesis
      using one z by (simp add: step_def)
  qed
  show ?thesis
    using one load settle after by blast
qed

text \<open>
  The theorem on a device without geolocation, where the ad request leaves during the load,
  and on a device with geolocation, where it leaves when the position request times out.
\<close>

theorem initial_ad_request_once_witness:
  "wf_page (script_loaded Portal_js kiosk 9 portal_page) \<and>
   \<not> geolocation_in_navigator kiosk \<and>
   ad_requests (page_load Portal_js kiosk 9 portal_page) =
     [Fetch 0 ''/api/v1/ad-recommend/'' (AdApiPayload None None ''Mozilla/5.0'' 9) False] \<and>
   init_position_pending (page_load Portal_js kiosk 9 portal_page) = 0 \<and>
   ad_requests (step Click (page_load Portal_js kiosk 9 portal_page)) =
     ad_requests (page_load Portal_js kiosk 9 portal_page) \<and>
   wf_page (script_loaded Portal_js phone 9 portal_page) \<and>
   geolocation_in_navigator phone \<and> geolocation phone \<and>
   map_of (pending (page_load Portal_js phone 9 portal_page)) 0 = Some InitPortal_position \<and>
   ad_requests (page_load Portal_js phone 9 portal_page) = [] \<and>
   ad_requests (step (GeoError 0 3 ''Timeout expired'') (page_load Portal_js phone 9 portal_page)) =
     [Fetch (next_id (page_load Portal_js phone 9 portal_page)) ''/api/v1/ad-recommend/''
        (AdApiPayload None None ''Mozilla/5.0'' 9) False]"
proof -
  have k: "geolocation_in_navigator kiosk \<longrightarrow> geolocation kiosk" "\<not> geolocation_in_navigator kiosk"
    "userAgent kiosk = ''Mozilla/5.0''"
    by (simp_all add: kiosk_def)
  have p: "geolocation_in_navigator phone \<longrightarrow> geolocation phone" "geolocation_in_navigator phone"
    "userAgent phone = ''Mozilla/5.0''" "geolocation phone"
    by (simp_all add: phone_def)
  have r: "page_load f n h els = run (page_load f n h els) []" for f n h els
    by (simp add: run_def)
  note K = initial_ad_request_once [OF wf_portal_page [of Portal_js kiosk 9] k(1)
      r [of Portal_js kiosk 9 portal_page], where ev = Click]
  note P = initial_ad_request_once [OF wf_portal_page [of Portal_js phone 9] p(1)
      r [of Portal_js phone 9 portal_page], where i = 0 and code = 3
      and message = "''Timeout expired''"]
  have 1: "ad_requests (page_load Portal_js kiosk 9 portal_page) =
     [Fetch 0 ''/api/v1/ad-recommend/'' (AdApiPayload None None ''Mozilla/5.0'' 9) False]"
    using K [THEN conjunct2, THEN conjunct1] k by simp
  have 2: "init_position_pending (page_load Portal_js kiosk 9 portal_page) = 0"
    using K [THEN conjunct1] 1 by simp
  have 3: "ad_requests (step Click (page_load Portal_js kiosk 9 portal_page)) =
     ad_requests (page_load Portal_js kiosk 9 portal_page)"
    using K [THEN conjunct2, THEN conjunct2, THEN conjunct2, THEN conjunct2] 2 by simp
  have 4: "map_of (pending (page_load Portal_js phone 9 portal_page)) 0 = Some InitPortal_position"
    using P [THEN conjunct2, THEN conjunct2, THEN conjunct1] p by simp
  have 5: "ad_requests (page_load Portal_js phone 9 portal_page) = []"
    "ad_requests (step (GeoError 0 3 ''Timeout expired'') (page_load Portal_js phone 9 portal_page)) =
     [Fetch (next_id (page_load Portal_js phone 9 portal_page)) ''/api/v1/ad-recommend/''
        (AdApiPayload None None ''Mozilla/5.0'' 9) False]"
    using P [THEN conjunct2, THEN conjunct2, THEN conjunct2, THEN conjunct1] 4 p by simp_all
  show ?thesis
    by (intro conjI wf_portal_page k(2) p(2,4) 1 2 3 4 5)
qed

subsection \<open>On a navigator with the key and no object\<close>

lemma shim_loaded:
  "status_text (page_load Portal_js shim 9 portal_page) = Some msg_init_failed"
  "pending (page_load Portal_js shim 9 portal_page) = []"
  "ad_requests (page_load Portal_js shim 9 portal_page) = []"
  "init_position_pending (page_load Portal_js shim 9 portal_page) = 0"
  "geolocation_in_navigator shim" "\<not> geolocation shim"
  by code_simp+

text \<open>
  Claim C6. The claim at a navigator that has the key \<open>geolocation\<close> with a falsy value.
  \<open>initPortal\<close> tests \<open>"geolocation" in navigator\<close>, which holds, and then calls
  \<open>navigator.geolocation.getCurrentPosition\<close>, which throws. The listener of
  \<open>DOMContentLoaded\<close> catches the error and shows the "initialisation failed" status:
  no position request is pending, no ad request has been made, and none is made by any
  sequence of events afterwards. \<open>tryGetGeo\<close>, on the same navigator, tests the value and
  resolves with \<open>null\<close>.
\<close>

theorem initPortal_falsy_geolocation:
  "geolocation_in_navigator shim \<and> \<not> geolocation shim \<and>
   status_text (page_load Portal_js shim 9 portal_page) = Some msg_init_failed \<and>
   pending (page_load Portal_js shim 9 portal_page) = [] \<and>
   ad_requests (run (page_load Portal_js shim 9 portal_page) evs) = [] \<and>
   init_position_pending (run (page_load Portal_js shim 9 portal_page) evs) = 0 \<and>
   microtasks (tryGetGeo k (page_load Portal_js shim 9 portal_page)) = [(k, Fulfilled None)]"
proof -
  have hw: "heartbeat_wired (page_load Portal_js shim 9 portal_page)"
    by (simp add: page_load_wired)
  have "ad_requests (run (page_load Portal_js shim 9 portal_page) evs) = [] \<and>
        init_position_pending (run (page_load Portal_js shim 9 portal_page) evs) = 0"
    using run_no_initial_ad [OF hw shim_loaded(4), of evs] shim_loaded(3) by simp
  moreover have "microtasks (tryGetGeo k (page_load Portal_js shim 9 portal_page)) =
                   [(k, Fulfilled None)]"
    using shim_loaded(6) by (simp add: tryGetGeo_effects)
  ultimately show ?thesis
    using shim_loaded by simp
qed

end
